theory Spec2Isabelle
  imports Main "HOL-Library.Word"
begin

unbundle bit_operations_syntax

section \<open>The Surface Serial Hub transport of surfacegen5_acpi_notify_ssh.c\<close>

text \<open>
  A shallow embedding of the second, complete version of the driver in
  \<^verbatim>\<open>src/module/surfacegen5_acpi_notify_ssh.c\<close> (the text between the two document
  separators): frame encoder, receiver reassembler, request engine, event dispatch and
  the public request operation.

  The model is sequential. Mutex and spinlocks are left out. Everything the driver does to
  the outside (kernel log, bytes written to the serial device, work items put on the two
  work queues, handler calls) is appended to a trace, in program order. What the outside
  does to the driver (results of \<^verbatim>\<open>kzalloc\<close> and \<^verbatim>\<open>serdev_device_write\<close>, bytes that
  arrive while the request engine waits, content of the memory behind the received bytes)
  is read from scripts held in the state.
\<close>

type_synonym u8 = "8 word"
type_synonym u16 = "16 word"
type_synonym ulong = "64 word"

subsection \<open>Constants of the missing header surfacegen5_acpi_ssh.h\<close>

text \<open>
  \<^verbatim>\<open>SURFACEGEN5_RQID_EVENT_BITS\<close>, \<^verbatim>\<open>SURFACEGEN5_MAX_RQST_PAYLOAD\<close> and
  \<^verbatim>\<open>SURFACEGEN5_EVENT_IMMEDIATE\<close> are defined in a header that is not part of the sources;
  they are parameters of the model.
\<close>

record config =
  RQID_EVENT_BITS :: nat
  MAX_RQST_PAYLOAD :: nat
  EVENT_IMMEDIATE :: ulong

text \<open>A concrete choice of the parameters, used where a definition is evaluated.\<close>

definition sg5_config :: config where
  "sg5_config = \<lparr>RQID_EVENT_BITS = 5, MAX_RQST_PAYLOAD = 94, EVENT_IMMEDIATE = - 1\<rparr>"

subsection \<open>Sizes, offsets and frame types\<close>

definition SG5_BYTELEN_SYNC :: nat where "SG5_BYTELEN_SYNC = 2"
definition SG5_BYTELEN_TERM :: nat where "SG5_BYTELEN_TERM = 2"
definition SG5_BYTELEN_CRC :: nat where "SG5_BYTELEN_CRC = 2"
definition SG5_BYTELEN_CTRL :: nat where "SG5_BYTELEN_CTRL = 4"
definition SG5_BYTELEN_CMDFRAME :: nat where "SG5_BYTELEN_CMDFRAME = 8"

definition SG5_MAX_WRITE :: "config \<Rightarrow> nat" where
  "SG5_MAX_WRITE cfg =
     SG5_BYTELEN_SYNC + SG5_BYTELEN_CTRL + SG5_BYTELEN_CRC + SG5_BYTELEN_CMDFRAME
       + MAX_RQST_PAYLOAD cfg + SG5_BYTELEN_CRC"

definition SG5_MSG_LEN_CTRL :: nat where
  "SG5_MSG_LEN_CTRL = SG5_BYTELEN_SYNC + SG5_BYTELEN_CTRL + SG5_BYTELEN_CRC + SG5_BYTELEN_TERM"

definition SG5_MSG_LEN_CMD_BASE :: nat where
  "SG5_MSG_LEN_CMD_BASE =
     SG5_BYTELEN_SYNC + SG5_BYTELEN_CTRL + SG5_BYTELEN_CRC + SG5_BYTELEN_CRC"

definition SG5_NUM_RETRY :: nat where "SG5_NUM_RETRY = 3"
definition SG5_READ_BUF_LEN :: nat where "SG5_READ_BUF_LEN = 512"

definition SG5_FRAME_TYPE_CMD :: u8 where "SG5_FRAME_TYPE_CMD = 0x80"
definition SG5_FRAME_TYPE_ACK :: u8 where "SG5_FRAME_TYPE_ACK = 0x40"
definition SG5_FRAME_TYPE_RETRY :: u8 where "SG5_FRAME_TYPE_RETRY = 0x04"

definition SG5_FRAME_OFFS_CTRL :: nat where "SG5_FRAME_OFFS_CTRL = SG5_BYTELEN_SYNC"
definition SG5_FRAME_OFFS_CTRL_CRC :: nat where
  "SG5_FRAME_OFFS_CTRL_CRC = SG5_FRAME_OFFS_CTRL + SG5_BYTELEN_CTRL"
definition SG5_FRAME_OFFS_TERM :: nat where
  "SG5_FRAME_OFFS_TERM = SG5_FRAME_OFFS_CTRL_CRC + SG5_BYTELEN_CRC"
definition SG5_FRAME_OFFS_CMD :: nat where "SG5_FRAME_OFFS_CMD = SG5_FRAME_OFFS_TERM"
definition SG5_FRAME_OFFS_CMD_PLD :: nat where
  "SG5_FRAME_OFFS_CMD_PLD = SG5_FRAME_OFFS_CMD + SG5_BYTELEN_CMDFRAME"

lemmas sg5_sizes =
  SG5_BYTELEN_SYNC_def SG5_BYTELEN_TERM_def SG5_BYTELEN_CRC_def SG5_BYTELEN_CTRL_def
  SG5_BYTELEN_CMDFRAME_def SG5_MSG_LEN_CTRL_def SG5_MSG_LEN_CMD_BASE_def
  SG5_FRAME_OFFS_CTRL_def SG5_FRAME_OFFS_CTRL_CRC_def SG5_FRAME_OFFS_TERM_def
  SG5_FRAME_OFFS_CMD_def SG5_FRAME_OFFS_CMD_PLD_def

lemmas sg5_types = SG5_FRAME_TYPE_CMD_def SG5_FRAME_TYPE_ACK_def SG5_FRAME_TYPE_RETRY_def

text \<open>The error numbers of the kernel that the driver returns negated.\<close>

definition EPERM :: int where "EPERM = 1"
definition EIO :: int where "EIO = 5"
definition ENXIO :: int where "ENXIO = 6"
definition EINVAL :: int where "EINVAL = 22"

subsection \<open>Checksum\<close>

text \<open>
  Modelled from the spec: \<^verbatim>\<open>crc_ccitt_false\<close> of the kernel library
  (\<^verbatim>\<open>linux/crc-ccitt.h\<close>) is not part of the sources. It is CRC-CCITT-FALSE: polynomial
  0x1021, most significant bit first, no reflection, no final XOR; the caller gives the
  initial value.
\<close>

definition crc_ccitt_false_bit :: "u16 \<Rightarrow> u16" where
  "crc_ccitt_false_bit crc =
     (if bit crc 15 then push_bit 1 crc XOR 0x1021 else push_bit 1 crc)"

definition crc_ccitt_false_byte :: "u16 \<Rightarrow> u8 \<Rightarrow> u16" where
  "crc_ccitt_false_byte crc c = (crc_ccitt_false_bit ^^ 8) (crc XOR push_bit 8 (ucast c))"

definition crc_ccitt_false :: "u16 \<Rightarrow> u8 list \<Rightarrow> u16" where
  "crc_ccitt_false crc buf = foldl crc_ccitt_false_byte crc buf"

definition surfacegen5_ssh_crc :: "u8 list \<Rightarrow> u16" where
  "surfacegen5_ssh_crc buf = crc_ccitt_false 0xffff buf"

subsection \<open>Request ids\<close>

definition surfacegen5_rqid_to_rqst :: "config \<Rightarrow> u16 \<Rightarrow> u16" where
  "surfacegen5_rqid_to_rqst cfg rqid = push_bit (RQID_EVENT_BITS cfg) rqid"

definition surfacegen5_rqid_is_event :: "config \<Rightarrow> u16 \<Rightarrow> bool" where
  "surfacegen5_rqid_is_event cfg rqid =
     (let mask = push_bit (RQID_EVENT_BITS cfg) 1 - 1
      in rqid \<noteq> 0 \<and> (rqid OR mask) = mask)"

subsection \<open>Data\<close>

text \<open>
  \<^verbatim>\<open>struct surfacegen5_rqst\<close>, \<^verbatim>\<open>struct surfacegen5_buf\<close> and
  \<^verbatim>\<open>struct surfacegen5_event\<close> are declared in the missing header; their fields are
  the ones the code reads and writes. A pointer to bytes is the list of the bytes behind it.
  The fields of different structs that share a name carry the struct's name as a prefix.
\<close>

record surfacegen5_rqst =
  rqst_tc :: u8
  rqst_iid :: u8
  rqst_cid :: u8
  rqst_snc :: u8
  rqst_cdl :: u16
  rqst_pld :: "u8 list"

record surfacegen5_buf =
  buf_cap :: nat
  buf_len :: nat
  buf_data :: "u8 list"

record surfacegen5_event =
  evt_rqid :: u16
  evt_tc :: u8
  evt_iid :: u8
  evt_cid :: u8
  evt_len :: u16
  evt_pld :: "u8 list"

datatype surfacegen5_ec_state = SG5_EC_UNINITIALIZED | SG5_EC_INITIALIZED | SG5_EC_SUSPENDED

record surfacegen5_ec_counters =
  cnt_seq :: u8
  cnt_rqid :: u16

datatype surfacegen5_ec_receiver_state = SG5_RCV_DISCARD | SG5_RCV_CONTROL | SG5_RCV_COMMAND

text \<open>
  The receiver. \<open>signal\<close> is the count of the completion (\<^verbatim>\<open>complete\<close> adds one, a
  successful wait takes one, \<^verbatim>\<open>reinit_completion\<close> sets it to zero). \<open>fifo\<close> is the
  content of the kfifo of \<open>SG5_READ_BUF_LEN\<close> bytes, oldest byte first. The two anonymous
  structs \<^verbatim>\<open>expect\<close> and \<^verbatim>\<open>eval_buf\<close> are flattened; \<open>eval_buf_ptr\<close> holds the
  \<^verbatim>\<open>eval_buf.len\<close> bytes that are in use, so \<^verbatim>\<open>eval_buf.len\<close> is its length.
\<close>

record surfacegen5_ec_receiver =
  rcv_state :: surfacegen5_ec_receiver_state
  signal :: nat
  fifo :: "u8 list"
  expect_pld :: bool
  expect_seq :: u8
  expect_rqid :: u16
  eval_buf_cap :: nat
  eval_buf_ptr :: "u8 list"

text \<open>
  An entry of the handler table. The handler and the delay function are functions of the
  event and the registered data pointer; a handler returns its status.
\<close>

record surfacegen5_ec_event_handler =
  hnd_handler :: "(surfacegen5_event \<Rightarrow> nat \<Rightarrow> int) option"
  hnd_delay :: "(surfacegen5_event \<Rightarrow> nat \<Rightarrow> ulong) option"
  hnd_data :: nat

text \<open>
  The controller. \<open>writer\<close> holds the bytes between \<^verbatim>\<open>writer.data\<close> and
  \<^verbatim>\<open>writer.ptr\<close>; \<open>handler\<close> is the table \<^verbatim>\<open>events.handler\<close>, by index.
\<close>

record surfacegen5_ec =
  state :: surfacegen5_ec_state
  counter :: surfacegen5_ec_counters
  writer :: "u8 list"
  receiver :: surfacegen5_ec_receiver
  handler :: "nat \<Rightarrow> surfacegen5_ec_event_handler"

record surfacegen5_fifo_packet =
  pkt_type :: u8
  pkt_seq :: u8
  pkt_len :: u8

text \<open>The part of \<^verbatim>\<open>struct surfacegen5_event_work\<close> that carries data.\<close>

record surfacegen5_event_work =
  work_event :: surfacegen5_event
  work_seq :: u8

subsection \<open>Trace and environment\<close>

text \<open>The messages of \<^verbatim>\<open>dev_err\<close>, \<^verbatim>\<open>dev_warn\<close> and \<^verbatim>\<open>printk\<close>, one constructor each
  (\<^verbatim>\<open>dev_dbg\<close> is not recorded).\<close>

datatype log_msg =
    Invalid_start_of_message
  | Invalid_end_of_message
  | Invalid_checksum_ctrl
  | Ctrl_not_expected
  | Ack_does_not_match
  | Dropping_frame
  | Invalid_checksum_cmd_ctrl
  | Expected_command_frame_type u8
  | Invalid_checksum_cmd_pld
  | Unknown_frame_type u8
  | Failed_to_allocate
  | Failed_to_send_ack int
  | Unhandled_event u16
  | Error_handling_event int
  | Request_payload_too_large
  | Communication_failed nat
  | Communication_timed_out
  | Controller_uninitialized
  | Controller_suspended

datatype effect =
    Log log_msg
  | Serdev_write "u8 list"
  | Queue_ack surfacegen5_event_work
  | Queue_evt surfacegen5_event_work ulong
  | Call_handler surfacegen5_event nat

text \<open>
  The state of a run: the controller, the trace, and the scripts of the environment.
  \<open>kzalloc_script\<close> gives the outcome of the next allocations (\<open>False\<close>: it returns
  NULL), \<open>write_script\<close> the results of the next calls of \<^verbatim>\<open>serdev_device_write\<close>, and
  \<open>wait_script\<close> the chunks the serial device delivers to the receive callback during the
  next waits for the completion, and \<open>mem_script\<close> what the memory behind the received bytes
  holds at the next reads that leave the received bytes (see below). An exhausted script
  means: the allocation succeeds, the write returns 0, nothing arrives, the memory holds
  zeros.
\<close>

record world =
  ec :: surfacegen5_ec
  trace :: "effect list"
  kzalloc_script :: "bool list"
  write_script :: "int list"
  wait_script :: "u8 list list list"
  mem_script :: "u8 list list"

text \<open>
  The code reads some bytes without comparing their offset with \<open>size\<close> first. Such a read
  returns whatever the evaluation buffer holds behind the received bytes, or bytes behind
  the buffer. The receive path is modelled twice. In the first version, which carries the
  names of the functions of the source, the model does not invent these bytes: a run that
  reads \<open>n\<close> bytes at offset \<open>off\<close> with \<open>off + n\<close> greater than \<open>size\<close> ends with
  \<open>Read_past_size off n\<close>. In the second version (suffix \<open>_mem\<close>), which the request
  engine runs, such a read returns the bytes that the environment supplies in
  \<open>mem_script\<close>, and every run returns. The two versions agree on every run in which no
  read leaves the received bytes (lemmas \<open>eval_buf_mem_refines\<close> to
  \<open>serdev_deliver_mem_refines\<close>).
\<close>

datatype fault = Read_past_size nat nat

definition emit :: "effect \<Rightarrow> world \<Rightarrow> world" where
  "emit e w = w\<lparr>trace := trace w @ [e]\<rparr>"

definition log :: "log_msg \<Rightarrow> world \<Rightarrow> world" where
  "log m w = emit (Log m) w"

definition rcv :: "world \<Rightarrow> surfacegen5_ec_receiver" where
  "rcv w = receiver (ec w)"

definition rcv_update :: "(surfacegen5_ec_receiver \<Rightarrow> surfacegen5_ec_receiver) \<Rightarrow> world \<Rightarrow> world" where
  "rcv_update f w = w\<lparr>ec := (ec w)\<lparr>receiver := f (receiver (ec w))\<rparr>\<rparr>"

text \<open>The kernel services the code calls.\<close>

definition kzalloc :: "world \<Rightarrow> bool \<times> world" where
  "kzalloc w =
     (case kzalloc_script w of
        [] \<Rightarrow> (True, w)
      | ok # rest \<Rightarrow> (ok, w\<lparr>kzalloc_script := rest\<rparr>))"

definition serdev_device_write :: "u8 list \<Rightarrow> world \<Rightarrow> int \<times> world" where
  "serdev_device_write bytes w =
     (let w1 = emit (Serdev_write bytes) w
      in case write_script w1 of
           [] \<Rightarrow> (0, w1)
         | status # rest \<Rightarrow> (status, w1\<lparr>write_script := rest\<rparr>))"

definition kfifo_avail :: "u8 list \<Rightarrow> nat" where
  "kfifo_avail f = SG5_READ_BUF_LEN - length f"

definition kfifo_in :: "u8 list \<Rightarrow> world \<Rightarrow> world" where
  "kfifo_in bytes w =
     rcv_update (\<lambda>r. r\<lparr>fifo := fifo r @ take (kfifo_avail (fifo r)) bytes\<rparr>) w"

definition kfifo_out :: "nat \<Rightarrow> world \<Rightarrow> u8 list \<times> world" where
  "kfifo_out n w = (take n (fifo (rcv w)), rcv_update (\<lambda>r. r\<lparr>fifo := drop n (fifo r)\<rparr>) w)"

definition complete :: "world \<Rightarrow> world" where
  "complete w = rcv_update (\<lambda>r. r\<lparr>signal := signal r + 1\<rparr>) w"

subsection \<open>Writer\<close>

text \<open>
  The writer appends at \<^verbatim>\<open>writer.ptr\<close>; the model keeps the bytes written since the last
  reset. The buffer has \<open>SG5_MAX_WRITE\<close> bytes, which the request engine respects by
  refusing a payload longer than \<open>MAX_RQST_PAYLOAD\<close>. \<^verbatim>\<open>begin\<close> is the length of the
  writer when a function is entered.
\<close>

definition surfacegen5_ssh_write_u16 :: "u8 list \<Rightarrow> u16 \<Rightarrow> u8 list" where
  "surfacegen5_ssh_write_u16 wr v = wr @ [ucast v, ucast (drop_bit 8 v)]"

definition surfacegen5_ssh_write_crc :: "u8 list \<Rightarrow> u8 list \<Rightarrow> u8 list" where
  "surfacegen5_ssh_write_crc wr buf = surfacegen5_ssh_write_u16 wr (surfacegen5_ssh_crc buf)"

definition surfacegen5_ssh_write_syn :: "u8 list \<Rightarrow> u8 list" where
  "surfacegen5_ssh_write_syn wr = wr @ [0xaa, 0x55]"

definition surfacegen5_ssh_write_ter :: "u8 list \<Rightarrow> u8 list" where
  "surfacegen5_ssh_write_ter wr = wr @ [0xff, 0xff]"

definition surfacegen5_ssh_write_buf :: "u8 list \<Rightarrow> u8 list \<Rightarrow> nat \<Rightarrow> u8 list" where
  "surfacegen5_ssh_write_buf wr inp len = wr @ take len inp"

definition surfacegen5_ssh_write_hdr ::
  "u8 list \<Rightarrow> surfacegen5_rqst \<Rightarrow> surfacegen5_ec \<Rightarrow> u8 list" where
  "surfacegen5_ssh_write_hdr wr rqst e =
     (let begin = length wr;
          wr1 = wr @ [SG5_FRAME_TYPE_CMD,
                      ucast (word_of_nat SG5_BYTELEN_CMDFRAME + rqst_cdl rqst),
                      0x00,
                      cnt_seq (counter e)]
      in surfacegen5_ssh_write_crc wr1 (drop begin wr1))"

definition surfacegen5_ssh_write_cmd ::
  "config \<Rightarrow> u8 list \<Rightarrow> surfacegen5_rqst \<Rightarrow> surfacegen5_ec \<Rightarrow> u8 list" where
  "surfacegen5_ssh_write_cmd cfg wr rqst e =
     (let begin = length wr;
          rqid = surfacegen5_rqid_to_rqst cfg (cnt_rqid (counter e));
          rqid_lo = (ucast (rqid AND 0xFF) :: u8);
          rqid_hi = (ucast (drop_bit 8 rqid) :: u8);
          wr1 = wr @ [SG5_FRAME_TYPE_CMD, rqst_tc rqst, 0x01, 0x00, rqst_iid rqst,
                      rqid_lo, rqid_hi, rqst_cid rqst];
          wr2 = surfacegen5_ssh_write_buf wr1 (rqst_pld rqst) (unat (rqst_cdl rqst))
      in surfacegen5_ssh_write_crc wr2 (drop begin wr2))"

definition surfacegen5_ssh_write_ack :: "u8 list \<Rightarrow> u8 \<Rightarrow> u8 list" where
  "surfacegen5_ssh_write_ack wr ack_seq =
     (let begin = length wr;
          wr1 = wr @ [SG5_FRAME_TYPE_ACK, 0x00, 0x00, ack_seq]
      in surfacegen5_ssh_write_crc wr1 (drop begin wr1))"

definition surfacegen5_ssh_writer_reset :: "u8 list \<Rightarrow> u8 list" where
  "surfacegen5_ssh_writer_reset wr = []"

definition surfacegen5_ssh_writer_flush :: "world \<Rightarrow> int \<times> world" where
  "surfacegen5_ssh_writer_flush w = serdev_device_write (writer (ec w)) w"

definition surfacegen5_ssh_write_msg_cmd :: "config \<Rightarrow> surfacegen5_ec \<Rightarrow> surfacegen5_rqst \<Rightarrow> surfacegen5_ec" where
  "surfacegen5_ssh_write_msg_cmd cfg e rqst =
     (let wr0 = surfacegen5_ssh_writer_reset (writer e);
          wr1 = surfacegen5_ssh_write_syn wr0;
          wr2 = surfacegen5_ssh_write_hdr wr1 rqst e;
          wr3 = surfacegen5_ssh_write_cmd cfg wr2 rqst e
      in e\<lparr>writer := wr3\<rparr>)"

definition surfacegen5_ssh_write_msg_ack :: "surfacegen5_ec \<Rightarrow> u8 \<Rightarrow> surfacegen5_ec" where
  "surfacegen5_ssh_write_msg_ack e ack_seq =
     (let wr0 = surfacegen5_ssh_writer_reset (writer e);
          wr1 = surfacegen5_ssh_write_syn wr0;
          wr2 = surfacegen5_ssh_write_ack wr1 ack_seq;
          wr3 = surfacegen5_ssh_write_ter wr2
      in e\<lparr>writer := wr3\<rparr>)"

subsection \<open>Receiver: validation\<close>

text \<open>A pointer into the buffer is the list of the bytes from there on; \<open>n\<close> is
  \<^verbatim>\<open>end - begin\<close>.\<close>

definition surfacegen5_ssh_is_valid_syn :: "u8 list \<Rightarrow> bool" where
  "surfacegen5_ssh_is_valid_syn p = (p ! 0 = 0xaa \<and> p ! 1 = 0x55)"

definition surfacegen5_ssh_is_valid_ter :: "u8 list \<Rightarrow> bool" where
  "surfacegen5_ssh_is_valid_ter p = (p ! 0 = 0xff \<and> p ! 1 = 0xff)"

definition surfacegen5_ssh_is_valid_crc :: "u8 list \<Rightarrow> nat \<Rightarrow> bool" where
  "surfacegen5_ssh_is_valid_crc begin n =
     (let crc = surfacegen5_ssh_crc (take n begin)
      in (ucast (begin ! n) = crc AND 0xff) \<and> (ucast (begin ! (n + 1)) = drop_bit 8 crc))"

text \<open>The fields of the two frames, read at their offsets in the message.\<close>

definition ctrl_type :: "u8 list \<Rightarrow> u8" where "ctrl_type buf = buf ! SG5_FRAME_OFFS_CTRL"
definition ctrl_len :: "u8 list \<Rightarrow> u8" where "ctrl_len buf = buf ! (SG5_FRAME_OFFS_CTRL + 1)"
definition ctrl_seq :: "u8 list \<Rightarrow> u8" where "ctrl_seq buf = buf ! (SG5_FRAME_OFFS_CTRL + 3)"

definition cmd_type :: "u8 list \<Rightarrow> u8" where "cmd_type buf = buf ! SG5_FRAME_OFFS_CMD"
definition cmd_tc :: "u8 list \<Rightarrow> u8" where "cmd_tc buf = buf ! (SG5_FRAME_OFFS_CMD + 1)"
definition cmd_iid :: "u8 list \<Rightarrow> u8" where "cmd_iid buf = buf ! (SG5_FRAME_OFFS_CMD + 4)"
definition cmd_rqid_lo :: "u8 list \<Rightarrow> u8" where "cmd_rqid_lo buf = buf ! (SG5_FRAME_OFFS_CMD + 5)"
definition cmd_rqid_hi :: "u8 list \<Rightarrow> u8" where "cmd_rqid_hi buf = buf ! (SG5_FRAME_OFFS_CMD + 6)"
definition cmd_cid :: "u8 list \<Rightarrow> u8" where "cmd_cid buf = buf ! (SG5_FRAME_OFFS_CMD + 7)"

definition cmd_rqid :: "u8 list \<Rightarrow> u16" where
  "cmd_rqid buf = push_bit 8 (ucast (cmd_rqid_hi buf)) OR ucast (cmd_rqid_lo buf)"

lemmas sg5_fields =
  ctrl_type_def ctrl_len_def ctrl_seq_def cmd_type_def cmd_tc_def cmd_iid_def
  cmd_rqid_lo_def cmd_rqid_hi_def cmd_cid_def

subsection \<open>Event dispatch\<close>

definition surfacegen5_ssh_send_ack :: "world \<Rightarrow> u8 \<Rightarrow> int \<times> world" where
  "surfacegen5_ssh_send_ack w ack_seq =
     (let buf = [0xaa, 0x55, 0x40, 0x00, 0x00, ack_seq];
          crc = surfacegen5_ssh_crc (take SG5_BYTELEN_CTRL (drop SG5_FRAME_OFFS_CTRL buf));
          buf = buf @ [ucast (crc AND 0xff), ucast (drop_bit 8 crc), 0xff, 0xff]
      in serdev_device_write buf w)"

text \<open>The two work functions. The reference count and the release of the work item are
  not modelled.\<close>

definition surfacegen5_event_work_ack_handler :: "world \<Rightarrow> surfacegen5_event_work \<Rightarrow> world" where
  "surfacegen5_event_work_ack_handler w work =
     (if state (ec w) = SG5_EC_INITIALIZED
      then (case surfacegen5_ssh_send_ack w (work_seq work) of
              (status, w1) \<Rightarrow> if status \<noteq> 0 then log (Failed_to_send_ack status) w1 else w1)
      else w)"

definition surfacegen5_event_work_evt_handler :: "world \<Rightarrow> surfacegen5_event_work \<Rightarrow> world" where
  "surfacegen5_event_work_evt_handler w work =
     (let event = work_event work;
          h = handler (ec w) (unat (evt_rqid event) - 1)
      in case hnd_handler h of
           Some f \<Rightarrow>
             (let w1 = emit (Call_handler event (hnd_data h)) w;
                  status = f event (hnd_data h)
              in if status \<noteq> 0 then log (Error_handling_event status) w1 else w1)
         | None \<Rightarrow> log (Unhandled_event (evt_rqid event)) w)"

definition event_pld_len :: "u8 list \<Rightarrow> u16" where
  "event_pld_len buf = ucast (ctrl_len buf) - word_of_nat SG5_BYTELEN_CMDFRAME"

definition surfacegen5_ssh_handle_event :: "config \<Rightarrow> world \<Rightarrow> u8 list \<Rightarrow> fault + world" where
  "surfacegen5_ssh_handle_event cfg w buf =
     (let pld_len = event_pld_len buf
      in case kzalloc w of
           (False, w1) \<Rightarrow> Inr (log Failed_to_allocate w1)
         | (True, w1) \<Rightarrow>
             if length buf < SG5_FRAME_OFFS_CMD + SG5_BYTELEN_CMDFRAME
             then Inl (Read_past_size SG5_FRAME_OFFS_CMD SG5_BYTELEN_CMDFRAME)
             else if length buf < SG5_FRAME_OFFS_CMD_PLD + unat pld_len
             then Inl (Read_past_size SG5_FRAME_OFFS_CMD_PLD (unat pld_len))
             else
               (let event = \<lparr>evt_rqid = push_bit 8 (ucast (cmd_rqid_hi buf)) OR ucast (cmd_rqid_lo buf),
                             evt_tc = cmd_tc buf, evt_iid = cmd_iid buf, evt_cid = cmd_cid buf,
                             evt_len = pld_len,
                             evt_pld = take (unat pld_len) (drop SG5_FRAME_OFFS_CMD_PLD buf)\<rparr>;
                    work = \<lparr>work_event = event, work_seq = ctrl_seq buf\<rparr>;
                    w2 = emit (Queue_ack work) w1;
                    h = handler (ec w2) (unat (evt_rqid event) - 1);
                    delay = (case hnd_delay h of None \<Rightarrow> 0 | Some delay_fn \<Rightarrow> delay_fn event (hnd_data h))
                in if delay = EVENT_IMMEDIATE cfg
                   then Inr (surfacegen5_event_work_evt_handler w2 work)
                   else Inr (emit (Queue_evt work delay) w2)))"

subsection \<open>Receiver: evaluation of the buffer\<close>

text \<open>
  \<open>buf\<close> is the list of the \<open>size\<close> bytes behind the pointer, so \<open>size\<close> is
  \<open>length buf\<close>. The functions return the number of bytes to throw away (0: more bytes are
  needed) and the new state.
\<close>

definition surfacegen5_ssh_receive_msg_ctrl :: "world \<Rightarrow> u8 list \<Rightarrow> nat \<times> world" where
  "surfacegen5_ssh_receive_msg_ctrl w buf =
     (if length buf < SG5_MSG_LEN_CTRL then (0, w)
      else if \<not> surfacegen5_ssh_is_valid_ter (drop SG5_FRAME_OFFS_TERM buf)
      then (length buf, log Invalid_end_of_message w)
      else if \<not> surfacegen5_ssh_is_valid_crc (drop SG5_FRAME_OFFS_CTRL buf) SG5_BYTELEN_CTRL
      then (SG5_MSG_LEN_CTRL, log Invalid_checksum_ctrl w)
      else if rcv_state (rcv w) \<noteq> SG5_RCV_CONTROL
      then (SG5_MSG_LEN_CTRL, log Ctrl_not_expected w)
      else if ctrl_type buf = SG5_FRAME_TYPE_ACK \<and> ctrl_seq buf \<noteq> expect_seq (rcv w)
      then (SG5_MSG_LEN_CTRL, log Ack_does_not_match w)
      else if kfifo_avail (fifo (rcv w)) \<ge> 3
      then
        (let w1 = kfifo_in [ctrl_type buf, ctrl_seq buf, 0] w;
             w2 = (if ctrl_type buf = SG5_FRAME_TYPE_ACK
                   then rcv_update (\<lambda>r. r\<lparr>rcv_state :=
                          (if expect_pld r then SG5_RCV_COMMAND else SG5_RCV_DISCARD)\<rparr>) w1
                   else w1)
         in (SG5_MSG_LEN_CTRL, complete w2))
      else (SG5_MSG_LEN_CTRL, log Dropping_frame w))"

definition surfacegen5_ssh_receive_msg_cmd ::
  "config \<Rightarrow> world \<Rightarrow> u8 list \<Rightarrow> fault + nat \<times> world" where
  "surfacegen5_ssh_receive_msg_cmd cfg w buf =
     (if length buf < SG5_BYTELEN_SYNC + SG5_BYTELEN_CTRL + SG5_BYTELEN_CRC then Inr (0, w)
      else if \<not> surfacegen5_ssh_is_valid_crc (drop SG5_FRAME_OFFS_CTRL buf) SG5_BYTELEN_CTRL
      then Inr (length buf, log Invalid_checksum_cmd_ctrl w)
      else
        (let msg_len = SG5_MSG_LEN_CMD_BASE + unat (ctrl_len buf)
         in if length buf < msg_len then Inr (0, w)
            else if cmd_type buf \<noteq> SG5_FRAME_TYPE_CMD
            then Inr (length buf, log (Expected_command_frame_type (cmd_type buf)) w)
            else if \<not> surfacegen5_ssh_is_valid_crc (drop SG5_FRAME_OFFS_CMD buf) (unat (ctrl_len buf))
            then Inr (msg_len, log Invalid_checksum_cmd_pld w)
            else if length buf < SG5_FRAME_OFFS_CMD + 7
            then Inl (Read_past_size (SG5_FRAME_OFFS_CMD + 5) 2)
            else if surfacegen5_rqid_is_event cfg (cmd_rqid buf)
            then (case surfacegen5_ssh_handle_event cfg w buf of
                    Inl f \<Rightarrow> Inl f
                  | Inr w1 \<Rightarrow> Inr (msg_len, w1))
            else if rcv_state (rcv w) \<noteq> SG5_RCV_COMMAND then Inr (msg_len, w)
            else if expect_rqid (rcv w) \<noteq> cmd_rqid buf then Inr (msg_len, w)
            else
              (let packet_len = (ctrl_len buf - word_of_nat SG5_BYTELEN_CMDFRAME :: u8)
               in if kfifo_avail (fifo (rcv w)) \<ge> 3 + unat packet_len
                  then
                    if length buf < SG5_FRAME_OFFS_CMD_PLD + unat packet_len
                    then Inl (Read_past_size SG5_FRAME_OFFS_CMD_PLD (unat packet_len))
                    else
                      (let w1 = kfifo_in [ctrl_type buf, ctrl_seq buf, packet_len] w;
                           w2 = kfifo_in (take (unat packet_len) (drop SG5_FRAME_OFFS_CMD_PLD buf)) w1;
                           w3 = rcv_update (\<lambda>r. r\<lparr>rcv_state := SG5_RCV_DISCARD\<rparr>) w2
                       in Inr (msg_len, complete w3))
                  else Inr (SG5_MSG_LEN_CTRL, log Dropping_frame w))))"

definition surfacegen5_ssh_eval_buf :: "config \<Rightarrow> world \<Rightarrow> u8 list \<Rightarrow> fault + nat \<times> world" where
  "surfacegen5_ssh_eval_buf cfg w buf =
     (if length buf < SG5_BYTELEN_SYNC + SG5_BYTELEN_CTRL then Inr (0, w)
      else if \<not> surfacegen5_ssh_is_valid_syn buf
      then Inr (length buf, log Invalid_start_of_message w)
      else if ctrl_type buf = SG5_FRAME_TYPE_ACK \<or> ctrl_type buf = SG5_FRAME_TYPE_RETRY
      then Inr (surfacegen5_ssh_receive_msg_ctrl w buf)
      else if ctrl_type buf = SG5_FRAME_TYPE_CMD
      then surfacegen5_ssh_receive_msg_cmd cfg w buf
      else Inr (length buf, log (Unknown_frame_type (ctrl_type buf)) w))"

subsection \<open>Receiver: the receive callback\<close>

text \<open>
  The loop of \<^verbatim>\<open>surfacegen5_ssh_receive_buf\<close> that evaluates the buffer from offset
  \<open>offs\<close> on until more bytes are needed or the buffer is used up. It returns the final
  offset.
\<close>

function receive_buf_loop :: "config \<Rightarrow> world \<Rightarrow> nat \<Rightarrow> fault + nat \<times> world" where
  "receive_buf_loop cfg w offs =
     (if offs < length (eval_buf_ptr (rcv w))
      then (case surfacegen5_ssh_eval_buf cfg w (drop offs (eval_buf_ptr (rcv w))) of
              Inl f \<Rightarrow> Inl f
            | Inr (n, w1) \<Rightarrow>
                if n \<le> 0 then Inr (offs, w1)
                else receive_buf_loop cfg w1 (offs + n))
      else Inr (offs, w))"
  by pat_completeness auto
termination
proof (relation "measure (\<lambda>(cfg, w, offs). length (eval_buf_ptr (rcv w)) - offs)", goal_cases)
  case 1
  show ?case by simp
next
  case (2 cfg w offs res n w1)
  let ?p = "\<lambda>w. eval_buf_ptr (rcv w)"
  have emit: "\<And>e w. ?p (emit e w) = ?p w" and log: "\<And>m w. ?p (log m w) = ?p w"
    by (simp_all add: log_def emit_def rcv_def)
  have prim: "\<And>w. ?p (complete w) = ?p w" "\<And>bs w. ?p (kfifo_in bs w) = ?p w"
    "\<And>g w. ?p (rcv_update (\<lambda>r. r\<lparr>rcv_state := g r\<rparr>) w) = ?p w"
    by (simp_all add: complete_def kfifo_in_def rcv_def rcv_update_def)
  have alloc: "\<And>w. ?p (snd (kzalloc w)) = ?p w"
    by (simp add: kzalloc_def rcv_def split: list.split)
  have evt: "\<And>w k. ?p (surfacegen5_event_work_evt_handler w k) = ?p w"
    by (simp add: surfacegen5_event_work_evt_handler_def Let_def emit log split: option.split)
  have handle: "\<And>w buf w1. surfacegen5_ssh_handle_event cfg w buf = Inr w1 \<Longrightarrow> ?p w1 = ?p w"
  proof -
    fix w buf w1
    assume h: "surfacegen5_ssh_handle_event cfg w buf = Inr w1"
    obtain ok w2 where k: "kzalloc w = (ok, w2)" by (cases "kzalloc w")
    with alloc [of w] have "?p w2 = ?p w" by simp
    with h k show "?p w1 = ?p w"
      unfolding surfacegen5_ssh_handle_event_def Let_def
      by (cases ok) (auto simp add: emit log evt split: if_splits)
  qed
  have ctrl: "\<And>w buf. ?p (snd (surfacegen5_ssh_receive_msg_ctrl w buf)) = ?p w"
    by (simp add: surfacegen5_ssh_receive_msg_ctrl_def Let_def log prim)
  have cmd: "\<And>w buf n w1. surfacegen5_ssh_receive_msg_cmd cfg w buf = Inr (n, w1) \<Longrightarrow> ?p w1 = ?p w"
    unfolding surfacegen5_ssh_receive_msg_cmd_def Let_def
    by (auto simp add: log prim split: if_splits sum.splits dest: handle)
  have "?p w1 = ?p w"
    using 2(2,3) unfolding surfacegen5_ssh_eval_buf_def
    by (auto simp add: log split: if_splits dest: cmd) (metis ctrl snd_conv)+
  with 2 show ?case by simp
qed

declare receive_buf_loop.simps [simp del]

definition surfacegen5_ssh_receive_buf :: "config \<Rightarrow> world \<Rightarrow> u8 list \<Rightarrow> fault + nat \<times> world" where
  "surfacegen5_ssh_receive_buf cfg w buf =
     (let used = min (length buf) (eval_buf_cap (rcv w) - length (eval_buf_ptr (rcv w)));
          w1 = rcv_update (\<lambda>r. r\<lparr>eval_buf_ptr := eval_buf_ptr r @ take used buf\<rparr>) w
      in case receive_buf_loop cfg w1 0 of
           Inl f \<Rightarrow> Inl f
         | Inr (offs, w2) \<Rightarrow>
             Inr (used, rcv_update (\<lambda>r. r\<lparr>eval_buf_ptr := drop offs (eval_buf_ptr r)\<rparr>) w2))"

text \<open>
  The serial device core hands the chunks it receives to the receive callback, one after
  the other.
\<close>

fun serdev_deliver :: "config \<Rightarrow> u8 list list \<Rightarrow> world \<Rightarrow> fault + world" where
  "serdev_deliver cfg [] w = Inr w"
| "serdev_deliver cfg (chunk # chunks) w =
     (case surfacegen5_ssh_receive_buf cfg w chunk of
        Inl f \<Rightarrow> Inl f
      | Inr (used, w1) \<Rightarrow> serdev_deliver cfg chunks w1)"

subsection \<open>Receiver: the receive path with the memory behind the received bytes\<close>

text \<open>
  What the code sees when it reads the message up to the offset \<open>e\<close>: the received bytes
  if they reach that far; if not, the received bytes followed by what the memory behind
  them holds, which the next entry of \<open>mem_script\<close> gives (zeros where the entry ends).
\<close>

definition memory_upto :: "nat \<Rightarrow> u8 list \<Rightarrow> world \<Rightarrow> u8 list \<times> world" where
  "memory_upto e buf w =
     (if e \<le> length buf then (buf, w)
      else case mem_script w of
             [] \<Rightarrow> (take e (buf @ replicate e 0), w)
           | m # rest \<Rightarrow> (take e (buf @ m @ replicate e 0), w\<lparr>mem_script := rest\<rparr>))"

text \<open>
  The functions of the receive path that read without a check of \<open>size\<close>, and their
  callers, with these reads answered by \<open>memory_upto\<close>: the command frame and the payload
  in \<^verbatim>\<open>surfacegen5_ssh_handle_event\<close>, the request id and the payload of the response in
  \<^verbatim>\<open>surfacegen5_ssh_receive_msg_cmd\<close>.
\<close>

definition surfacegen5_ssh_handle_event_mem :: "config \<Rightarrow> world \<Rightarrow> u8 list \<Rightarrow> world" where
  "surfacegen5_ssh_handle_event_mem cfg w buf =
     (let pld_len = event_pld_len buf
      in case kzalloc w of
           (False, w1) \<Rightarrow> log Failed_to_allocate w1
         | (True, w1) \<Rightarrow>
             (case memory_upto (SG5_FRAME_OFFS_CMD + SG5_BYTELEN_CMDFRAME) buf w1 of
                (frame, w2) \<Rightarrow>
                  (case memory_upto (SG5_FRAME_OFFS_CMD_PLD + unat pld_len) buf w2 of
                     (msg, w3) \<Rightarrow>
                       (let event = \<lparr>evt_rqid = push_bit 8 (ucast (cmd_rqid_hi frame))
                                                  OR ucast (cmd_rqid_lo frame),
                                     evt_tc = cmd_tc frame, evt_iid = cmd_iid frame,
                                     evt_cid = cmd_cid frame, evt_len = pld_len,
                                     evt_pld = take (unat pld_len) (drop SG5_FRAME_OFFS_CMD_PLD msg)\<rparr>;
                            work = \<lparr>work_event = event, work_seq = ctrl_seq buf\<rparr>;
                            w4 = emit (Queue_ack work) w3;
                            h = handler (ec w4) (unat (evt_rqid event) - 1);
                            delay = (case hnd_delay h of
                                       None \<Rightarrow> 0
                                     | Some delay_fn \<Rightarrow> delay_fn event (hnd_data h))
                        in if delay = EVENT_IMMEDIATE cfg
                           then surfacegen5_event_work_evt_handler w4 work
                           else emit (Queue_evt work delay) w4))))"

definition surfacegen5_ssh_receive_msg_cmd_mem :: "config \<Rightarrow> world \<Rightarrow> u8 list \<Rightarrow> nat \<times> world" where
  "surfacegen5_ssh_receive_msg_cmd_mem cfg w buf =
     (if length buf < SG5_BYTELEN_SYNC + SG5_BYTELEN_CTRL + SG5_BYTELEN_CRC then (0, w)
      else if \<not> surfacegen5_ssh_is_valid_crc (drop SG5_FRAME_OFFS_CTRL buf) SG5_BYTELEN_CTRL
      then (length buf, log Invalid_checksum_cmd_ctrl w)
      else
        (let msg_len = SG5_MSG_LEN_CMD_BASE + unat (ctrl_len buf)
         in if length buf < msg_len then (0, w)
            else if cmd_type buf \<noteq> SG5_FRAME_TYPE_CMD
            then (length buf, log (Expected_command_frame_type (cmd_type buf)) w)
            else if \<not> surfacegen5_ssh_is_valid_crc (drop SG5_FRAME_OFFS_CMD buf) (unat (ctrl_len buf))
            then (msg_len, log Invalid_checksum_cmd_pld w)
            else
              (case memory_upto (SG5_FRAME_OFFS_CMD + 7) buf w of
                 (frame, w0) \<Rightarrow>
                   if surfacegen5_rqid_is_event cfg (cmd_rqid frame)
                   then (msg_len, surfacegen5_ssh_handle_event_mem cfg w0 buf)
                   else if rcv_state (rcv w0) \<noteq> SG5_RCV_COMMAND then (msg_len, w0)
                   else if expect_rqid (rcv w0) \<noteq> cmd_rqid frame then (msg_len, w0)
                   else
                     (let packet_len = (ctrl_len buf - word_of_nat SG5_BYTELEN_CMDFRAME :: u8)
                      in if kfifo_avail (fifo (rcv w0)) \<ge> 3 + unat packet_len
                         then
                           (case memory_upto (SG5_FRAME_OFFS_CMD_PLD + unat packet_len) buf w0 of
                              (msg, w1) \<Rightarrow>
                                (let w2 = kfifo_in [ctrl_type buf, ctrl_seq buf, packet_len] w1;
                                     w3 = kfifo_in (take (unat packet_len)
                                                      (drop SG5_FRAME_OFFS_CMD_PLD msg)) w2;
                                     w4 = rcv_update (\<lambda>r. r\<lparr>rcv_state := SG5_RCV_DISCARD\<rparr>) w3
                                 in (msg_len, complete w4)))
                         else (SG5_MSG_LEN_CTRL, log Dropping_frame w0)))))"

definition surfacegen5_ssh_eval_buf_mem :: "config \<Rightarrow> world \<Rightarrow> u8 list \<Rightarrow> nat \<times> world" where
  "surfacegen5_ssh_eval_buf_mem cfg w buf =
     (if length buf < SG5_BYTELEN_SYNC + SG5_BYTELEN_CTRL then (0, w)
      else if \<not> surfacegen5_ssh_is_valid_syn buf
      then (length buf, log Invalid_start_of_message w)
      else if ctrl_type buf = SG5_FRAME_TYPE_ACK \<or> ctrl_type buf = SG5_FRAME_TYPE_RETRY
      then surfacegen5_ssh_receive_msg_ctrl w buf
      else if ctrl_type buf = SG5_FRAME_TYPE_CMD
      then surfacegen5_ssh_receive_msg_cmd_mem cfg w buf
      else (length buf, log (Unknown_frame_type (ctrl_type buf)) w))"

function receive_buf_loop_mem :: "config \<Rightarrow> world \<Rightarrow> nat \<Rightarrow> nat \<times> world" where
  "receive_buf_loop_mem cfg w offs =
     (if offs < length (eval_buf_ptr (rcv w))
      then (case surfacegen5_ssh_eval_buf_mem cfg w (drop offs (eval_buf_ptr (rcv w))) of
              (n, w1) \<Rightarrow>
                if n \<le> 0 then (offs, w1)
                else receive_buf_loop_mem cfg w1 (offs + n))
      else (offs, w))"
  by pat_completeness auto
termination
proof (relation "measure (\<lambda>(cfg, w, offs). length (eval_buf_ptr (rcv w)) - offs)", goal_cases)
  case 1
  show ?case by simp
next
  case (2 cfg w offs n w1)
  let ?p = "\<lambda>w. eval_buf_ptr (rcv w)"
  have emit: "\<And>e w. ?p (emit e w) = ?p w" and log: "\<And>m w. ?p (log m w) = ?p w"
    by (simp_all add: log_def emit_def rcv_def)
  have prim: "\<And>w. ?p (complete w) = ?p w" "\<And>bs w. ?p (kfifo_in bs w) = ?p w"
    "\<And>g w. ?p (rcv_update (\<lambda>r. r\<lparr>rcv_state := g r\<rparr>) w) = ?p w"
    by (simp_all add: complete_def kfifo_in_def rcv_def rcv_update_def)
  have alloc: "\<And>w. ?p (snd (kzalloc w)) = ?p w"
    by (simp add: kzalloc_def rcv_def split: list.split)
  have mem: "\<And>e buf w. ?p (snd (memory_upto e buf w)) = ?p w"
    by (simp add: memory_upto_def rcv_def split: list.split)
  have evt: "\<And>w k. ?p (surfacegen5_event_work_evt_handler w k) = ?p w"
    by (simp add: surfacegen5_event_work_evt_handler_def Let_def emit log split: option.split)
  have handle: "\<And>w buf. ?p (surfacegen5_ssh_handle_event_mem cfg w buf) = ?p w"
  proof -
    fix w buf
    obtain ok w2 where k: "kzalloc w = (ok, w2)" by (cases "kzalloc w")
    with alloc [of w] have a: "?p w2 = ?p w" by simp
    obtain fr w3 where m1: "memory_upto (SG5_FRAME_OFFS_CMD + SG5_BYTELEN_CMDFRAME) buf w2 = (fr, w3)"
      by (cases "memory_upto (SG5_FRAME_OFFS_CMD + SG5_BYTELEN_CMDFRAME) buf w2")
    with mem [of "SG5_FRAME_OFFS_CMD + SG5_BYTELEN_CMDFRAME" buf w2] have b: "?p w3 = ?p w2" by simp
    obtain ms w4 where
      m2: "memory_upto (SG5_FRAME_OFFS_CMD_PLD + unat (event_pld_len buf)) buf w3 = (ms, w4)"
      by (cases "memory_upto (SG5_FRAME_OFFS_CMD_PLD + unat (event_pld_len buf)) buf w3")
    with mem [of "SG5_FRAME_OFFS_CMD_PLD + unat (event_pld_len buf)" buf w3]
    have c: "?p w4 = ?p w3" by simp
    from k m1 m2 a b c show "?p (surfacegen5_ssh_handle_event_mem cfg w buf) = ?p w"
      unfolding surfacegen5_ssh_handle_event_mem_def Let_def
      by (cases ok) (simp_all add: emit log evt)
  qed
  have cmd: "\<And>w buf. ?p (snd (surfacegen5_ssh_receive_msg_cmd_mem cfg w buf)) = ?p w"
  proof -
    fix w buf
    obtain fr w0 where m1: "memory_upto (SG5_FRAME_OFFS_CMD + 7) buf w = (fr, w0)"
      by (cases "memory_upto (SG5_FRAME_OFFS_CMD + 7) buf w")
    with mem [of "SG5_FRAME_OFFS_CMD + 7" buf w] have a: "?p w0 = ?p w" by simp
    obtain ms w1 where m2: "memory_upto (SG5_FRAME_OFFS_CMD_PLD
        + unat (ctrl_len buf - word_of_nat SG5_BYTELEN_CMDFRAME)) buf w0 = (ms, w1)"
      by (cases "memory_upto (SG5_FRAME_OFFS_CMD_PLD
        + unat (ctrl_len buf - word_of_nat SG5_BYTELEN_CMDFRAME)) buf w0")
    with mem [of "SG5_FRAME_OFFS_CMD_PLD + unat (ctrl_len buf - word_of_nat SG5_BYTELEN_CMDFRAME)"
        buf w0]
    have b: "?p w1 = ?p w0" by simp
    from m1 m2 a b show "?p (snd (surfacegen5_ssh_receive_msg_cmd_mem cfg w buf)) = ?p w"
      unfolding surfacegen5_ssh_receive_msg_cmd_mem_def Let_def
      by (simp add: log prim handle)
  qed
  have ctrl: "\<And>w buf. ?p (snd (surfacegen5_ssh_receive_msg_ctrl w buf)) = ?p w"
    by (simp add: surfacegen5_ssh_receive_msg_ctrl_def Let_def log prim)
  have "?p (snd (surfacegen5_ssh_eval_buf_mem cfg w (drop offs (?p w)))) = ?p w"
    unfolding surfacegen5_ssh_eval_buf_mem_def by (simp add: log ctrl cmd)
  with 2(2) [symmetric] have "?p w1 = ?p w" by simp
  with 2 show ?case by simp
qed

declare receive_buf_loop_mem.simps [simp del]

definition surfacegen5_ssh_receive_buf_mem :: "config \<Rightarrow> world \<Rightarrow> u8 list \<Rightarrow> nat \<times> world" where
  "surfacegen5_ssh_receive_buf_mem cfg w buf =
     (let used = min (length buf) (eval_buf_cap (rcv w) - length (eval_buf_ptr (rcv w)));
          w1 = rcv_update (\<lambda>r. r\<lparr>eval_buf_ptr := eval_buf_ptr r @ take used buf\<rparr>) w
      in case receive_buf_loop_mem cfg w1 0 of
           (offs, w2) \<Rightarrow>
             (used, rcv_update (\<lambda>r. r\<lparr>eval_buf_ptr := drop offs (eval_buf_ptr r)\<rparr>) w2))"

fun serdev_deliver_mem :: "config \<Rightarrow> u8 list list \<Rightarrow> world \<Rightarrow> world" where
  "serdev_deliver_mem cfg [] w = w"
| "serdev_deliver_mem cfg (chunk # chunks) w =
     serdev_deliver_mem cfg chunks (snd (surfacegen5_ssh_receive_buf_mem cfg w chunk))"

text \<open>
  A wait for the completion lets the chunks of the next entry of \<open>wait_script\<close> arrive,
  then takes the completion if it was signalled and times out (result 0) if not.
\<close>

definition wait_for_completion_timeout :: "config \<Rightarrow> world \<Rightarrow> nat \<times> world" where
  "wait_for_completion_timeout cfg w =
     (let (chunks, w1) = (case wait_script w of
                            [] \<Rightarrow> ([], w)
                          | cs # rest \<Rightarrow> (cs, w\<lparr>wait_script := rest\<rparr>));
          w2 = serdev_deliver_mem cfg chunks w1
      in if signal (rcv w2) = 0 then (0, w2)
         else (1, rcv_update (\<lambda>r. r\<lparr>signal := signal r - 1\<rparr>) w2))"

subsection \<open>Request engine\<close>

definition surfacegen5_ssh_receiver_restart :: "config \<Rightarrow> world \<Rightarrow> surfacegen5_rqst \<Rightarrow> world" where
  "surfacegen5_ssh_receiver_restart cfg w rqst =
     rcv_update (\<lambda>r. r\<lparr>signal := 0,
                          rcv_state := SG5_RCV_CONTROL,
                          expect_pld := (rqst_snc rqst \<noteq> 0),
                          expect_seq := cnt_seq (counter (ec w)),
                          expect_rqid := surfacegen5_rqid_to_rqst cfg (cnt_rqid (counter (ec w))),
                          eval_buf_ptr := []\<rparr>) w"

definition surfacegen5_ssh_receiver_discard :: "world \<Rightarrow> world" where
  "surfacegen5_ssh_receiver_discard w =
     rcv_update (\<lambda>r. r\<lparr>rcv_state := SG5_RCV_DISCARD, eval_buf_ptr := [], fifo := []\<rparr>) w"

text \<open>\<^verbatim>\<open>kfifo_out\<close> into the packet: the bytes the fifo has overwrite the packet from its
  first byte on.\<close>

definition kfifo_out_packet :: "surfacegen5_fifo_packet \<Rightarrow> world \<Rightarrow> surfacegen5_fifo_packet \<times> world" where
  "kfifo_out_packet packet w =
     (let (bytes, w1) = kfifo_out 3 w;
          mem = bytes @ drop (length bytes) [pkt_type packet, pkt_seq packet, pkt_len packet]
      in (\<lparr>pkt_type = mem ! 0, pkt_seq = mem ! 1, pkt_len = mem ! 2\<rparr>, w1))"

text \<open>
  The loop that sends the command and waits for the ACK. It returns the value of \<open>try\<close>,
  the status and the packet with which the loop is left, a status other than 0 meaning the
  jump to \<^verbatim>\<open>ec_rqst_out\<close> after a failed flush.
\<close>

function rqst_try_loop ::
  "config \<Rightarrow> nat \<Rightarrow> surfacegen5_fifo_packet \<Rightarrow> world
     \<Rightarrow> nat \<times> int \<times> surfacegen5_fifo_packet \<times> world" where
  "rqst_try_loop cfg try packet w =
     (if try < SG5_NUM_RETRY
      then (case surfacegen5_ssh_writer_flush w of
              (status, w1) \<Rightarrow>
                if status \<noteq> 0 then (try, status, packet, w1)
                else (case wait_for_completion_timeout cfg w1 of
                        (rem, w2) \<Rightarrow>
                          if rem \<noteq> 0
                          then (case kfifo_out_packet packet w2 of
                                  (packet1, w3) \<Rightarrow>
                                    if pkt_type packet1 = SG5_FRAME_TYPE_ACK
                                    then (try, status, packet1, w3)
                                    else rqst_try_loop cfg (try + 1) packet1 w3)
                          else rqst_try_loop cfg (try + 1) packet w2))
      else (try, 0, packet, w))"
  by pat_completeness auto
termination
  by (relation "measure (\<lambda>(cfg, try, packet, w). SG5_NUM_RETRY - try)") auto

declare rqst_try_loop.simps [simp del]

definition surfacegen5_ec_rqst_unlocked ::
  "config \<Rightarrow> world \<Rightarrow> surfacegen5_rqst \<Rightarrow> surfacegen5_buf option
     \<Rightarrow> int \<times> surfacegen5_buf option \<times> world" where
  "surfacegen5_ec_rqst_unlocked cfg w rqst result =
     (if unat (rqst_cdl rqst) > MAX_RQST_PAYLOAD cfg
      then (- EINVAL, result, log Request_payload_too_large w)
      else
        (let w1 = w\<lparr>ec := surfacegen5_ssh_write_msg_cmd cfg (ec w) rqst\<rparr>;
             w2 = surfacegen5_ssh_receiver_restart cfg w1 rqst
         in case rqst_try_loop cfg 0 \<lparr>pkt_type = 0, pkt_seq = 0, pkt_len = 0\<rparr> w2 of
              (try, status, packet, w3) \<Rightarrow>
                if status \<noteq> 0 then (status, result, surfacegen5_ssh_receiver_discard w3)
                else if try \<ge> SG5_NUM_RETRY
                then (- EIO, result,
                      surfacegen5_ssh_receiver_discard (log (Communication_failed try) w3))
                else
                  (let w4 = w3\<lparr>ec := (ec w3)\<lparr>counter :=
                               \<lparr>cnt_seq = cnt_seq (counter (ec w3)) + 1,
                                cnt_rqid = cnt_rqid (counter (ec w3)) + 1\<rparr>\<rparr>\<rparr>
                   in case result of
                        Some res \<Rightarrow>
                          if rqst_snc rqst \<noteq> 0
                          then (case wait_for_completion_timeout cfg w4 of
                                  (rem, w5) \<Rightarrow>
                                    if rem \<noteq> 0
                                    then (case kfifo_out_packet packet w5 of
                                            (packet1, w6) \<Rightarrow>
                                              if buf_cap res < unat (pkt_len packet1)
                                              then (- EINVAL, Some res, surfacegen5_ssh_receiver_discard w6)
                                              else (case kfifo_out (unat (pkt_len packet1)) w6 of
                                                      (bytes, w7) \<Rightarrow>
                                                        (let res1 = res\<lparr>buf_data := bytes @ drop (length bytes) (buf_data res),
                                                                          buf_len := unat (pkt_len packet1)\<rparr>;
                                                             w8 = w7\<lparr>ec := surfacegen5_ssh_write_msg_ack (ec w7) (pkt_seq packet1)\<rparr>
                                                         in case surfacegen5_ssh_writer_flush w8 of
                                                              (status1, w9) \<Rightarrow>
                                                                (status1, Some res1, surfacegen5_ssh_receiver_discard w9))))
                                    else (- EIO, Some res,
                                          surfacegen5_ssh_receiver_discard (log Communication_timed_out w5)))
                          else (status, result, surfacegen5_ssh_receiver_discard w4)
                      | None \<Rightarrow> (status, result, surfacegen5_ssh_receiver_discard w4))))"

subsection \<open>The public request operation\<close>

text \<open>\<^verbatim>\<open>surfacegen5_ec_acquire_init\<close> returns NULL for an uninitialized controller; the
  model returns whether the pointer is not NULL.\<close>

definition surfacegen5_ec_acquire_init :: "world \<Rightarrow> bool" where
  "surfacegen5_ec_acquire_init w = (state (ec w) \<noteq> SG5_EC_UNINITIALIZED)"

definition surfacegen5_ec_rqst ::
  "config \<Rightarrow> world \<Rightarrow> surfacegen5_rqst \<Rightarrow> surfacegen5_buf option
     \<Rightarrow> int \<times> surfacegen5_buf option \<times> world" where
  "surfacegen5_ec_rqst cfg w rqst result =
     (if \<not> surfacegen5_ec_acquire_init w
      then (- ENXIO, result, log Controller_uninitialized w)
      else if state (ec w) = SG5_EC_SUSPENDED
      then (- EPERM, result, log Controller_suspended w)
      else surfacegen5_ec_rqst_unlocked cfg w rqst result)"

subsection \<open>Concrete inputs\<close>

text \<open>An initialized controller at rest, with an empty handler table, in an environment
  with empty scripts; and the request that resumes the controller.\<close>

definition ec0 :: surfacegen5_ec where
  "ec0 = \<lparr>state = SG5_EC_INITIALIZED,
          counter = \<lparr>cnt_seq = 0, cnt_rqid = 2\<rparr>,
          writer = [],
          receiver = \<lparr>rcv_state = SG5_RCV_DISCARD, signal = 0, fifo = [],
                      expect_pld = False, expect_seq = 0, expect_rqid = 0,
                      eval_buf_cap = 112, eval_buf_ptr = []\<rparr>,
          handler = (\<lambda>i. \<lparr>hnd_handler = None, hnd_delay = None, hnd_data = 0\<rparr>)\<rparr>"

definition w0 :: world where
  "w0 = \<lparr>ec = ec0, trace = [], kzalloc_script = [], write_script = [], wait_script = [],
          mem_script = []\<rparr>"

definition rqst_resume :: surfacegen5_rqst where
  "rqst_resume = \<lparr>rqst_tc = 0x01, rqst_iid = 0x00, rqst_cid = 0x16, rqst_snc = 0x01,
                   rqst_cdl = 0x00, rqst_pld = []\<rparr>"

text \<open>The receiver after the restart for the resume request (it awaits the ACK with seq 0 and
  then the response with rqid 0x40), and after the ACK has arrived.\<close>

definition w_await_ctrl :: world where
  "w_await_ctrl = surfacegen5_ssh_receiver_restart sg5_config w0 rqst_resume"

definition w_await_cmd :: world where
  "w_await_cmd = rcv_update (\<lambda>r. r\<lparr>rcv_state := SG5_RCV_COMMAND\<rparr>) w_await_ctrl"

text \<open>Messages of the controller, with their checksums: ACK with seq 0 and with seq 1, RETRY,
  the response to the resume request (rqid 0x40, one payload byte), the same with rqid
  0x60 and the same with a wrong checksum of the command frame, an event (seq 5, rqid 3,
  four payload bytes), and two command messages whose control frames give the lengths 7
  (rqid 1) and 1 (the command frame ends behind its type byte).\<close>

definition msg_ack0 :: "u8 list" where
  "msg_ack0 = [0xaa, 0x55, 0x40, 0x00, 0x00, 0x00, 0x5C, 0xEA, 0xff, 0xff]"

definition msg_ack1 :: "u8 list" where
  "msg_ack1 = [0xaa, 0x55, 0x40, 0x00, 0x00, 0x01, 0x7D, 0xFA, 0xff, 0xff]"

definition msg_retry :: "u8 list" where
  "msg_retry = [0xaa, 0x55, 0x04, 0x00, 0x00, 0x00, 0x31, 0x4E, 0xff, 0xff]"

definition msg_resp :: "u8 list" where
  "msg_resp = [0xaa, 0x55, 0x80, 0x09, 0x00, 0x00, 0x69, 0xC7,
               0x80, 0x01, 0x00, 0x01, 0x00, 0x40, 0x00, 0x16, 0x00, 0xFA, 0x62]"

definition msg_resp_other :: "u8 list" where
  "msg_resp_other = [0xaa, 0x55, 0x80, 0x09, 0x00, 0x00, 0x69, 0xC7,
                     0x80, 0x01, 0x00, 0x01, 0x00, 0x60, 0x00, 0x16, 0x00, 0xB4, 0x55]"

definition msg_event :: "u8 list" where
  "msg_event = [0xaa, 0x55, 0x80, 0x0C, 0x00, 0x05, 0x3C, 0x7C,
                0x80, 0x08, 0x00, 0x01, 0x00, 0x03, 0x00, 0x0B, 0x01, 0x02, 0x03, 0x04,
                0x8B, 0x5E]"

definition msg_short :: "u8 list" where
  "msg_short = [0xaa, 0x55, 0x80, 0x07, 0x00, 0x00, 0x68, 0xDC,
                0x80, 0x01, 0x00, 0x01, 0x00, 0x01, 0x00, 0x12, 0x5A]"

definition msg_tiny :: "u8 list" where
  "msg_tiny = [0xaa, 0x55, 0x80, 0x01, 0x00, 0x00, 0xC8, 0x6E, 0x80, 0x78, 0x70]"

definition msg_resp_bad :: "u8 list" where
  "msg_resp_bad = [0xaa, 0x55, 0x80, 0x09, 0x00, 0x00, 0x69, 0xC7,
                   0x80, 0x01, 0x00, 0x01, 0x00, 0x40, 0x00, 0x16, 0x00, 0x00, 0x00]"

subsection \<open>Notions used in the statements and proofs\<close>

text \<open>
  The first part of \<^verbatim>\<open>surfacegen5_ec_rqst_unlocked\<close> for a payload that is not too long:
  the command is written to the writer buffer, the receiver is restarted and the loop that
  sends the command and waits for the ACK is run.
\<close>

definition rqst_ack_phase ::
  "config \<Rightarrow> world \<Rightarrow> surfacegen5_rqst
     \<Rightarrow> nat \<times> int \<times> surfacegen5_fifo_packet \<times> world" where
  "rqst_ack_phase cfg w rqst =
     rqst_try_loop cfg 0 \<lparr>pkt_type = 0, pkt_seq = 0, pkt_len = 0\<rparr>
       (surfacegen5_ssh_receiver_restart cfg
          (w\<lparr>ec := surfacegen5_ssh_write_msg_cmd cfg (ec w) rqst\<rparr>) rqst)"

text \<open>
  What the receive path leaves alone: everything but the state of the receiver, the
  completion, the fifo, the evaluation buffer and the allocation script; and it only adds
  to the trace.
\<close>

definition receive_frame :: "world \<Rightarrow> world \<Rightarrow> bool" where
  "receive_frame w w1 \<longleftrightarrow>
     state (ec w1) = state (ec w) \<and> counter (ec w1) = counter (ec w)
     \<and> writer (ec w1) = writer (ec w) \<and> handler (ec w1) = handler (ec w)
     \<and> expect_pld (rcv w1) = expect_pld (rcv w) \<and> expect_seq (rcv w1) = expect_seq (rcv w)
     \<and> expect_rqid (rcv w1) = expect_rqid (rcv w)
     \<and> eval_buf_cap (rcv w1) = eval_buf_cap (rcv w)
     \<and> write_script w1 = write_script w \<and> wait_script w1 = wait_script w
     \<and> (\<exists>t. trace w1 = trace w @ t)"

text \<open>
  The effects added to the trace between two states, and the log messages of the branches
  of the evaluator that throw away the whole buffer (\<^verbatim>\<open>return size\<close>).
\<close>

definition emitted :: "world \<Rightarrow> world \<Rightarrow> effect list" where
  "emitted w w1 = drop (length (trace w)) (trace w1)"

fun discards_everything :: "effect \<Rightarrow> bool" where
  "discards_everything (Log Invalid_start_of_message) = True"
| "discards_everything (Log Invalid_end_of_message) = True"
| "discards_everything (Log Invalid_checksum_cmd_ctrl) = True"
| "discards_everything (Log (Expected_command_frame_type t)) = True"
| "discards_everything (Log (Unknown_frame_type t)) = True"
| "discards_everything e = False"

text \<open>
  The loop of the receive callback as a function of the bytes that are still to be
  evaluated: it returns the bytes that stay in the buffer. \<open>with_ptr\<close> replaces the content
  of the evaluation buffer. The two are related to \<open>receive_buf_loop\<close> and
  \<open>surfacegen5_ssh_receive_buf\<close> in the lemmas \<open>receive_buf_loop_eval_all\<close> and
  \<open>receive_buf_eval_all\<close>.
\<close>

definition with_ptr :: "u8 list \<Rightarrow> world \<Rightarrow> world" where
  "with_ptr p w = rcv_update (\<lambda>r. r\<lparr>eval_buf_ptr := p\<rparr>) w"

function eval_all :: "config \<Rightarrow> world \<Rightarrow> u8 list \<Rightarrow> fault + u8 list \<times> world" where
  "eval_all cfg w buf =
     (if buf = [] then Inr ([], w)
      else (case surfacegen5_ssh_eval_buf cfg w buf of
              Inl f \<Rightarrow> Inl f
            | Inr (n, w1) \<Rightarrow>
                if n \<le> 0 then Inr (buf, w1)
                else eval_all cfg w1 (drop n buf)))"
  by pat_completeness auto
termination
  by (relation "measure (\<lambda>(cfg, w, buf). length buf)") auto

declare eval_all.simps [simp del]

section \<open>Properties\<close>

subsection \<open>Evaluation of the checksum\<close>

lemma crc_ccitt_false_byte_unfold:
  "crc_ccitt_false_byte crc c =
     crc_ccitt_false_bit (crc_ccitt_false_bit (crc_ccitt_false_bit (crc_ccitt_false_bit
    (crc_ccitt_false_bit (crc_ccitt_false_bit (crc_ccitt_false_bit (crc_ccitt_false_bit
       (crc XOR push_bit 8 (ucast c)))))))))"
  by (simp add: crc_ccitt_false_byte_def eval_nat_numeral)

lemmas crc_eval =
  surfacegen5_ssh_crc_def crc_ccitt_false_def crc_ccitt_false_byte_unfold
  crc_ccitt_false_bit_def

text \<open>The check value of CRC-CCITT-FALSE: the checksum of the ASCII digits 1 to 9.\<close>

lemma crc_check_value:
  "surfacegen5_ssh_crc [0x31, 0x32, 0x33, 0x34, 0x35, 0x36, 0x37, 0x38, 0x39] = 0x29B1"
  by (simp add: crc_eval)

subsection \<open>Request ids\<close>

lemma or_mask_iff_take_bit: "(r OR mask n) = (mask n :: u16) \<longleftrightarrow> take_bit n r = r"
  by (auto simp add: bit_eq_iff bit_or_iff bit_mask_iff bit_take_bit_iff dest: bit_imp_le_length)

lemma take_bit_iff_unat_less: "take_bit n r = (r::u16) \<longleftrightarrow> unat r < 2 ^ n"
proof -
  have "take_bit n r = r \<longleftrightarrow> unat (take_bit n r) = unat r"
    by (simp add: word_unat_eq_iff)
  also have "\<dots> \<longleftrightarrow> take_bit n (unat r) = unat r"
    by (simp add: unsigned_take_bit_eq)
  also have "\<dots> \<longleftrightarrow> unat r < 2 ^ n"
    by (simp add: take_bit_nat_eq_self_iff)
  finally show ?thesis .
qed

lemma is_event_take_bit:
  "surfacegen5_rqid_is_event cfg r \<longleftrightarrow> r \<noteq> 0 \<and> take_bit (RQID_EVENT_BITS cfg) r = r"
  by (simp add: surfacegen5_rqid_is_event_def Let_def push_bit_of_1 or_mask_iff_take_bit
      flip: mask_eq_decr_exp)

text \<open>
  C1, amended. \<^verbatim>\<open>surfacegen5_rqid_is_event\<close> tests \<^verbatim>\<open>(rqid | mask) == mask\<close>: a request id
  is classified as an event id if and only if it is not zero and has no bit set above its
  low \<open>RQID_EVENT_BITS\<close> bits, that is, it lies between 1 and \<open>2 ^ RQID_EVENT_BITS - 1\<close>.
  Every other id, in particular every id made by shifting a counter left by
  \<open>RQID_EVENT_BITS\<close>, is not classified as an event id.
\<close>

theorem rqid_is_event_iff:
  "(surfacegen5_rqid_is_event cfg r \<longleftrightarrow> r \<noteq> 0 \<and> unat r < 2 ^ RQID_EVENT_BITS cfg)
   \<and> \<not> surfacegen5_rqid_is_event cfg (surfacegen5_rqid_to_rqst cfg c)"
proof
  show "surfacegen5_rqid_is_event cfg r \<longleftrightarrow> r \<noteq> 0 \<and> unat r < 2 ^ RQID_EVENT_BITS cfg"
    by (simp add: is_event_take_bit take_bit_iff_unat_less)
next
  have "take_bit n (push_bit n c) = push_bit n c \<Longrightarrow> push_bit n c = 0" for n
    by (simp add: take_bit_push_bit)
  then show "\<not> surfacegen5_rqid_is_event cfg (surfacegen5_rqid_to_rqst cfg c)"
    by (auto simp add: is_event_take_bit surfacegen5_rqid_to_rqst_def)
qed

theorem rqid_is_event_iff_witness:
  "surfacegen5_rqid_is_event sg5_config 31
   \<and> \<not> surfacegen5_rqid_is_event sg5_config 32
   \<and> \<not> surfacegen5_rqid_is_event sg5_config (surfacegen5_rqid_to_rqst sg5_config 2)"
  using rqid_is_event_iff [of sg5_config 31 2] rqid_is_event_iff [of sg5_config 32 2]
  by (simp add: sg5_config_def)

text \<open>
  C1 as stated fails: the id 1 is an event id although not all of its low five bits are
  set, and 0xFFFF is not an event id although they all are.
\<close>

theorem rqid_is_event_counterexample:
  "surfacegen5_rqid_is_event sg5_config 1
   \<and> ((1 :: u16) AND mask (RQID_EVENT_BITS sg5_config)) \<noteq> mask (RQID_EVENT_BITS sg5_config)
   \<and> \<not> surfacegen5_rqid_is_event sg5_config 0xFFFF
   \<and> ((0xFFFF :: u16) AND mask (RQID_EVENT_BITS sg5_config)) = mask (RQID_EVENT_BITS sg5_config)"
  by (simp add: surfacegen5_rqid_is_event_def sg5_config_def mask_eq_decr_exp)

subsection \<open>Encoder\<close>

lemma ucast_and_ff: "(ucast ((x::u16) AND 0xFF) :: u8) = ucast x"
proof -
  have m: "(0xFF :: u16) = mask 8" by (simp add: mask_eq_decr_exp)
  show ?thesis
    unfolding m by (rule bit_word_eqI) (auto simp add: bit_simps)
qed

lemma write_msg_cmd_eq:
  "writer (surfacegen5_ssh_write_msg_cmd cfg e rqst) =
     (let ctrl = [0x80, ucast (8 + rqst_cdl rqst), 0x00, cnt_seq (counter e)];
          rqid = push_bit (RQID_EVENT_BITS cfg) (cnt_rqid (counter e));
          cmd = [0x80, rqst_tc rqst, 0x01, 0x00, rqst_iid rqst, ucast rqid, ucast (drop_bit 8 rqid),
                 rqst_cid rqst] @ take (unat (rqst_cdl rqst)) (rqst_pld rqst);
          crc1 = crc_ccitt_false 0xffff ctrl;
          crc2 = crc_ccitt_false 0xffff cmd
      in [0xaa, 0x55] @ ctrl @ [ucast crc1, ucast (drop_bit 8 crc1)]
           @ cmd @ [ucast crc2, ucast (drop_bit 8 crc2)])"
  by (simp add: surfacegen5_ssh_write_msg_cmd_def surfacegen5_ssh_writer_reset_def
      surfacegen5_ssh_write_syn_def surfacegen5_ssh_write_hdr_def surfacegen5_ssh_write_cmd_def
      surfacegen5_ssh_write_crc_def surfacegen5_ssh_write_u16_def surfacegen5_ssh_write_buf_def
      surfacegen5_ssh_crc_def surfacegen5_rqid_to_rqst_def Let_def sg5_sizes sg5_types
      ucast_and_ff)

text \<open>
  C5. For a request with \<open>cdl \<le> MAX_RQST_PAYLOAD\<close> that carries \<open>cdl\<close> payload bytes the
  encoder writes exactly: SYN (AA 55); the control frame (0x80, 8 + cdl as a byte, 0x00,
  counter.seq); the little-endian CRC-CCITT-FALSE (initial value 0xFFFF) of these four
  bytes; the command frame (0x80, tc, 0x01, 0x00, iid, low and high byte of rqid, cid) with
  rqid = counter.rqid shifted left by \<open>RQID_EVENT_BITS\<close>; the payload; and the
  little-endian CRC of command frame and payload. The length byte is 8 + cdl as a number
  when \<open>MAX_RQST_PAYLOAD \<le> 247\<close>. The bytes depend on the request and the counters only:
  encoding the same request with the same counters again, from whatever writer state,
  gives the same bytes.
\<close>

theorem write_msg_cmd_bytes:
  assumes "unat (rqst_cdl rqst) \<le> MAX_RQST_PAYLOAD cfg"
    and "length (rqst_pld rqst) = unat (rqst_cdl rqst)"
  shows
    "(let ctrl = [0x80, ucast (8 + rqst_cdl rqst), 0x00, cnt_seq (counter e)];
          rqid = push_bit (RQID_EVENT_BITS cfg) (cnt_rqid (counter e));
          cmd = [0x80, rqst_tc rqst, 0x01, 0x00, rqst_iid rqst, ucast rqid, ucast (drop_bit 8 rqid),
                 rqst_cid rqst] @ rqst_pld rqst;
          crc1 = crc_ccitt_false 0xffff ctrl;
          crc2 = crc_ccitt_false 0xffff cmd
      in writer (surfacegen5_ssh_write_msg_cmd cfg e rqst) =
           [0xaa, 0x55] @ ctrl @ [ucast crc1, ucast (drop_bit 8 crc1)]
             @ cmd @ [ucast crc2, ucast (drop_bit 8 crc2)])
     \<and> (MAX_RQST_PAYLOAD cfg \<le> 247 \<longrightarrow>
          unat (ucast (8 + rqst_cdl rqst) :: u8) = 8 + unat (rqst_cdl rqst))
     \<and> (counter e' = counter e \<longrightarrow>
          writer (surfacegen5_ssh_write_msg_cmd cfg e' rqst) =
          writer (surfacegen5_ssh_write_msg_cmd cfg e rqst))"
proof (intro conjI impI)
  show "let ctrl = [0x80, ucast (8 + rqst_cdl rqst), 0x00, cnt_seq (counter e)];
          rqid = push_bit (RQID_EVENT_BITS cfg) (cnt_rqid (counter e));
          cmd = [0x80, rqst_tc rqst, 0x01, 0x00, rqst_iid rqst, ucast rqid, ucast (drop_bit 8 rqid),
                 rqst_cid rqst] @ rqst_pld rqst;
          crc1 = crc_ccitt_false 0xffff ctrl;
          crc2 = crc_ccitt_false 0xffff cmd
      in writer (surfacegen5_ssh_write_msg_cmd cfg e rqst) =
           [0xaa, 0x55] @ ctrl @ [ucast crc1, ucast (drop_bit 8 crc1)]
             @ cmd @ [ucast crc2, ucast (drop_bit 8 crc2)]"
    using assms(2) by (simp add: write_msg_cmd_eq Let_def)
next
  assume "MAX_RQST_PAYLOAD cfg \<le> 247"
  with assms(1) have le: "unat (rqst_cdl rqst) \<le> 247" by simp
  then have "unat (8 + rqst_cdl rqst) = 8 + unat (rqst_cdl rqst)"
    by (simp add: unat_word_ariths)
  moreover have "unat (ucast (8 + rqst_cdl rqst) :: u8) = unat (8 + rqst_cdl rqst) mod 256"
    by (simp add: unsigned_ucast_eq take_bit_eq_mod)
  ultimately show "unat (ucast (8 + rqst_cdl rqst) :: u8) = 8 + unat (rqst_cdl rqst)"
    using le by simp
next
  assume "counter e' = counter e"
  then show "writer (surfacegen5_ssh_write_msg_cmd cfg e' rqst) =
             writer (surfacegen5_ssh_write_msg_cmd cfg e rqst)"
    by (simp add: write_msg_cmd_eq)
qed


lemma crc_resume_ctrl: "crc_ccitt_false 0xffff [0x80, 8, 0, 0] = 0xF059"
  by (simp add: crc_eval)

lemma crc_resume_cmd: "crc_ccitt_false 0xffff [0x80, 1, 1, 0, 0, 0x40, 0, 0x16] = 0x5E24"
  by (simp add: crc_eval)

theorem write_msg_cmd_bytes_witness:
  "writer (surfacegen5_ssh_write_msg_cmd sg5_config ec0 rqst_resume) =
     [0xaa, 0x55, 0x80, 0x08, 0x00, 0x00, 0x59, 0xF0,
      0x80, 0x01, 0x01, 0x00, 0x00, 0x40, 0x00, 0x16, 0x24, 0x5E]
   \<and> writer (surfacegen5_ssh_write_msg_cmd sg5_config (ec0\<lparr>writer := [0xff]\<rparr>) rqst_resume) =
     writer (surfacegen5_ssh_write_msg_cmd sg5_config ec0 rqst_resume)"
  using write_msg_cmd_bytes [of rqst_resume sg5_config ec0 "ec0\<lparr>writer := [0xff]\<rparr>"]
  by (simp add: rqst_resume_def sg5_config_def ec0_def crc_resume_ctrl crc_resume_cmd)

subsection \<open>The public request operation outside the initialized state\<close>

text \<open>
  C8. \<^verbatim>\<open>surfacegen5_ec_rqst\<close> returns \<open>-ENXIO\<close> for an uninitialized controller and
  \<open>-EPERM\<close> for a suspended one, two different error codes. In both cases it returns
  before anything is encoded or written to the serial device: the controller, the result
  buffer and the environment are unchanged, and the only effect is the warning in the log.
\<close>

theorem ec_rqst_fails_fast:
  "(state (ec w) = SG5_EC_UNINITIALIZED \<longrightarrow>
      surfacegen5_ec_rqst cfg w rqst result =
        (- ENXIO, result, w\<lparr>trace := trace w @ [Log Controller_uninitialized]\<rparr>))
   \<and> (state (ec w) = SG5_EC_SUSPENDED \<longrightarrow>
      surfacegen5_ec_rqst cfg w rqst result =
        (- EPERM, result, w\<lparr>trace := trace w @ [Log Controller_suspended]\<rparr>))
   \<and> - ENXIO \<noteq> - EPERM"
  by (simp add: surfacegen5_ec_rqst_def surfacegen5_ec_acquire_init_def log_def emit_def
      ENXIO_def EPERM_def)

theorem ec_rqst_fails_fast_witness:
  "surfacegen5_ec_rqst sg5_config (w0\<lparr>ec := ec0\<lparr>state := SG5_EC_UNINITIALIZED\<rparr>\<rparr>)
       rqst_resume None
     = (- 6, None, \<lparr>ec = ec0\<lparr>state := SG5_EC_UNINITIALIZED\<rparr>,
                     trace = [Log Controller_uninitialized],
                     kzalloc_script = [], write_script = [], wait_script = [],
                     mem_script = []\<rparr>)
   \<and> surfacegen5_ec_rqst sg5_config (w0\<lparr>ec := ec0\<lparr>state := SG5_EC_SUSPENDED\<rparr>\<rparr>)
       rqst_resume None
     = (- 1, None, \<lparr>ec = ec0\<lparr>state := SG5_EC_SUSPENDED\<rparr>,
                     trace = [Log Controller_suspended],
                     kzalloc_script = [], write_script = [], wait_script = [],
                     mem_script = []\<rparr>)"
  using
    ec_rqst_fails_fast [of "w0\<lparr>ec := ec0\<lparr>state := SG5_EC_UNINITIALIZED\<rparr>\<rparr>" sg5_config rqst_resume None]
    ec_rqst_fails_fast [of "w0\<lparr>ec := ec0\<lparr>state := SG5_EC_SUSPENDED\<rparr>\<rparr>" sg5_config rqst_resume None]
  by (simp add: w0_def ENXIO_def EPERM_def)

subsection \<open>The state of the receiver in the receive path\<close>

lemmas prims =
  emit_def log_def rcv_def rcv_update_def kfifo_in_def kfifo_out_def complete_def

lemma kzalloc_rcv: "kzalloc w = (ok, w1) \<Longrightarrow> rcv w1 = rcv w"
  by (auto simp add: kzalloc_def rcv_def split: list.splits)

lemma evt_handler_rcv: "rcv (surfacegen5_event_work_evt_handler w work) = rcv w"
  by (simp add: surfacegen5_event_work_evt_handler_def Let_def prims split: option.split)

lemma handle_event_rcv:
  assumes "surfacegen5_ssh_handle_event cfg w buf = Inr w1"
  shows "rcv w1 = rcv w"
proof -
  obtain ok w2 where k: "kzalloc w = (ok, w2)" by (cases "kzalloc w")
  then have r: "rcv w2 = rcv w" by (rule kzalloc_rcv)
  have e: "rcv (emit x v) = rcv v" for x v by (simp add: prims)
  from assms k r show ?thesis
    unfolding surfacegen5_ssh_handle_event_def Let_def
    by (cases ok) (auto simp add: evt_handler_rcv e log_def split: if_splits)
qed

lemma receive_msg_ctrl_fifo:
  assumes "surfacegen5_ssh_receive_msg_ctrl w buf = (n, w1)"
    and "fifo (rcv w1) \<noteq> fifo (rcv w) \<or> signal (rcv w1) \<noteq> signal (rcv w)"
  shows "rcv_state (rcv w) = SG5_RCV_CONTROL
         \<and> fifo (rcv w1) = fifo (rcv w) @ [ctrl_type buf, ctrl_seq buf, 0]
         \<and> signal (rcv w1) = signal (rcv w) + 1
         \<and> (ctrl_type buf = SG5_FRAME_TYPE_ACK \<longrightarrow> ctrl_seq buf = expect_seq (rcv w))"
  using assms
  by (auto simp add: surfacegen5_ssh_receive_msg_ctrl_def Let_def prims kfifo_avail_def
      split: if_splits)

lemma receive_msg_ctrl_ack_mismatch:
  assumes "ctrl_type buf = SG5_FRAME_TYPE_ACK" and "ctrl_seq buf \<noteq> expect_seq (rcv w)"
  shows "fifo (rcv (snd (surfacegen5_ssh_receive_msg_ctrl w buf))) = fifo (rcv w)
         \<and> signal (rcv (snd (surfacegen5_ssh_receive_msg_ctrl w buf))) = signal (rcv w)"
  using assms by (simp add: surfacegen5_ssh_receive_msg_ctrl_def Let_def prims)

lemma receive_msg_cmd_cases:
  assumes "surfacegen5_ssh_receive_msg_cmd cfg w buf = Inr (n, w1)"
  shows "rcv w1 = rcv w
         \<or> (rcv_state (rcv w) = SG5_RCV_COMMAND
            \<and> cmd_rqid buf = expect_rqid (rcv w)
            \<and> \<not> surfacegen5_rqid_is_event cfg (cmd_rqid buf)
            \<and> fifo (rcv w1) = fifo (rcv w)
                 @ [ctrl_type buf, ctrl_seq buf, ctrl_len buf - 8]
                 @ take (unat (ctrl_len buf - 8)) (drop SG5_FRAME_OFFS_CMD_PLD buf)
            \<and> signal (rcv w1) = signal (rcv w) + 1)"
  using assms
  unfolding surfacegen5_ssh_receive_msg_cmd_def Let_def
  by (auto simp add: prims kfifo_avail_def sg5_sizes split: if_splits sum.splits
      dest!: handle_event_rcv)

lemmas eval_defs =
  surfacegen5_ssh_eval_buf_def surfacegen5_ssh_receive_msg_ctrl_def
  surfacegen5_ssh_receive_msg_cmd_def surfacegen5_ssh_handle_event_def
  surfacegen5_event_work_evt_handler_def surfacegen5_rqid_is_event_def
  surfacegen5_ssh_is_valid_syn_def surfacegen5_ssh_is_valid_ter_def
  surfacegen5_ssh_is_valid_crc_def event_pld_len_def cmd_rqid_def kzalloc_def kfifo_avail_def
  SG5_READ_BUF_LEN_def sg5_fields sg5_sizes sg5_types prims crc_eval

lemmas world_defs =
  w_await_cmd_def w_await_ctrl_def surfacegen5_ssh_receiver_restart_def
  surfacegen5_rqid_to_rqst_def w0_def ec0_def rqst_resume_def sg5_config_def

subsection \<open>Event dispatch\<close>

lemma kzalloc_trace: "kzalloc w = (ok, w1) \<Longrightarrow> trace w1 = trace w \<and> ec w1 = ec w"
  by (auto simp add: kzalloc_def split: list.splits)

lemma event_pld_len_unat:
  assumes "8 \<le> unat (ctrl_len buf)"
  shows "unat (event_pld_len buf) = unat (ctrl_len buf) - 8"
proof -
  have "unat (ctrl_len buf) < 2 ^ 8"
    using unsigned_less [of "ctrl_len buf"] by simp
  then have u: "unat (ucast (ctrl_len buf) :: u16) = unat (ctrl_len buf)"
    by (simp add: unsigned_ucast_eq take_bit_nat_eq_self)
  have "(8 :: u16) \<le> ucast (ctrl_len buf)"
    using assms u by (simp add: word_le_nat_alt)
  then have "unat (ucast (ctrl_len buf) - (8 :: u16)) = unat (ucast (ctrl_len buf) :: u16) - unat (8 :: u16)"
    by (rule unat_sub)
  with u show ?thesis by (simp add: event_pld_len_def sg5_sizes)
qed

lemma evt_handler_trace:
  "\<exists>rest. trace (surfacegen5_event_work_evt_handler w work) = trace w @ rest
     \<and> ((\<exists>data. rest = [Call_handler (work_event work) data])
        \<or> (\<exists>data st. rest = [Call_handler (work_event work) data, Log (Error_handling_event st)])
        \<or> rest = [Log (Unhandled_event (evt_rqid (work_event work)))])"
  by (auto simp add: surfacegen5_event_work_evt_handler_def Let_def prims split: option.split)

text \<open>
  C7, amended. For every command frame with \<open>ctrl.len \<ge> 8\<close> that is present in full and is
  handed to the dispatcher: if the allocation of the work item succeeds, exactly one
  ACK-work item is scheduled; it carries the sequence number of the control frame and the
  request id of the command frame, and it is scheduled before the handler is called inline
  or the handler work is put on the event queue. This does not depend on the handler table:
  without a registered handler the inline call logs the unhandled event. If the allocation
  fails, the event is dropped with a warning and nothing is scheduled.
\<close>

theorem handle_event_schedules_ack_first:
  "(kzalloc w = (True, w1) \<and> 8 \<le> unat (ctrl_len buf)
      \<and> SG5_MSG_LEN_CMD_BASE + unat (ctrl_len buf) \<le> length buf \<longrightarrow>
      (\<exists>w2 work rest.
          surfacegen5_ssh_handle_event cfg w buf = Inr w2
          \<and> trace w2 = trace w @ Queue_ack work # rest
          \<and> work_seq work = ctrl_seq buf
          \<and> evt_rqid (work_event work) = cmd_rqid buf
          \<and> (\<forall>e \<in> set rest. \<forall>k. e \<noteq> Queue_ack k)
          \<and> ((\<exists>d. d \<noteq> EVENT_IMMEDIATE cfg \<and> rest = [Queue_evt work d])
             \<or> (\<exists>data. rest = [Call_handler (work_event work) data])
             \<or> (\<exists>data st. rest = [Call_handler (work_event work) data,
                                     Log (Error_handling_event st)])
             \<or> rest = [Log (Unhandled_event (cmd_rqid buf))])))
   \<and> (kzalloc w = (False, w1) \<longrightarrow>
        surfacegen5_ssh_handle_event cfg w buf = Inr (log Failed_to_allocate w1)
        \<and> trace (log Failed_to_allocate w1) = trace w @ [Log Failed_to_allocate])"
proof (intro conjI impI)
  assume a: "kzalloc w = (True, w1) \<and> 8 \<le> unat (ctrl_len buf)
      \<and> SG5_MSG_LEN_CMD_BASE + unat (ctrl_len buf) \<le> length buf"
  then have k: "kzalloc w = (True, w1)" and t: "trace w1 = trace w"
    using kzalloc_trace [of w True w1] by simp_all
  from a have pl: "unat (event_pld_len buf) = unat (ctrl_len buf) - 8"
    using event_pld_len_unat by blast
  with a have fits: "\<not> length buf < SG5_FRAME_OFFS_CMD + SG5_BYTELEN_CMDFRAME"
    "\<not> length buf < SG5_FRAME_OFFS_CMD_PLD + unat (event_pld_len buf)"
    by (simp_all add: sg5_sizes)
  define event where "event = \<lparr>evt_rqid = cmd_rqid buf,
      evt_tc = cmd_tc buf, evt_iid = cmd_iid buf, evt_cid = cmd_cid buf,
      evt_len = event_pld_len buf,
      evt_pld = take (unat (event_pld_len buf)) (drop SG5_FRAME_OFFS_CMD_PLD buf)\<rparr>"
  define work where "work = \<lparr>work_event = event, work_seq = ctrl_seq buf\<rparr>"
  define w2 where "w2 = emit (Queue_ack work) w1"
  define delay where "delay =
    (case hnd_delay (handler (ec w2) (unat (evt_rqid event) - 1)) of
       None \<Rightarrow> 0
     | Some delay_fn \<Rightarrow> delay_fn event (hnd_data (handler (ec w2) (unat (evt_rqid event) - 1))))"
  have he: "surfacegen5_ssh_handle_event cfg w buf =
      (if delay = EVENT_IMMEDIATE cfg then Inr (surfacegen5_event_work_evt_handler w2 work)
       else Inr (emit (Queue_evt work delay) w2))"
    using k fits
    by (simp add: surfacegen5_ssh_handle_event_def Let_def event_def work_def w2_def delay_def
        cmd_rqid_def split: option.split)
  have t2: "trace w2 = trace w @ [Queue_ack work]"
    by (simp add: w2_def emit_def t)
  have ws: "work_seq work = ctrl_seq buf" "evt_rqid (work_event work) = cmd_rqid buf"
    by (simp_all add: work_def event_def)
  show "\<exists>w2 work rest.
          surfacegen5_ssh_handle_event cfg w buf = Inr w2
          \<and> trace w2 = trace w @ Queue_ack work # rest
          \<and> work_seq work = ctrl_seq buf
          \<and> evt_rqid (work_event work) = cmd_rqid buf
          \<and> (\<forall>e \<in> set rest. \<forall>k. e \<noteq> Queue_ack k)
          \<and> ((\<exists>d. d \<noteq> EVENT_IMMEDIATE cfg \<and> rest = [Queue_evt work d])
             \<or> (\<exists>data. rest = [Call_handler (work_event work) data])
             \<or> (\<exists>data st. rest = [Call_handler (work_event work) data,
                                     Log (Error_handling_event st)])
             \<or> rest = [Log (Unhandled_event (cmd_rqid buf))])"
  proof (cases "delay = EVENT_IMMEDIATE cfg")
    case True
    from evt_handler_trace [of w2 work] obtain rest where
      r: "trace (surfacegen5_event_work_evt_handler w2 work) = trace w2 @ rest"
         "(\<exists>data. rest = [Call_handler (work_event work) data])
          \<or> (\<exists>data st. rest = [Call_handler (work_event work) data, Log (Error_handling_event st)])
          \<or> rest = [Log (Unhandled_event (evt_rqid (work_event work)))]"
      by blast
    from r(2) have nq: "\<forall>e \<in> set rest. \<forall>k. e \<noteq> Queue_ack k" by auto
    show ?thesis
      apply (rule exI [of _ "surfacegen5_event_work_evt_handler w2 work"])
      apply (rule exI [of _ work])
      apply (rule exI [of _ rest])
      using True he r t2 ws nq by auto
  next
    case False
    show ?thesis
      apply (rule exI [of _ "emit (Queue_evt work delay) w2"])
      apply (rule exI [of _ work])
      apply (rule exI [of _ "[Queue_evt work delay]"])
      using False he t2 ws by (simp add: emit_def)
  qed
next
  assume k: "kzalloc w = (False, w1)"
  then show "surfacegen5_ssh_handle_event cfg w buf = Inr (log Failed_to_allocate w1)"
    by (simp add: surfacegen5_ssh_handle_event_def Let_def)
  from kzalloc_trace [OF k]
  show "trace (log Failed_to_allocate w1) = trace w @ [Log Failed_to_allocate]"
    by (simp add: log_def emit_def)
qed

theorem handle_event_schedules_ack_first_witness:
  "kzalloc w0 = (True, w0)
   \<and> unat (ctrl_len msg_event) = 12
   \<and> length msg_event = 22
   \<and> (\<exists>w2. surfacegen5_ssh_handle_event sg5_config w0 msg_event = Inr w2
          \<and> trace w2 =
              [Queue_ack \<lparr>work_event = \<lparr>evt_rqid = 3, evt_tc = 0x08, evt_iid = 0x00,
                                         evt_cid = 0x0B, evt_len = 4,
                                         evt_pld = [0x01, 0x02, 0x03, 0x04]\<rparr>,
                          work_seq = 5\<rparr>,
               Queue_evt \<lparr>work_event = \<lparr>evt_rqid = 3, evt_tc = 0x08, evt_iid = 0x00,
                                         evt_cid = 0x0B, evt_len = 4,
                                         evt_pld = [0x01, 0x02, 0x03, 0x04]\<rparr>,
                          work_seq = 5\<rparr> 0])
   \<and> kzalloc (w0\<lparr>kzalloc_script := [False]\<rparr>) = (False, w0)
   \<and> surfacegen5_ssh_handle_event sg5_config (w0\<lparr>kzalloc_script := [False]\<rparr>) msg_event
       = Inr (log Failed_to_allocate w0)"
  using
    handle_event_schedules_ack_first [of w0 w0 msg_event sg5_config]
    handle_event_schedules_ack_first [of "w0\<lparr>kzalloc_script := [False]\<rparr>" w0 msg_event sg5_config]
  by (simp add: eval_defs world_defs msg_event_def Let_def)

text \<open>
  C7 as stated fails: the event message below passes every check of the evaluator, its
  request id 3 is an event id, and it is handed to the dispatcher; the allocation of the
  work item fails, and no ACK-work is scheduled.
\<close>

theorem handle_event_schedules_ack_first_counterexample:
  "surfacegen5_rqid_is_event sg5_config (cmd_rqid msg_event)
   \<and> surfacegen5_ssh_eval_buf sg5_config (w0\<lparr>kzalloc_script := [False]\<rparr>) msg_event
       = Inr (22, log Failed_to_allocate w0)
   \<and> trace (log Failed_to_allocate w0) = [Log Failed_to_allocate]"
  by (simp add: eval_defs world_defs msg_event_def Let_def)

text \<open>
  C9 fails on the code. The evaluator does not compare \<open>ctrl.len\<close> with the size of the
  command frame. The message \<open>msg_short\<close> has valid checksums and \<open>ctrl.len = 7\<close>; its
  request id 1 is an event id, so it reaches the dispatcher, where the payload length
  \<open>ctrl.len - 8\<close> wraps around to 65535 and the copy of the payload reads 65535 bytes at
  offset 16 of a message of 17 bytes.
\<close>

theorem eval_buf_short_event_frame:
  "length msg_short = 17
   \<and> unat (ctrl_len msg_short) = 7
   \<and> surfacegen5_rqid_is_event sg5_config (cmd_rqid msg_short)
   \<and> event_pld_len msg_short = 0xFFFF
   \<and> surfacegen5_ssh_eval_buf sg5_config w0 msg_short = Inl (Read_past_size 16 65535)"
  by (simp add: eval_defs world_defs msg_short_def Let_def unsigned_minus_1_eq_mask
      mask_eq_exp_minus_1)

subsection \<open>Where an evaluation step returns\<close>

text \<open>
  The evaluator reads past the received bytes only in command messages whose control frame
  gives a length below the size of the command frame: on every other buffer an evaluation
  step returns.
\<close>

lemma handle_event_returns:
  assumes "8 \<le> unat (ctrl_len buf)"
    and "SG5_MSG_LEN_CMD_BASE + unat (ctrl_len buf) \<le> length buf"
  shows "\<exists>w1. surfacegen5_ssh_handle_event cfg w buf = Inr w1"
proof -
  obtain ok v where k: "kzalloc w = (ok, v)" by (cases "kzalloc w")
  from assms have "unat (event_pld_len buf) = unat (ctrl_len buf) - 8"
    by (simp add: event_pld_len_unat)
  with assms k show ?thesis
    by (cases ok) (simp_all add: surfacegen5_ssh_handle_event_def Let_def sg5_sizes)
qed

lemma receive_msg_cmd_returns:
  assumes l8: "8 \<le> unat (ctrl_len buf)"
  shows "\<exists>n w1. surfacegen5_ssh_receive_msg_cmd cfg w buf = Inr (n, w1)"
proof (cases "SG5_MSG_LEN_CMD_BASE + unat (ctrl_len buf) \<le> length buf")
  case False
  then show ?thesis
    by (simp add: surfacegen5_ssh_receive_msg_cmd_def Let_def)
next
  case whole: True
  from l8 have sub: "unat (ctrl_len buf - 8) = unat (ctrl_len buf) - 8"
    by (simp add: unat_sub word_le_nat_alt)
  from handle_event_returns [OF l8 whole]
  obtain v where "surfacegen5_ssh_handle_event cfg w buf = Inr v" by blast
  with whole l8 sub show ?thesis
    by (simp add: surfacegen5_ssh_receive_msg_cmd_def Let_def sg5_sizes)
qed

lemma eval_buf_returns:
  assumes "SG5_BYTELEN_SYNC + SG5_BYTELEN_CTRL \<le> length buf \<and> ctrl_type buf = SG5_FRAME_TYPE_CMD
           \<longrightarrow> 8 \<le> unat (ctrl_len buf)"
  shows "\<exists>n w1. surfacegen5_ssh_eval_buf cfg w buf = Inr (n, w1)"
proof (cases "SG5_BYTELEN_SYNC + SG5_BYTELEN_CTRL \<le> length buf \<and> ctrl_type buf = SG5_FRAME_TYPE_CMD")
  case False
  then show ?thesis
    by (cases "surfacegen5_ssh_receive_msg_ctrl w buf")
       (auto simp add: surfacegen5_ssh_eval_buf_def sg5_types)
next
  case True
  with assms have "8 \<le> unat (ctrl_len buf)" by simp
  then have "\<exists>n w1. surfacegen5_ssh_receive_msg_cmd cfg w buf = Inr (n, w1)"
    by (rule receive_msg_cmd_returns)
  with True show ?thesis
    by (simp add: surfacegen5_ssh_eval_buf_def sg5_types)
qed

subsection \<open>What the receiver puts into the fifo\<close>

lemma receive_msg_ctrl_retry:
  assumes "ctrl_type buf = SG5_FRAME_TYPE_RETRY"
    and "SG5_MSG_LEN_CTRL \<le> length buf"
    and "surfacegen5_ssh_is_valid_ter (drop SG5_FRAME_OFFS_TERM buf)"
    and "surfacegen5_ssh_is_valid_crc (drop SG5_FRAME_OFFS_CTRL buf) SG5_BYTELEN_CTRL"
    and "rcv_state (rcv w) = SG5_RCV_CONTROL"
    and "3 \<le> kfifo_avail (fifo (rcv w))"
  shows "surfacegen5_ssh_receive_msg_ctrl w buf =
           (SG5_MSG_LEN_CTRL, complete (kfifo_in [SG5_FRAME_TYPE_RETRY, ctrl_seq buf, 0] w))"
  using assms
  by (simp add: surfacegen5_ssh_receive_msg_ctrl_def Let_def sg5_types)

text \<open>
  C3, amended. Whenever the receiver puts a packet into the fifo or raises the completion,
  it does both, a request is outstanding (the receiver awaits a control message or a
  command), and the packet matches the expectation in this sense: an ACK packet's seq
  equals \<open>expect.seq\<close> and a command packet's rqid equals \<open>expect.rqid\<close>. A RETRY packet
  is put into the fifo, and the completion raised, whatever its seq and the expected seq
  are. An ACK with another seq and a command message with another rqid change neither the
  fifo nor the completion. The statements on command messages are for those whose control
  frame gives a length of at least 8, the size of the command frame (for the others see
  C9); on these the evaluation returns.
\<close>

theorem receiver_delivers_expected:
  "(\<forall>n w1. surfacegen5_ssh_receive_msg_ctrl w buf = (n, w1)
        \<and> (fifo (rcv w1) \<noteq> fifo (rcv w) \<or> signal (rcv w1) \<noteq> signal (rcv w)) \<longrightarrow>
      rcv_state (rcv w) = SG5_RCV_CONTROL
      \<and> fifo (rcv w1) = fifo (rcv w) @ [ctrl_type buf, ctrl_seq buf, 0]
      \<and> signal (rcv w1) = signal (rcv w) + 1
      \<and> (ctrl_type buf = SG5_FRAME_TYPE_ACK \<longrightarrow> ctrl_seq buf = expect_seq (rcv w)))
   \<and> (8 \<le> unat (ctrl_len buf) \<longrightarrow>
      (\<exists>n w1. surfacegen5_ssh_receive_msg_cmd cfg w buf = Inr (n, w1)
         \<and> (fifo (rcv w1) \<noteq> fifo (rcv w) \<or> signal (rcv w1) \<noteq> signal (rcv w) \<longrightarrow>
              rcv_state (rcv w) = SG5_RCV_COMMAND
              \<and> cmd_rqid buf = expect_rqid (rcv w)
              \<and> fifo (rcv w1) = fifo (rcv w)
                    @ [ctrl_type buf, ctrl_seq buf, ctrl_len buf - 8]
                    @ take (unat (ctrl_len buf - 8)) (drop SG5_FRAME_OFFS_CMD_PLD buf)
              \<and> signal (rcv w1) = signal (rcv w) + 1)
         \<and> (cmd_rqid buf \<noteq> expect_rqid (rcv w) \<longrightarrow>
              fifo (rcv w1) = fifo (rcv w) \<and> signal (rcv w1) = signal (rcv w))))
   \<and> (\<forall>n w1. surfacegen5_ssh_receive_msg_ctrl w buf = (n, w1)
        \<and> ctrl_type buf = SG5_FRAME_TYPE_ACK \<and> ctrl_seq buf \<noteq> expect_seq (rcv w) \<longrightarrow>
      fifo (rcv w1) = fifo (rcv w) \<and> signal (rcv w1) = signal (rcv w))
   \<and> (ctrl_type buf = SG5_FRAME_TYPE_RETRY \<and> SG5_MSG_LEN_CTRL \<le> length buf
        \<and> surfacegen5_ssh_is_valid_ter (drop SG5_FRAME_OFFS_TERM buf)
        \<and> surfacegen5_ssh_is_valid_crc (drop SG5_FRAME_OFFS_CTRL buf) SG5_BYTELEN_CTRL
        \<and> rcv_state (rcv w) = SG5_RCV_CONTROL \<and> 3 \<le> kfifo_avail (fifo (rcv w)) \<longrightarrow>
      (\<exists>w1. surfacegen5_ssh_receive_msg_ctrl w buf = (SG5_MSG_LEN_CTRL, w1)
         \<and> fifo (rcv w1) = fifo (rcv w) @ [SG5_FRAME_TYPE_RETRY, ctrl_seq buf, 0]
         \<and> signal (rcv w1) = signal (rcv w) + 1))"
proof (intro conjI allI impI)
  fix n w1
  assume a: "surfacegen5_ssh_receive_msg_ctrl w buf = (n, w1)
        \<and> (fifo (rcv w1) \<noteq> fifo (rcv w) \<or> signal (rcv w1) \<noteq> signal (rcv w))"
  from receive_msg_ctrl_fifo [of w buf n w1] a
  show "rcv_state (rcv w) = SG5_RCV_CONTROL"
    and "fifo (rcv w1) = fifo (rcv w) @ [ctrl_type buf, ctrl_seq buf, 0]"
    and "signal (rcv w1) = signal (rcv w) + 1"
    by blast+
  assume "ctrl_type buf = SG5_FRAME_TYPE_ACK"
  with receive_msg_ctrl_fifo [of w buf n w1] a
  show "ctrl_seq buf = expect_seq (rcv w)" by blast
next
  assume "8 \<le> unat (ctrl_len buf)"
  then obtain n w1 where r: "surfacegen5_ssh_receive_msg_cmd cfg w buf = Inr (n, w1)"
    using receive_msg_cmd_returns by blast
  note c = receive_msg_cmd_cases [OF r]
  have "fifo (rcv w1) \<noteq> fifo (rcv w) \<or> signal (rcv w1) \<noteq> signal (rcv w) \<longrightarrow>
              rcv_state (rcv w) = SG5_RCV_COMMAND
              \<and> cmd_rqid buf = expect_rqid (rcv w)
              \<and> fifo (rcv w1) = fifo (rcv w)
                    @ [ctrl_type buf, ctrl_seq buf, ctrl_len buf - 8]
                    @ take (unat (ctrl_len buf - 8)) (drop SG5_FRAME_OFFS_CMD_PLD buf)
              \<and> signal (rcv w1) = signal (rcv w) + 1"
    using c by auto
  moreover have "cmd_rqid buf \<noteq> expect_rqid (rcv w) \<longrightarrow>
              fifo (rcv w1) = fifo (rcv w) \<and> signal (rcv w1) = signal (rcv w)"
    using c by auto
  ultimately show "\<exists>n w1. surfacegen5_ssh_receive_msg_cmd cfg w buf = Inr (n, w1)
         \<and> (fifo (rcv w1) \<noteq> fifo (rcv w) \<or> signal (rcv w1) \<noteq> signal (rcv w) \<longrightarrow>
              rcv_state (rcv w) = SG5_RCV_COMMAND
              \<and> cmd_rqid buf = expect_rqid (rcv w)
              \<and> fifo (rcv w1) = fifo (rcv w)
                    @ [ctrl_type buf, ctrl_seq buf, ctrl_len buf - 8]
                    @ take (unat (ctrl_len buf - 8)) (drop SG5_FRAME_OFFS_CMD_PLD buf)
              \<and> signal (rcv w1) = signal (rcv w) + 1)
         \<and> (cmd_rqid buf \<noteq> expect_rqid (rcv w) \<longrightarrow>
              fifo (rcv w1) = fifo (rcv w) \<and> signal (rcv w1) = signal (rcv w))"
    using r by blast
next
  fix n w1
  assume a: "surfacegen5_ssh_receive_msg_ctrl w buf = (n, w1)
        \<and> ctrl_type buf = SG5_FRAME_TYPE_ACK \<and> ctrl_seq buf \<noteq> expect_seq (rcv w)"
  with receive_msg_ctrl_ack_mismatch [of buf w]
  show "fifo (rcv w1) = fifo (rcv w)" and "signal (rcv w1) = signal (rcv w)"
    by auto
next
  assume a: "ctrl_type buf = SG5_FRAME_TYPE_RETRY \<and> SG5_MSG_LEN_CTRL \<le> length buf
        \<and> surfacegen5_ssh_is_valid_ter (drop SG5_FRAME_OFFS_TERM buf)
        \<and> surfacegen5_ssh_is_valid_crc (drop SG5_FRAME_OFFS_CTRL buf) SG5_BYTELEN_CTRL
        \<and> rcv_state (rcv w) = SG5_RCV_CONTROL \<and> 3 \<le> kfifo_avail (fifo (rcv w))"
  then have "surfacegen5_ssh_receive_msg_ctrl w buf =
           (SG5_MSG_LEN_CTRL, complete (kfifo_in [SG5_FRAME_TYPE_RETRY, ctrl_seq buf, 0] w))"
    by (intro receive_msg_ctrl_retry) simp_all
  moreover from a
  have "fifo (rcv (complete (kfifo_in [SG5_FRAME_TYPE_RETRY, ctrl_seq buf, 0] w)))
          = fifo (rcv w) @ [SG5_FRAME_TYPE_RETRY, ctrl_seq buf, 0]"
    and "signal (rcv (complete (kfifo_in [SG5_FRAME_TYPE_RETRY, ctrl_seq buf, 0] w)))
          = signal (rcv w) + 1"
    by (simp_all add: prims)
  ultimately show "\<exists>w1. surfacegen5_ssh_receive_msg_ctrl w buf = (SG5_MSG_LEN_CTRL, w1)
         \<and> fifo (rcv w1) = fifo (rcv w) @ [SG5_FRAME_TYPE_RETRY, ctrl_seq buf, 0]
         \<and> signal (rcv w1) = signal (rcv w) + 1"
    by blast
qed

theorem receiver_delivers_expected_witness:
  "fst (surfacegen5_ssh_receive_msg_ctrl w_await_ctrl msg_ack0) = 10
   \<and> fifo (rcv (snd (surfacegen5_ssh_receive_msg_ctrl w_await_ctrl msg_ack0))) = [0x40, 0x00, 0x00]
   \<and> fifo (rcv w_await_ctrl) = []
   \<and> ctrl_seq msg_ack0 = expect_seq (rcv w_await_ctrl)
   \<and> unat (ctrl_len msg_resp) = 9
   \<and> (\<exists>w1. surfacegen5_ssh_receive_msg_cmd sg5_config w_await_cmd msg_resp = Inr (19, w1)
          \<and> fifo (rcv w1) = [0x80, 0x00, 0x01, 0x00])
   \<and> fifo (rcv w_await_cmd) = []
   \<and> cmd_rqid msg_resp = expect_rqid (rcv w_await_cmd)
   \<and> ctrl_type msg_ack1 = SG5_FRAME_TYPE_ACK
   \<and> ctrl_seq msg_ack1 \<noteq> expect_seq (rcv w_await_ctrl)
   \<and> surfacegen5_ssh_receive_msg_ctrl w_await_ctrl msg_ack1 = (10, log Ack_does_not_match w_await_ctrl)
   \<and> unat (ctrl_len msg_resp_other) = 9
   \<and> cmd_rqid msg_resp_other \<noteq> expect_rqid (rcv w_await_cmd)
   \<and> surfacegen5_ssh_receive_msg_cmd sg5_config w_await_cmd msg_resp_other = Inr (19, w_await_cmd)
   \<and> ctrl_type msg_retry = SG5_FRAME_TYPE_RETRY
   \<and> ctrl_seq msg_retry \<noteq> expect_seq (rcv (rcv_update (\<lambda>r. r\<lparr>expect_seq := 7\<rparr>) w_await_ctrl))
   \<and> (\<exists>w1. surfacegen5_ssh_receive_msg_ctrl
              (rcv_update (\<lambda>r. r\<lparr>expect_seq := 7\<rparr>) w_await_ctrl) msg_retry = (10, w1)
          \<and> fifo (rcv w1) = [0x04, 0x00, 0x00] \<and> signal (rcv w1) = 1)"
  using
    receiver_delivers_expected [of w_await_ctrl msg_ack0 sg5_config]
    receiver_delivers_expected [of w_await_cmd msg_resp sg5_config]
    receiver_delivers_expected [of w_await_ctrl msg_ack1 sg5_config]
    receiver_delivers_expected [of w_await_cmd msg_resp_other sg5_config]
    receiver_delivers_expected [of "rcv_update (\<lambda>r. r\<lparr>expect_seq := 7\<rparr>) w_await_ctrl"
      msg_retry sg5_config]
  by (simp add: eval_defs world_defs msg_ack0_def msg_ack1_def msg_resp_def msg_resp_other_def
      msg_retry_def)

text \<open>
  C3 as stated fails for RETRY: while the receiver expects seq 1, a RETRY message, whose seq
  is 0, is put into the fifo and the completion is raised.
\<close>

theorem receiver_delivers_expected_counterexample:
  "expect_seq (rcv (rcv_update (\<lambda>r. r\<lparr>expect_seq := 1\<rparr>) w_await_ctrl)) = 1
   \<and> ctrl_seq msg_retry = 0
   \<and> fifo (rcv (snd (surfacegen5_ssh_receive_msg_ctrl
            (rcv_update (\<lambda>r. r\<lparr>expect_seq := 1\<rparr>) w_await_ctrl) msg_retry)))
       = [0x04, 0x00, 0x00]
   \<and> signal (rcv (snd (surfacegen5_ssh_receive_msg_ctrl
            (rcv_update (\<lambda>r. r\<lparr>expect_seq := 1\<rparr>) w_await_ctrl) msg_retry)))
       = 1"
  by (simp add: eval_defs world_defs msg_retry_def)

subsection \<open>The frame of the receive path\<close>

lemma receive_frame_refl [simp]: "receive_frame w w"
  by (simp add: receive_frame_def)

lemma receive_frame_trans: "receive_frame w w1 \<Longrightarrow> receive_frame w1 w2 \<Longrightarrow> receive_frame w w2"
  by (auto simp add: receive_frame_def)

lemma receive_frame_prims [simp]:
  "receive_frame w (emit e w)" "receive_frame w (log m w)" "receive_frame w (complete w)"
  "receive_frame w (kfifo_in bs w)"
  "receive_frame w (rcv_update (\<lambda>r. r\<lparr>rcv_state := g r\<rparr>) w)"
  "receive_frame w (rcv_update (\<lambda>r. r\<lparr>eval_buf_ptr := p r\<rparr>) w)"
  "receive_frame w (rcv_update (\<lambda>r. r\<lparr>signal := s r\<rparr>) w)"
  by (simp_all add: receive_frame_def prims)

lemma receive_frame_step:
  "receive_frame w w1 \<Longrightarrow> receive_frame w (emit e w1)"
  "receive_frame w w1 \<Longrightarrow> receive_frame w (log m w1)"
  "receive_frame w w1 \<Longrightarrow> receive_frame w (complete w1)"
  "receive_frame w w1 \<Longrightarrow> receive_frame w (kfifo_in bs w1)"
  "receive_frame w w1 \<Longrightarrow> receive_frame w (rcv_update (\<lambda>r. r\<lparr>rcv_state := g r\<rparr>) w1)"
  "receive_frame w w1 \<Longrightarrow> receive_frame w (rcv_update (\<lambda>r. r\<lparr>eval_buf_ptr := p r\<rparr>) w1)"
  "receive_frame w w1 \<Longrightarrow> receive_frame w (rcv_update (\<lambda>r. r\<lparr>signal := s r\<rparr>) w1)"
  by (erule receive_frame_trans, simp)+

lemma receive_frame_kzalloc: "kzalloc w = (ok, w1) \<Longrightarrow> receive_frame w w1"
  by (auto simp add: kzalloc_def receive_frame_def rcv_def split: list.splits)

lemma receive_frame_evt_handler:
  "receive_frame w (surfacegen5_event_work_evt_handler w work)"
  by (simp add: surfacegen5_event_work_evt_handler_def Let_def receive_frame_step
      split: option.split)

lemma receive_frame_handle_event:
  assumes "surfacegen5_ssh_handle_event cfg w buf = Inr w1"
  shows "receive_frame w w1"
proof -
  obtain ok w2 where k: "kzalloc w = (ok, w2)" by (cases "kzalloc w")
  then have f: "receive_frame w w2" by (rule receive_frame_kzalloc)
  have g: "receive_frame w (surfacegen5_event_work_evt_handler v work)" if "receive_frame w v"
    for v work
    using that receive_frame_evt_handler by (rule receive_frame_trans)
  from assms k f show ?thesis
    unfolding surfacegen5_ssh_handle_event_def Let_def
    by (cases ok) (auto simp add: receive_frame_step g split: if_splits)
qed

lemma receive_frame_msg_ctrl:
  "receive_frame w (snd (surfacegen5_ssh_receive_msg_ctrl w buf))"
  by (simp add: surfacegen5_ssh_receive_msg_ctrl_def Let_def receive_frame_step)

lemma receive_frame_msg_cmd:
  "surfacegen5_ssh_receive_msg_cmd cfg w buf = Inr (n, w1) \<Longrightarrow> receive_frame w w1"
  unfolding surfacegen5_ssh_receive_msg_cmd_def Let_def
  by (auto simp add: receive_frame_step split: if_splits sum.splits
      dest: receive_frame_handle_event)

lemma receive_frame_eval_buf:
  "surfacegen5_ssh_eval_buf cfg w buf = Inr (n, w1) \<Longrightarrow> receive_frame w w1"
  unfolding surfacegen5_ssh_eval_buf_def
  by (auto split: if_splits dest: receive_frame_msg_cmd)
     (metis receive_frame_msg_ctrl snd_conv)+

lemma receive_frame_loop:
  "receive_buf_loop cfg w offs = Inr (offs1, w1) \<Longrightarrow> receive_frame w w1"
proof (induction cfg w offs rule: receive_buf_loop.induct)
  case (1 cfg w offs)
  note run = "1.prems" [unfolded receive_buf_loop.simps [of cfg w offs]]
  show ?case
  proof (cases "offs < length (eval_buf_ptr (rcv w))")
    case False
    with run show ?thesis by simp
  next
    case True
    with run obtain n w2 where
      e: "surfacegen5_ssh_eval_buf cfg w (drop offs (eval_buf_ptr (rcv w))) = Inr (n, w2)"
      by (auto split: sum.splits)
    then have f: "receive_frame w w2" by (rule receive_frame_eval_buf)
    show ?thesis
    proof (cases "n \<le> 0")
      case True
      with \<open>offs < length (eval_buf_ptr (rcv w))\<close> e run f show ?thesis by simp
    next
      case False
      with \<open>offs < length (eval_buf_ptr (rcv w))\<close> e run
      have "receive_buf_loop cfg w2 (offs + n) = Inr (offs1, w1)" by simp
      with "1.IH" [OF \<open>offs < length (eval_buf_ptr (rcv w))\<close> e refl False]
      have "receive_frame w2 w1" by simp
      with f show ?thesis by (rule receive_frame_trans)
    qed
  qed
qed

lemma receive_frame_receive_buf:
  assumes "surfacegen5_ssh_receive_buf cfg w buf = Inr (used, w1)"
  shows "receive_frame w w1"
proof -
  let ?w0 = "rcv_update (\<lambda>r. r\<lparr>eval_buf_ptr := eval_buf_ptr r @
      take (min (length buf) (eval_buf_cap (rcv w) - length (eval_buf_ptr (rcv w)))) buf\<rparr>) w"
  from assms obtain offs w2 where
    l: "receive_buf_loop cfg ?w0 0 = Inr (offs, w2)"
    and w1: "w1 = rcv_update (\<lambda>r. r\<lparr>eval_buf_ptr := drop offs (eval_buf_ptr r)\<rparr>) w2"
    by (auto simp add: surfacegen5_ssh_receive_buf_def Let_def split: sum.splits)
  have "receive_frame w ?w0" by simp
  moreover from l have "receive_frame ?w0 w2" by (rule receive_frame_loop)
  ultimately have "receive_frame w w2" by (rule receive_frame_trans)
  then show ?thesis unfolding w1 by (rule receive_frame_step)
qed

lemma receive_frame_deliver:
  "serdev_deliver cfg chunks w = Inr w1 \<Longrightarrow> receive_frame w w1"
proof (induction chunks arbitrary: w)
  case Nil
  then show ?case by simp
next
  case (Cons chunk chunks)
  from Cons.prems obtain used w2 where
    r: "surfacegen5_ssh_receive_buf cfg w chunk = Inr (used, w2)"
    and d: "serdev_deliver cfg chunks w2 = Inr w1"
    by (auto split: sum.splits)
  from r have "receive_frame w w2" by (rule receive_frame_receive_buf)
  moreover from d have "receive_frame w2 w1" by (rule Cons.IH)
  ultimately show ?case by (rule receive_frame_trans)
qed

subsection \<open>The frame of the receive path with the memory behind the received bytes\<close>

lemma receive_frame_memory_upto: "memory_upto e buf w = (msg, w1) \<Longrightarrow> receive_frame w w1"
  by (auto simp add: memory_upto_def receive_frame_def rcv_def split: if_splits list.splits)

lemma receive_frame_handle_event_mem:
  "receive_frame w (surfacegen5_ssh_handle_event_mem cfg w buf)"
proof -
  obtain ok w1 where k: "kzalloc w = (ok, w1)" by (cases "kzalloc w")
  then have f1: "receive_frame w w1" by (rule receive_frame_kzalloc)
  obtain fr w2 where
    m1: "memory_upto (SG5_FRAME_OFFS_CMD + SG5_BYTELEN_CMDFRAME) buf w1 = (fr, w2)"
    by (cases "memory_upto (SG5_FRAME_OFFS_CMD + SG5_BYTELEN_CMDFRAME) buf w1")
  obtain ms w3 where
    m2: "memory_upto (SG5_FRAME_OFFS_CMD_PLD + unat (event_pld_len buf)) buf w2 = (ms, w3)"
    by (cases "memory_upto (SG5_FRAME_OFFS_CMD_PLD + unat (event_pld_len buf)) buf w2")
  from f1 receive_frame_memory_upto [OF m1] receive_frame_memory_upto [OF m2]
  have f3: "receive_frame w w3" by (blast intro: receive_frame_trans)
  have g: "receive_frame w (surfacegen5_event_work_evt_handler v work)" if "receive_frame w v"
    for v work
    using that receive_frame_evt_handler by (rule receive_frame_trans)
  from k m1 m2 f1 f3 show ?thesis
    unfolding surfacegen5_ssh_handle_event_mem_def Let_def
    by (cases ok) (simp_all add: receive_frame_step g)
qed

lemma receive_frame_msg_cmd_mem:
  "receive_frame w (snd (surfacegen5_ssh_receive_msg_cmd_mem cfg w buf))"
proof -
  obtain fr w0 where m1: "memory_upto (SG5_FRAME_OFFS_CMD + 7) buf w = (fr, w0)"
    by (cases "memory_upto (SG5_FRAME_OFFS_CMD + 7) buf w")
  then have f0: "receive_frame w w0" by (rule receive_frame_memory_upto)
  obtain ms w1 where m2: "memory_upto (SG5_FRAME_OFFS_CMD_PLD
      + unat (ctrl_len buf - word_of_nat SG5_BYTELEN_CMDFRAME)) buf w0 = (ms, w1)"
    by (cases "memory_upto (SG5_FRAME_OFFS_CMD_PLD
      + unat (ctrl_len buf - word_of_nat SG5_BYTELEN_CMDFRAME)) buf w0")
  with f0 have f1: "receive_frame w w1"
    by (blast intro: receive_frame_trans receive_frame_memory_upto)
  from f0 have h: "receive_frame w (surfacegen5_ssh_handle_event_mem cfg w0 buf)"
    using receive_frame_handle_event_mem by (rule receive_frame_trans)
  from m1 m2 show ?thesis
    unfolding surfacegen5_ssh_receive_msg_cmd_mem_def Let_def
    by (simp add: receive_frame_step f0 f1 h)
qed

lemma receive_frame_eval_buf_mem:
  "receive_frame w (snd (surfacegen5_ssh_eval_buf_mem cfg w buf))"
  unfolding surfacegen5_ssh_eval_buf_mem_def
  by (simp add: receive_frame_msg_ctrl receive_frame_msg_cmd_mem)

lemma receive_frame_loop_mem:
  "receive_frame w (snd (receive_buf_loop_mem cfg w offs))"
proof (induction cfg w offs rule: receive_buf_loop_mem.induct)
  case (1 cfg w offs)
  show ?case
  proof (cases "offs < length (eval_buf_ptr (rcv w))")
    case False
    then show ?thesis by (simp add: receive_buf_loop_mem.simps [of cfg w offs])
  next
    case True
    obtain n w2 where
      e: "surfacegen5_ssh_eval_buf_mem cfg w (drop offs (eval_buf_ptr (rcv w))) = (n, w2)"
      by (cases "surfacegen5_ssh_eval_buf_mem cfg w (drop offs (eval_buf_ptr (rcv w)))")
    with receive_frame_eval_buf_mem [of w cfg "drop offs (eval_buf_ptr (rcv w))"]
    have f: "receive_frame w w2" by simp
    show ?thesis
    proof (cases "n \<le> 0")
      case stop: True
      with True e f show ?thesis by (simp add: receive_buf_loop_mem.simps [of cfg w offs])
    next
      case False
      from "1.IH" [OF True e [symmetric] False]
      have "receive_frame w2 (snd (receive_buf_loop_mem cfg w2 (offs + n)))" .
      with f have "receive_frame w (snd (receive_buf_loop_mem cfg w2 (offs + n)))"
        by (rule receive_frame_trans)
      with True e False show ?thesis by (simp add: receive_buf_loop_mem.simps [of cfg w offs])
    qed
  qed
qed

lemma receive_frame_receive_buf_mem:
  "receive_frame w (snd (surfacegen5_ssh_receive_buf_mem cfg w buf))"
proof -
  let ?w0 = "rcv_update (\<lambda>r. r\<lparr>eval_buf_ptr := eval_buf_ptr r @
      take (min (length buf) (eval_buf_cap (rcv w) - length (eval_buf_ptr (rcv w)))) buf\<rparr>) w"
  obtain offs w2 where l: "receive_buf_loop_mem cfg ?w0 0 = (offs, w2)"
    by (cases "receive_buf_loop_mem cfg ?w0 0")
  have "receive_frame w ?w0" by simp
  moreover from l receive_frame_loop_mem [of ?w0 cfg 0] have "receive_frame ?w0 w2" by simp
  ultimately have "receive_frame w w2" by (rule receive_frame_trans)
  then have "receive_frame w (rcv_update (\<lambda>r. r\<lparr>eval_buf_ptr := drop offs (eval_buf_ptr r)\<rparr>) w2)"
    by (rule receive_frame_step)
  with l show ?thesis
    by (simp add: surfacegen5_ssh_receive_buf_mem_def Let_def)
qed

lemma receive_frame_deliver_mem:
  "receive_frame w (serdev_deliver_mem cfg chunks w)"
proof (induction chunks arbitrary: w)
  case Nil
  show ?case by simp
next
  case (Cons chunk chunks)
  from receive_frame_receive_buf_mem [of w cfg chunk]
    Cons.IH [of "snd (surfacegen5_ssh_receive_buf_mem cfg w chunk)"]
  show ?case by (auto intro: receive_frame_trans)
qed

subsection \<open>The two versions of the receive path\<close>

text \<open>
  Where the first version of the receive path returns, no read has left the received
  bytes, and the second version returns the same, without a look at \<open>mem_script\<close>.
\<close>

lemma memory_upto_within: "e \<le> length buf \<Longrightarrow> memory_upto e buf w = (buf, w)"
  by (simp add: memory_upto_def)

lemma handle_event_mem_refines:
  assumes "surfacegen5_ssh_handle_event cfg w buf = Inr w1"
  shows "surfacegen5_ssh_handle_event_mem cfg w buf = w1"
proof -
  obtain ok v where k: "kzalloc w = (ok, v)" by (cases "kzalloc w")
  show ?thesis
  proof (cases ok)
    case False
    with assms k show ?thesis
      by (simp add: surfacegen5_ssh_handle_event_def surfacegen5_ssh_handle_event_mem_def Let_def)
  next
    case True
    with assms k
    have l: "SG5_FRAME_OFFS_CMD + SG5_BYTELEN_CMDFRAME \<le> length buf"
      "SG5_FRAME_OFFS_CMD_PLD + unat (event_pld_len buf) \<le> length buf"
      by (auto simp add: surfacegen5_ssh_handle_event_def Let_def split: if_splits)
    with assms k True show ?thesis
      by (auto simp add: surfacegen5_ssh_handle_event_def surfacegen5_ssh_handle_event_mem_def
          Let_def memory_upto_within split: if_splits)
  qed
qed

lemma receive_msg_cmd_mem_refines:
  assumes "surfacegen5_ssh_receive_msg_cmd cfg w buf = Inr r"
  shows "surfacegen5_ssh_receive_msg_cmd_mem cfg w buf = r"
  using assms
  unfolding surfacegen5_ssh_receive_msg_cmd_def surfacegen5_ssh_receive_msg_cmd_mem_def Let_def
  by (auto simp add: memory_upto_within not_less split: if_splits sum.splits
      dest!: handle_event_mem_refines)

lemma eval_buf_mem_refines:
  assumes "surfacegen5_ssh_eval_buf cfg w buf = Inr r"
  shows "surfacegen5_ssh_eval_buf_mem cfg w buf = r"
  using assms
  unfolding surfacegen5_ssh_eval_buf_def surfacegen5_ssh_eval_buf_mem_def
  by (auto split: if_splits dest: receive_msg_cmd_mem_refines)

lemma receive_buf_loop_mem_refines:
  "receive_buf_loop cfg w offs = Inr r \<Longrightarrow> receive_buf_loop_mem cfg w offs = r"
proof (induction cfg w offs rule: receive_buf_loop.induct)
  case (1 cfg w offs)
  note run = "1.prems" [unfolded receive_buf_loop.simps [of cfg w offs]]
  show ?case
  proof (cases "offs < length (eval_buf_ptr (rcv w))")
    case False
    with run show ?thesis by (simp add: receive_buf_loop_mem.simps [of cfg w offs])
  next
    case True
    with run obtain n w2 where
      e: "surfacegen5_ssh_eval_buf cfg w (drop offs (eval_buf_ptr (rcv w))) = Inr (n, w2)"
      by (auto split: sum.splits)
    then have m: "surfacegen5_ssh_eval_buf_mem cfg w (drop offs (eval_buf_ptr (rcv w))) = (n, w2)"
      by (rule eval_buf_mem_refines)
    show ?thesis
    proof (cases "n \<le> 0")
      case stop: True
      with True e m run show ?thesis by (simp add: receive_buf_loop_mem.simps [of cfg w offs])
    next
      case False
      with True e run have "receive_buf_loop cfg w2 (offs + n) = Inr r" by simp
      with "1.IH" [OF True e refl False]
      have "receive_buf_loop_mem cfg w2 (offs + n) = r" by simp
      with True m False show ?thesis by (simp add: receive_buf_loop_mem.simps [of cfg w offs])
    qed
  qed
qed

lemma receive_buf_mem_refines:
  assumes "surfacegen5_ssh_receive_buf cfg w buf = Inr r"
  shows "surfacegen5_ssh_receive_buf_mem cfg w buf = r"
  using assms
  by (auto simp add: surfacegen5_ssh_receive_buf_def surfacegen5_ssh_receive_buf_mem_def Let_def
      split: sum.splits dest!: receive_buf_loop_mem_refines)

lemma serdev_deliver_mem_refines:
  "serdev_deliver cfg chunks w = Inr w1 \<Longrightarrow> serdev_deliver_mem cfg chunks w = w1"
proof (induction chunks arbitrary: w)
  case Nil
  then show ?case by simp
next
  case (Cons chunk chunks)
  from Cons.prems obtain used w2 where
    r: "surfacegen5_ssh_receive_buf cfg w chunk = Inr (used, w2)"
    and d: "serdev_deliver cfg chunks w2 = Inr w1"
    by (auto split: sum.splits)
  from r have "surfacegen5_ssh_receive_buf_mem cfg w chunk = (used, w2)"
    by (rule receive_buf_mem_refines)
  with Cons.IH [OF d] show ?case by simp
qed

subsection \<open>Request engine: the counters\<close>

lemma wait_counter:
  assumes "wait_for_completion_timeout cfg w = (rem, w1)"
  shows "counter (ec w1) = counter (ec w)"
proof -
  obtain chunks v where
    s: "(case wait_script w of [] \<Rightarrow> ([], w) | cs # rest \<Rightarrow> (cs, w\<lparr>wait_script := rest\<rparr>)) = (chunks, v)"
    by (cases "case wait_script w of [] \<Rightarrow> ([], w) | cs # rest \<Rightarrow> (cs, w\<lparr>wait_script := rest\<rparr>)")
  then have v: "counter (ec v) = counter (ec w)"
    by (auto split: list.splits)
  define w2 where "w2 = serdev_deliver_mem cfg chunks v"
  from assms s have w1: "w1 = w2 \<or> w1 = rcv_update (\<lambda>r. r\<lparr>signal := signal r - 1\<rparr>) w2"
    by (auto simp add: wait_for_completion_timeout_def w2_def Let_def split: if_splits)
  have "counter (ec w2) = counter (ec v)"
    using receive_frame_deliver_mem [of v cfg chunks] by (simp add: receive_frame_def w2_def)
  with v w1 show ?thesis by (auto simp add: rcv_update_def)
qed

lemma flush_counter:
  "surfacegen5_ssh_writer_flush w = (status, w1) \<Longrightarrow> counter (ec w1) = counter (ec w)"
  by (auto simp add: surfacegen5_ssh_writer_flush_def serdev_device_write_def Let_def emit_def
      split: list.splits)

lemma kfifo_out_packet_counter:
  "kfifo_out_packet packet w = (packet1, w1) \<Longrightarrow> counter (ec w1) = counter (ec w)"
  by (auto simp add: kfifo_out_packet_def Let_def prims)

lemma receiver_discard_counter:
  "counter (ec (surfacegen5_ssh_receiver_discard w)) = counter (ec w)"
  by (simp add: surfacegen5_ssh_receiver_discard_def rcv_update_def)

text \<open>The loop leaves the counters alone, and it is left with status 0 before the tries
  are used up only with an ACK packet.\<close>

lemma rqst_try_loop_result:
  "rqst_try_loop cfg tr0 packet0 w = (try, status, packet, w1) \<Longrightarrow>
     counter (ec w1) = counter (ec w)
     \<and> (status = 0 \<and> try < SG5_NUM_RETRY \<longrightarrow> pkt_type packet = SG5_FRAME_TYPE_ACK)"
proof (induction cfg tr0 packet0 w rule: rqst_try_loop.induct)
  case (1 cfg tr0 packet0 w)
  note run = "1.prems" [unfolded rqst_try_loop.simps [of cfg tr0 packet0 w]]
  show ?case
  proof (cases "tr0 < SG5_NUM_RETRY")
    case False
    with run show ?thesis by auto
  next
    case lt: True
    obtain st v1 where fl: "surfacegen5_ssh_writer_flush w = (st, v1)"
      by (cases "surfacegen5_ssh_writer_flush w")
    then have c1: "counter (ec v1) = counter (ec w)" by (rule flush_counter)
    show ?thesis
    proof (cases "st \<noteq> 0")
      case True
      with run lt fl c1 show ?thesis by auto
    next
      case st0: False
      obtain rem v2 where wt: "wait_for_completion_timeout cfg v1 = (rem, v2)"
        by (cases "wait_for_completion_timeout cfg v1")
      then have c2: "counter (ec v2) = counter (ec v1)" by (rule wait_counter)
      show ?thesis
      proof (cases "rem \<noteq> 0")
        case False
        with run lt fl st0 wt
        have "rqst_try_loop cfg (tr0 + 1) packet0 v2 = (try, status, packet, w1)"
          by simp
        from "1.IH"(2) [OF lt fl [symmetric] st0 wt [symmetric] False this] c1 c2
        show ?thesis by simp
      next
        case rem: True
        obtain p1 v3 where ko: "kfifo_out_packet packet0 v2 = (p1, v3)"
          by (cases "kfifo_out_packet packet0 v2")
        then have c3: "counter (ec v3) = counter (ec v2)" by (rule kfifo_out_packet_counter)
        show ?thesis
        proof (cases "pkt_type p1 = SG5_FRAME_TYPE_ACK")
          case True
          with run lt fl st0 wt rem ko c1 c2 c3 show ?thesis by auto
        next
          case False
          with run lt fl st0 wt rem ko
          have "rqst_try_loop cfg (tr0 + 1) p1 v3 = (try, status, packet, w1)"
            by simp
          from "1.IH"(1) [OF lt fl [symmetric] st0 wt [symmetric] rem ko [symmetric] False this]
            c1 c2 c3
          show ?thesis by simp
        qed
      qed
    qed
  qed
qed

lemma rqst_ack_phase_counter:
  assumes "rqst_ack_phase cfg w rqst = (try, status, packet, w3)"
  shows "counter (ec w3) = counter (ec w)"
    and "status = 0 \<and> try < SG5_NUM_RETRY \<longrightarrow> pkt_type packet = SG5_FRAME_TYPE_ACK"
  using rqst_try_loop_result [OF assms [unfolded rqst_ack_phase_def]]
  by (simp_all add: surfacegen5_ssh_receiver_restart_def rcv_update_def
      surfacegen5_ssh_write_msg_cmd_def Let_def)

lemma rqst_unlocked_no_ack:
  assumes "unat (rqst_cdl rqst) \<le> MAX_RQST_PAYLOAD cfg"
    and "rqst_ack_phase cfg w rqst = (try, st, packet, w3)"
    and "st \<noteq> 0 \<or> SG5_NUM_RETRY \<le> try"
  shows "surfacegen5_ec_rqst_unlocked cfg w rqst result =
     (if st \<noteq> 0 then (st, result, surfacegen5_ssh_receiver_discard w3)
      else (- EIO, result,
            surfacegen5_ssh_receiver_discard (log (Communication_failed try) w3)))"
  using assms
  by (auto simp add: surfacegen5_ec_rqst_unlocked_def rqst_ack_phase_def Let_def)

lemma rqst_unlocked_ack:
  assumes "unat (rqst_cdl rqst) \<le> MAX_RQST_PAYLOAD cfg"
    and "rqst_ack_phase cfg w rqst = (try, 0, packet, w3)"
    and "try < SG5_NUM_RETRY"
    and "surfacegen5_ec_rqst_unlocked cfg w rqst result = (status, result1, w1)"
  shows "counter (ec w1) = \<lparr>cnt_seq = cnt_seq (counter (ec w3)) + 1,
                             cnt_rqid = cnt_rqid (counter (ec w3)) + 1\<rparr>"
proof -
  define w4 where "w4 = w3\<lparr>ec := (ec w3)\<lparr>counter :=
       \<lparr>cnt_seq = cnt_seq (counter (ec w3)) + 1, cnt_rqid = cnt_rqid (counter (ec w3)) + 1\<rparr>\<rparr>\<rparr>"
  have c4: "counter (ec w4) = \<lparr>cnt_seq = cnt_seq (counter (ec w3)) + 1,
                                cnt_rqid = cnt_rqid (counter (ec w3)) + 1\<rparr>"
    by (simp add: w4_def)
  have "\<exists>v. w1 = surfacegen5_ssh_receiver_discard v \<and> counter (ec v) = counter (ec w4)"
  proof (cases "result \<noteq> None \<and> rqst_snc rqst \<noteq> 0")
    case False
    with assms have "w1 = surfacegen5_ssh_receiver_discard w4"
      by (auto simp add: surfacegen5_ec_rqst_unlocked_def rqst_ack_phase_def Let_def w4_def
          split: option.splits)
    then show ?thesis by blast
  next
    case True
    then obtain res where res: "result = Some res" and snc: "rqst_snc rqst \<noteq> 0" by auto
    obtain rem w5 where wt: "wait_for_completion_timeout cfg w4 = (rem, w5)"
      by (cases "wait_for_completion_timeout cfg w4")
    then have c5: "counter (ec w5) = counter (ec w4)" by (rule wait_counter)
    obtain p1 w6 where ko: "kfifo_out_packet packet w5 = (p1, w6)"
      by (cases "kfifo_out_packet packet w5")
    then have c6: "counter (ec w6) = counter (ec w5)" by (rule kfifo_out_packet_counter)
    obtain bytes w7 where k7: "kfifo_out (unat (pkt_len p1)) w6 = (bytes, w7)"
      by (cases "kfifo_out (unat (pkt_len p1)) w6")
    then have c7: "counter (ec w7) = counter (ec w6)" by (auto simp add: prims)
    define w8 where "w8 = w7\<lparr>ec := surfacegen5_ssh_write_msg_ack (ec w7) (pkt_seq p1)\<rparr>"
    have c8: "counter (ec w8) = counter (ec w7)"
      by (simp add: w8_def surfacegen5_ssh_write_msg_ack_def Let_def)
    obtain st1 w9 where fl: "surfacegen5_ssh_writer_flush w8 = (st1, w9)"
      by (cases "surfacegen5_ssh_writer_flush w8")
    then have c9: "counter (ec w9) = counter (ec w8)" by (rule flush_counter)
    have cl: "counter (ec (log m v)) = counter (ec v)" for m v by (simp add: prims)
    from assms res snc wt ko k7 fl
    have "w1 = surfacegen5_ssh_receiver_discard (log Communication_timed_out w5)
          \<or> w1 = surfacegen5_ssh_receiver_discard w6
          \<or> w1 = surfacegen5_ssh_receiver_discard w9"
      by (auto simp add: surfacegen5_ec_rqst_unlocked_def rqst_ack_phase_def Let_def w4_def
          w8_def split: if_splits)
    with c5 c6 c7 c8 c9 cl show ?thesis by metis
  qed
  then show ?thesis using c4 by (auto simp add: receiver_discard_counter)
qed

text \<open>
  C4. Every call of \<^verbatim>\<open>surfacegen5_ec_rqst_unlocked\<close> returns, whatever arrives while it
  waits and whatever the memory behind the received bytes holds. If the loop is left with
  an ACK packet before the tries are used up (and only then is it left with status 0 before
  the tries are used up), both counters are greater by exactly one (modulo wrap-around)
  when the call returns, whatever the response phase does; if the loop is left after a
  failed flush or with all tries used up, and also if the payload is too long, both
  counters are unchanged.
\<close>

theorem rqst_unlocked_counters:
  "\<exists>try st packet w3 status result1 w1.
     rqst_ack_phase cfg w rqst = (try, st, packet, w3)
     \<and> surfacegen5_ec_rqst_unlocked cfg w rqst result = (status, result1, w1)
     \<and> (unat (rqst_cdl rqst) \<le> MAX_RQST_PAYLOAD cfg \<and> st = 0 \<and> try < SG5_NUM_RETRY \<longrightarrow>
          pkt_type packet = SG5_FRAME_TYPE_ACK
          \<and> counter (ec w1) = \<lparr>cnt_seq = cnt_seq (counter (ec w)) + 1,
                                 cnt_rqid = cnt_rqid (counter (ec w)) + 1\<rparr>)
     \<and> (unat (rqst_cdl rqst) \<le> MAX_RQST_PAYLOAD cfg \<and> (st \<noteq> 0 \<or> SG5_NUM_RETRY \<le> try) \<longrightarrow>
          counter (ec w1) = counter (ec w) \<and> status = (if st \<noteq> 0 then st else - EIO))
     \<and> (MAX_RQST_PAYLOAD cfg < unat (rqst_cdl rqst) \<longrightarrow>
          counter (ec w1) = counter (ec w) \<and> status = - EINVAL)"
proof -
  obtain tr st packet w3 where ack: "rqst_ack_phase cfg w rqst = (tr, st, packet, w3)"
    by (cases "rqst_ack_phase cfg w rqst")
  obtain status result1 w1 where
    run: "surfacegen5_ec_rqst_unlocked cfg w rqst result = (status, result1, w1)"
    by (cases "surfacegen5_ec_rqst_unlocked cfg w rqst result")
  note c3 = rqst_ack_phase_counter [OF ack]
  have a: "pkt_type packet = SG5_FRAME_TYPE_ACK
          \<and> counter (ec w1) = \<lparr>cnt_seq = cnt_seq (counter (ec w)) + 1,
                                 cnt_rqid = cnt_rqid (counter (ec w)) + 1\<rparr>"
    if "unat (rqst_cdl rqst) \<le> MAX_RQST_PAYLOAD cfg \<and> st = 0 \<and> tr < SG5_NUM_RETRY"
    using that c3 rqst_unlocked_ack [of rqst cfg w tr packet w3 result status result1 w1]
      ack run
    by simp
  have b: "counter (ec w1) = counter (ec w) \<and> status = (if st \<noteq> 0 then st else - EIO)"
    if h: "unat (rqst_cdl rqst) \<le> MAX_RQST_PAYLOAD cfg \<and> (st \<noteq> 0 \<or> SG5_NUM_RETRY \<le> tr)"
  proof -
    from h ack have u: "surfacegen5_ec_rqst_unlocked cfg w rqst result =
       (if st \<noteq> 0 then (st, result, surfacegen5_ssh_receiver_discard w3)
        else (- EIO, result,
              surfacegen5_ssh_receiver_discard (log (Communication_failed tr) w3)))"
      by (intro rqst_unlocked_no_ack) simp_all
    have cl: "counter (ec (log m v)) = counter (ec v)" for m v by (simp add: prims)
    from u run c3(1) show ?thesis
      by (auto simp add: receiver_discard_counter cl split: if_splits)
  qed
  have c: "counter (ec w1) = counter (ec w) \<and> status = - EINVAL"
    if "MAX_RQST_PAYLOAD cfg < unat (rqst_cdl rqst)"
    using that run by (auto simp add: surfacegen5_ec_rqst_unlocked_def prims)
  from ack run a b c show ?thesis by blast
qed

text \<open>
  C10. If the result buffer pointer is NULL (whether or not \<open>snc\<close> is set) and the loop is
  left with an ACK, the request engine returns 0 at once: it increments the counters and
  discards the receiver state, so the receiver is in the state \<open>SG5_RCV_DISCARD\<close> with an
  empty fifo and an empty evaluation buffer; it does not wait again (the script of the
  arrivals is as the loop left it), copies nothing, and writes nothing to the serial device
  (the trace is as the loop left it, so no ACK is sent).
\<close>

theorem rqst_unlocked_without_result_buffer:
  assumes "unat (rqst_cdl rqst) \<le> MAX_RQST_PAYLOAD cfg"
    and "rqst_ack_phase cfg w rqst = (try, 0, packet, w3)"
    and "try < SG5_NUM_RETRY"
  shows
    "(\<exists>w1. surfacegen5_ec_rqst_unlocked cfg w rqst None = (0, None, w1)
        \<and> w1 = surfacegen5_ssh_receiver_discard
                 (w3\<lparr>ec := (ec w3)\<lparr>counter :=
                      \<lparr>cnt_seq = cnt_seq (counter (ec w3)) + 1,
                       cnt_rqid = cnt_rqid (counter (ec w3)) + 1\<rparr>\<rparr>\<rparr>)
        \<and> rcv_state (rcv w1) = SG5_RCV_DISCARD
        \<and> fifo (rcv w1) = [] \<and> eval_buf_ptr (rcv w1) = []
        \<and> trace w1 = trace w3 \<and> wait_script w1 = wait_script w3
        \<and> write_script w1 = write_script w3)"
  using assms
  by (simp add: surfacegen5_ec_rqst_unlocked_def rqst_ack_phase_def Let_def
      surfacegen5_ssh_receiver_discard_def rcv_update_def rcv_def)

subsection \<open>Request engine: concrete runs\<close>

lemmas engine_defs =
  surfacegen5_ec_rqst_unlocked_def rqst_ack_phase_def rqst_try_loop.simps
  surfacegen5_ssh_writer_flush_def serdev_device_write_def wait_for_completion_timeout_def
  surfacegen5_ssh_receive_buf_mem_def receive_buf_loop_mem.simps
  surfacegen5_ssh_eval_buf_mem_def surfacegen5_ssh_receive_msg_cmd_mem_def
  surfacegen5_ssh_handle_event_mem_def memory_upto_def kfifo_out_packet_def
  surfacegen5_ssh_receiver_discard_def surfacegen5_ssh_write_msg_cmd_def
  surfacegen5_ssh_write_msg_ack_def surfacegen5_ssh_writer_reset_def
  surfacegen5_ssh_write_syn_def surfacegen5_ssh_write_ter_def surfacegen5_ssh_write_hdr_def
  surfacegen5_ssh_write_cmd_def surfacegen5_ssh_write_ack_def surfacegen5_ssh_write_crc_def
  surfacegen5_ssh_write_u16_def surfacegen5_ssh_write_buf_def SG5_NUM_RETRY_def
  EIO_def EINVAL_def Let_def

theorem rqst_unlocked_without_result_buffer_witness:
  "rqst_snc rqst_resume \<noteq> 0
   \<and> (\<exists>p w3. rqst_ack_phase sg5_config (w0\<lparr>wait_script := [[msg_ack0], [msg_resp]]\<rparr>) rqst_resume
          = (0, 0, p, w3) \<and> wait_script w3 = [[msg_resp]])
   \<and> (\<exists>w1. surfacegen5_ec_rqst_unlocked sg5_config
            (w0\<lparr>wait_script := [[msg_ack0], [msg_resp]]\<rparr>) rqst_resume None
          = (0, None, w1)
        \<and> rcv_state (rcv w1) = SG5_RCV_DISCARD
        \<and> wait_script w1 = [[msg_resp]]
        \<and> counter (ec w1) = \<lparr>cnt_seq = 1, cnt_rqid = 3\<rparr>
        \<and> trace w1 = [Serdev_write [0xaa, 0x55, 0x80, 0x08, 0x00, 0x00, 0x59, 0xF0,
                          0x80, 0x01, 0x01, 0x00, 0x00, 0x40, 0x00, 0x16, 0x24, 0x5E]])"
proof -
  let ?w = "w0\<lparr>wait_script := [[msg_ack0], [msg_resp]]\<rparr>"
  have "\<exists>p w3. rqst_ack_phase sg5_config ?w rqst_resume = (0, 0, p, w3)
           \<and> wait_script w3 = [[msg_resp]]
           \<and> counter (ec w3) = \<lparr>cnt_seq = 0, cnt_rqid = 2\<rparr>
           \<and> trace w3 = [Serdev_write [0xaa, 0x55, 0x80, 0x08, 0x00, 0x00, 0x59, 0xF0,
                          0x80, 0x01, 0x01, 0x00, 0x00, 0x40, 0x00, 0x16, 0x24, 0x5E]]"
    by (simp add: engine_defs eval_defs world_defs msg_ack0_def)
  then obtain p w3 where
    ack: "rqst_ack_phase sg5_config ?w rqst_resume = (0, 0, p, w3)"
    and w3: "wait_script w3 = [[msg_resp]]" "counter (ec w3) = \<lparr>cnt_seq = 0, cnt_rqid = 2\<rparr>"
      "trace w3 = [Serdev_write [0xaa, 0x55, 0x80, 0x08, 0x00, 0x00, 0x59, 0xF0,
                          0x80, 0x01, 0x01, 0x00, 0x00, 0x40, 0x00, 0x16, 0x24, 0x5E]]"
    by blast
  have small: "unat (rqst_cdl rqst_resume) \<le> MAX_RQST_PAYLOAD sg5_config"
    by (simp add: rqst_resume_def sg5_config_def)
  have lt: "0 < SG5_NUM_RETRY" by (simp add: SG5_NUM_RETRY_def)
  from rqst_unlocked_without_result_buffer [OF small ack lt] w3 ack
  show ?thesis
    by (auto simp add: surfacegen5_ssh_receiver_discard_def prims rqst_resume_def)
qed

text \<open>
  Runs of the request engine: the ACK and the response arrive; the ACK arrives and no
  response; a command message whose command frame ends behind its type byte arrives first
  (the receiver reads the request id behind the received bytes, the first wait times out),
  then the ACK and the response; the ACK arrives and then this short command message, which
  the receiver takes as the response because the memory behind it holds the expected
  request id (it puts 249 bytes of payload into the fifo, too many for the result buffer);
  nothing arrives; the write to the serial device fails; the payload is too long.
\<close>

lemma run_ack_resp:
  "\<exists>p w3 w1. rqst_ack_phase sg5_config (w0\<lparr>wait_script := [[msg_ack0], [msg_resp]]\<rparr>) rqst_resume
              = (0, 0, p, w3)
     \<and> surfacegen5_ec_rqst_unlocked sg5_config (w0\<lparr>wait_script := [[msg_ack0], [msg_resp]]\<rparr>)
          rqst_resume (Some \<lparr>buf_cap = 1, buf_len = 0, buf_data = [0xEE]\<rparr>)
        = (0, Some \<lparr>buf_cap = 1, buf_len = 1, buf_data = [0x00]\<rparr>, w1)"
  by (simp add: engine_defs eval_defs world_defs msg_ack0_def msg_resp_def)

lemma run_ack_only:
  "\<exists>p w3 w1. rqst_ack_phase sg5_config (w0\<lparr>wait_script := [[msg_ack0]]\<rparr>) rqst_resume
              = (0, 0, p, w3)
     \<and> surfacegen5_ec_rqst_unlocked sg5_config (w0\<lparr>wait_script := [[msg_ack0]]\<rparr>)
          rqst_resume (Some \<lparr>buf_cap = 1, buf_len = 0, buf_data = [0xEE]\<rparr>)
        = (- 5, Some \<lparr>buf_cap = 1, buf_len = 0, buf_data = [0xEE]\<rparr>, w1)"
  by (simp add: engine_defs eval_defs world_defs msg_ack0_def)

lemma run_tiny_ack_resp:
  "\<exists>p w3 w1. rqst_ack_phase sg5_config
                (w0\<lparr>wait_script := [[msg_tiny], [msg_ack0], [msg_resp]],
                     mem_script := [[0x00, 0x00, 0x40, 0x00]]\<rparr>) rqst_resume
              = (1, 0, p, w3)
     \<and> surfacegen5_ec_rqst_unlocked sg5_config
          (w0\<lparr>wait_script := [[msg_tiny], [msg_ack0], [msg_resp]],
               mem_script := [[0x00, 0x00, 0x40, 0x00]]\<rparr>)
          rqst_resume (Some \<lparr>buf_cap = 1, buf_len = 0, buf_data = [0xEE]\<rparr>)
        = (0, Some \<lparr>buf_cap = 1, buf_len = 1, buf_data = [0x00]\<rparr>, w1)
     \<and> mem_script w1 = []"
  by (simp add: engine_defs eval_defs world_defs msg_tiny_def msg_ack0_def msg_resp_def)

lemma run_ack_tiny:
  "\<exists>p w3 w1. rqst_ack_phase sg5_config
                (w0\<lparr>wait_script := [[msg_ack0], [msg_tiny]],
                     mem_script := [[0x00, 0x00, 0x40, 0x00]]\<rparr>) rqst_resume
              = (0, 0, p, w3)
     \<and> surfacegen5_ec_rqst_unlocked sg5_config
          (w0\<lparr>wait_script := [[msg_ack0], [msg_tiny]],
               mem_script := [[0x00, 0x00, 0x40, 0x00]]\<rparr>)
          rqst_resume (Some \<lparr>buf_cap = 1, buf_len = 0, buf_data = [0xEE]\<rparr>)
        = (- 22, Some \<lparr>buf_cap = 1, buf_len = 0, buf_data = [0xEE]\<rparr>, w1)"
  by (simp add: engine_defs eval_defs world_defs msg_tiny_def msg_ack0_def)

lemma run_silent:
  "\<exists>p w3 w1. rqst_ack_phase sg5_config w0 rqst_resume = (3, 0, p, w3)
     \<and> surfacegen5_ec_rqst_unlocked sg5_config w0 rqst_resume None = (- 5, None, w1)"
  by (simp add: engine_defs eval_defs world_defs)

lemma run_flush_fails:
  "\<exists>p w3 w1. rqst_ack_phase sg5_config (w0\<lparr>write_script := [- 110]\<rparr>) rqst_resume
              = (0, - 110, p, w3)
     \<and> surfacegen5_ec_rqst_unlocked sg5_config (w0\<lparr>write_script := [- 110]\<rparr>) rqst_resume None
        = (- 110, None, w1)"
  by (simp add: engine_defs eval_defs world_defs)

lemma run_too_long:
  "\<exists>w1. surfacegen5_ec_rqst_unlocked sg5_config w0 (rqst_resume\<lparr>rqst_cdl := 95\<rparr>) None
          = (- 22, None, w1)"
  by (simp add: engine_defs world_defs)

theorem rqst_unlocked_counters_witness:
  "(\<exists>p w3 w1. rqst_ack_phase sg5_config (w0\<lparr>wait_script := [[msg_ack0], [msg_resp]]\<rparr>) rqst_resume
              = (0, 0, p, w3)
        \<and> pkt_type p = SG5_FRAME_TYPE_ACK
        \<and> surfacegen5_ec_rqst_unlocked sg5_config (w0\<lparr>wait_script := [[msg_ack0], [msg_resp]]\<rparr>)
             rqst_resume (Some \<lparr>buf_cap = 1, buf_len = 0, buf_data = [0xEE]\<rparr>)
           = (0, Some \<lparr>buf_cap = 1, buf_len = 1, buf_data = [0x00]\<rparr>, w1)
        \<and> counter (ec w1) = \<lparr>cnt_seq = 1, cnt_rqid = 3\<rparr>)
   \<and> (\<exists>w1. surfacegen5_ec_rqst_unlocked sg5_config (w0\<lparr>wait_script := [[msg_ack0]]\<rparr>)
             rqst_resume (Some \<lparr>buf_cap = 1, buf_len = 0, buf_data = [0xEE]\<rparr>)
           = (- 5, Some \<lparr>buf_cap = 1, buf_len = 0, buf_data = [0xEE]\<rparr>, w1)
        \<and> counter (ec w1) = \<lparr>cnt_seq = 1, cnt_rqid = 3\<rparr>)
   \<and> (\<exists>p w3 w1. rqst_ack_phase sg5_config
                (w0\<lparr>wait_script := [[msg_tiny], [msg_ack0], [msg_resp]],
                     mem_script := [[0x00, 0x00, 0x40, 0x00]]\<rparr>) rqst_resume
              = (1, 0, p, w3)
        \<and> pkt_type p = SG5_FRAME_TYPE_ACK
        \<and> surfacegen5_ec_rqst_unlocked sg5_config
             (w0\<lparr>wait_script := [[msg_tiny], [msg_ack0], [msg_resp]],
                  mem_script := [[0x00, 0x00, 0x40, 0x00]]\<rparr>)
             rqst_resume (Some \<lparr>buf_cap = 1, buf_len = 0, buf_data = [0xEE]\<rparr>)
           = (0, Some \<lparr>buf_cap = 1, buf_len = 1, buf_data = [0x00]\<rparr>, w1)
        \<and> counter (ec w1) = \<lparr>cnt_seq = 1, cnt_rqid = 3\<rparr>)
   \<and> (\<exists>p w3 w1. rqst_ack_phase sg5_config
                (w0\<lparr>wait_script := [[msg_ack0], [msg_tiny]],
                     mem_script := [[0x00, 0x00, 0x40, 0x00]]\<rparr>) rqst_resume
              = (0, 0, p, w3)
        \<and> pkt_type p = SG5_FRAME_TYPE_ACK
        \<and> surfacegen5_ec_rqst_unlocked sg5_config
             (w0\<lparr>wait_script := [[msg_ack0], [msg_tiny]],
                  mem_script := [[0x00, 0x00, 0x40, 0x00]]\<rparr>)
             rqst_resume (Some \<lparr>buf_cap = 1, buf_len = 0, buf_data = [0xEE]\<rparr>)
           = (- 22, Some \<lparr>buf_cap = 1, buf_len = 0, buf_data = [0xEE]\<rparr>, w1)
        \<and> counter (ec w1) = \<lparr>cnt_seq = 1, cnt_rqid = 3\<rparr>)
   \<and> (\<exists>p w3 w1. rqst_ack_phase sg5_config w0 rqst_resume = (3, 0, p, w3)
        \<and> surfacegen5_ec_rqst_unlocked sg5_config w0 rqst_resume None = (- 5, None, w1)
        \<and> counter (ec w1) = \<lparr>cnt_seq = 0, cnt_rqid = 2\<rparr>)
   \<and> (\<exists>p w3 w1. rqst_ack_phase sg5_config (w0\<lparr>write_script := [- 110]\<rparr>) rqst_resume
              = (0, - 110, p, w3)
        \<and> surfacegen5_ec_rqst_unlocked sg5_config (w0\<lparr>write_script := [- 110]\<rparr>) rqst_resume None
           = (- 110, None, w1)
        \<and> counter (ec w1) = \<lparr>cnt_seq = 0, cnt_rqid = 2\<rparr>)
   \<and> (\<exists>w1. surfacegen5_ec_rqst_unlocked sg5_config w0 (rqst_resume\<lparr>rqst_cdl := 95\<rparr>) None
          = (- 22, None, w1)
        \<and> counter (ec w1) = \<lparr>cnt_seq = 0, cnt_rqid = 2\<rparr>)"
proof -
  let ?res = "Some \<lparr>buf_cap = 1, buf_len = 0, buf_data = [0xEE]\<rparr>"
  let ?wa = "w0\<lparr>wait_script := [[msg_ack0], [msg_resp]]\<rparr>"
  let ?wb = "w0\<lparr>wait_script := [[msg_ack0]]\<rparr>"
  let ?wt = "w0\<lparr>wait_script := [[msg_tiny], [msg_ack0], [msg_resp]],
                mem_script := [[0x00, 0x00, 0x40, 0x00]]\<rparr>"
  let ?ws = "w0\<lparr>wait_script := [[msg_ack0], [msg_tiny]],
                mem_script := [[0x00, 0x00, 0x40, 0x00]]\<rparr>"
  let ?wf = "w0\<lparr>write_script := [- 110]\<rparr>"
  have c0: "counter (ec w0) = \<lparr>cnt_seq = 0, cnt_rqid = 2\<rparr>"
    "counter (ec ?wa) = \<lparr>cnt_seq = 0, cnt_rqid = 2\<rparr>"
    "counter (ec ?wb) = \<lparr>cnt_seq = 0, cnt_rqid = 2\<rparr>"
    "counter (ec ?wt) = \<lparr>cnt_seq = 0, cnt_rqid = 2\<rparr>"
    "counter (ec ?ws) = \<lparr>cnt_seq = 0, cnt_rqid = 2\<rparr>"
    "counter (ec ?wf) = \<lparr>cnt_seq = 0, cnt_rqid = 2\<rparr>"
    by (simp_all add: w0_def ec0_def)
  have small: "unat (rqst_cdl rqst_resume) \<le> MAX_RQST_PAYLOAD sg5_config"
    "MAX_RQST_PAYLOAD sg5_config < unat (rqst_cdl (rqst_resume\<lparr>rqst_cdl := 95\<rparr>))"
    by (simp_all add: rqst_resume_def sg5_config_def)
  have r3: "(0::nat) < SG5_NUM_RETRY" "(1::nat) < SG5_NUM_RETRY" "SG5_NUM_RETRY \<le> 3"
    by (simp_all add: SG5_NUM_RETRY_def)
  have a: "\<exists>p w3 w1. rqst_ack_phase sg5_config ?wa rqst_resume = (0, 0, p, w3)
        \<and> pkt_type p = SG5_FRAME_TYPE_ACK
        \<and> surfacegen5_ec_rqst_unlocked sg5_config ?wa rqst_resume ?res
           = (0, Some \<lparr>buf_cap = 1, buf_len = 1, buf_data = [0x00]\<rparr>, w1)
        \<and> counter (ec w1) = \<lparr>cnt_seq = 1, cnt_rqid = 3\<rparr>"
    using rqst_unlocked_counters [of sg5_config ?wa rqst_resume ?res] run_ack_resp small r3 c0
    by auto
  have b: "\<exists>w1. surfacegen5_ec_rqst_unlocked sg5_config ?wb rqst_resume ?res = (- 5, ?res, w1)
        \<and> counter (ec w1) = \<lparr>cnt_seq = 1, cnt_rqid = 3\<rparr>"
    using rqst_unlocked_counters [of sg5_config ?wb rqst_resume ?res] run_ack_only small r3 c0
    by auto
  have t: "\<exists>p w3 w1. rqst_ack_phase sg5_config ?wt rqst_resume = (1, 0, p, w3)
        \<and> pkt_type p = SG5_FRAME_TYPE_ACK
        \<and> surfacegen5_ec_rqst_unlocked sg5_config ?wt rqst_resume ?res
           = (0, Some \<lparr>buf_cap = 1, buf_len = 1, buf_data = [0x00]\<rparr>, w1)
        \<and> counter (ec w1) = \<lparr>cnt_seq = 1, cnt_rqid = 3\<rparr>"
    using rqst_unlocked_counters [of sg5_config ?wt rqst_resume ?res] run_tiny_ack_resp small r3 c0
    by auto
  have s: "\<exists>p w3 w1. rqst_ack_phase sg5_config ?ws rqst_resume = (0, 0, p, w3)
        \<and> pkt_type p = SG5_FRAME_TYPE_ACK
        \<and> surfacegen5_ec_rqst_unlocked sg5_config ?ws rqst_resume ?res = (- 22, ?res, w1)
        \<and> counter (ec w1) = \<lparr>cnt_seq = 1, cnt_rqid = 3\<rparr>"
    using rqst_unlocked_counters [of sg5_config ?ws rqst_resume ?res] run_ack_tiny small r3 c0
    by auto
  have c: "\<exists>p w3 w1. rqst_ack_phase sg5_config w0 rqst_resume = (3, 0, p, w3)
        \<and> surfacegen5_ec_rqst_unlocked sg5_config w0 rqst_resume None = (- 5, None, w1)
        \<and> counter (ec w1) = \<lparr>cnt_seq = 0, cnt_rqid = 2\<rparr>"
    using rqst_unlocked_counters [of sg5_config w0 rqst_resume None] run_silent small r3 c0
    by auto
  have f: "\<exists>p w3 w1. rqst_ack_phase sg5_config ?wf rqst_resume = (0, - 110, p, w3)
        \<and> surfacegen5_ec_rqst_unlocked sg5_config ?wf rqst_resume None = (- 110, None, w1)
        \<and> counter (ec w1) = \<lparr>cnt_seq = 0, cnt_rqid = 2\<rparr>"
    using rqst_unlocked_counters [of sg5_config ?wf rqst_resume None] run_flush_fails small r3 c0
    by auto
  have l: "\<exists>w1. surfacegen5_ec_rqst_unlocked sg5_config w0 (rqst_resume\<lparr>rqst_cdl := 95\<rparr>) None
          = (- 22, None, w1)
        \<and> counter (ec w1) = \<lparr>cnt_seq = 0, cnt_rqid = 2\<rparr>"
    using rqst_unlocked_counters [of sg5_config w0 "rqst_resume\<lparr>rqst_cdl := 95\<rparr>" None]
      run_too_long small r3 c0
    by auto
  from a b t s c f l show ?thesis by (intro conjI)
qed

subsection \<open>Evaluation of a command message; a response with a wrong checksum\<close>

lemma starts_cmd:
  assumes "take 3 buf = [0xaa, 0x55, SG5_FRAME_TYPE_CMD]"
  shows "3 \<le> length buf" "surfacegen5_ssh_is_valid_syn buf" "ctrl_type buf = SG5_FRAME_TYPE_CMD"
proof -
  from assms have "length (take 3 buf) = 3" by simp
  then show len: "3 \<le> length buf" by simp
  from assms have "\<forall>i<3. take 3 buf ! i = [0xaa, 0x55, SG5_FRAME_TYPE_CMD] ! i" by simp
  then have "buf ! 0 = 0xaa" "buf ! 1 = 0x55" "buf ! 2 = SG5_FRAME_TYPE_CMD"
    using len by (auto simp add: eval_nat_numeral less_Suc_eq)
  then show "surfacegen5_ssh_is_valid_syn buf" "ctrl_type buf = SG5_FRAME_TYPE_CMD"
    by (simp_all add: surfacegen5_ssh_is_valid_syn_def ctrl_type_def sg5_sizes)
qed

lemma eval_buf_mem_invalid_cmd_crc:
  assumes "take 3 buf = [0xaa, 0x55, SG5_FRAME_TYPE_CMD]"
    and "surfacegen5_ssh_is_valid_crc (drop SG5_FRAME_OFFS_CTRL buf) SG5_BYTELEN_CTRL"
    and "SG5_MSG_LEN_CMD_BASE + unat (ctrl_len buf) \<le> length buf"
    and "cmd_type buf = SG5_FRAME_TYPE_CMD"
    and "\<not> surfacegen5_ssh_is_valid_crc (drop SG5_FRAME_OFFS_CMD buf) (unat (ctrl_len buf))"
  shows "surfacegen5_ssh_eval_buf_mem cfg w buf =
           (SG5_MSG_LEN_CMD_BASE + unat (ctrl_len buf), log Invalid_checksum_cmd_pld w)"
  using starts_cmd [OF assms(1)] assms(2-)
  by (simp add: surfacegen5_ssh_eval_buf_mem_def surfacegen5_ssh_receive_msg_cmd_mem_def Let_def
      sg5_sizes sg5_types)

text \<open>A wait during which nothing but such a message arrives times out.\<close>

lemma wait_invalid_cmd_crc:
  assumes msg: "take 3 buf = [0xaa, 0x55, SG5_FRAME_TYPE_CMD]"
      "surfacegen5_ssh_is_valid_crc (drop SG5_FRAME_OFFS_CTRL buf) SG5_BYTELEN_CTRL"
      "length buf = SG5_MSG_LEN_CMD_BASE + unat (ctrl_len buf)"
      "cmd_type buf = SG5_FRAME_TYPE_CMD"
      "\<not> surfacegen5_ssh_is_valid_crc (drop SG5_FRAME_OFFS_CMD buf) (unat (ctrl_len buf))"
    and arrives: "wait_script w = [buf] # rest"
    and idle: "signal (rcv w) = 0" "eval_buf_ptr (rcv w) = []"
    and fits: "length buf \<le> eval_buf_cap (rcv w)"
  shows "wait_for_completion_timeout cfg w =
           (0, rcv_update (\<lambda>r. r\<lparr>eval_buf_ptr := []\<rparr>)
                 (log Invalid_checksum_cmd_pld
                    (rcv_update (\<lambda>r. r\<lparr>eval_buf_ptr := buf\<rparr>) (w\<lparr>wait_script := rest\<rparr>))))"
proof -
  define v where "v = rcv_update (\<lambda>r. r\<lparr>eval_buf_ptr := buf\<rparr>) (w\<lparr>wait_script := rest\<rparr>)"
  have p: "eval_buf_ptr (rcv v) = buf" "eval_buf_ptr (rcv (log Invalid_checksum_cmd_pld v)) = buf"
    by (simp_all add: v_def prims)
  from starts_cmd(1) [OF msg(1)] have pos: "0 < length buf" by arith
  have e: "surfacegen5_ssh_eval_buf_mem cfg v buf = (length buf, log Invalid_checksum_cmd_pld v)"
    using eval_buf_mem_invalid_cmd_crc [OF msg(1,2) _ msg(4,5), of cfg v] msg(3) by simp
  have stop: "receive_buf_loop_mem cfg (log Invalid_checksum_cmd_pld v) (length buf)
                = (length buf, log Invalid_checksum_cmd_pld v)"
    by (simp add: receive_buf_loop_mem.simps [of cfg "log Invalid_checksum_cmd_pld v" "length buf"] p)
  have loop: "receive_buf_loop_mem cfg v 0 = (length buf, log Invalid_checksum_cmd_pld v)"
    using pos e stop by (simp add: receive_buf_loop_mem.simps [of cfg v 0] p)
  have first: "rcv_update (\<lambda>r. r\<lparr>eval_buf_ptr := eval_buf_ptr r @
      take (min (length buf) (eval_buf_cap (rcv (w\<lparr>wait_script := rest\<rparr>))
              - length (eval_buf_ptr (rcv (w\<lparr>wait_script := rest\<rparr>))))) buf\<rparr>)
      (w\<lparr>wait_script := rest\<rparr>) = v"
    using idle fits by (simp add: v_def prims)
  have r: "surfacegen5_ssh_receive_buf_mem cfg (w\<lparr>wait_script := rest\<rparr>) buf =
      (length buf, rcv_update (\<lambda>r. r\<lparr>eval_buf_ptr := []\<rparr>) (log Invalid_checksum_cmd_pld v))"
    unfolding surfacegen5_ssh_receive_buf_mem_def Let_def first loop
    using idle fits by (simp add: prims v_def)
  have s: "signal (rcv (rcv_update (\<lambda>r. r\<lparr>eval_buf_ptr := []\<rparr>) (log Invalid_checksum_cmd_pld v))) = 0"
    using idle by (simp add: v_def prims)
  show ?thesis
    using arrives r s by (simp add: wait_for_completion_timeout_def v_def)
qed

text \<open>If such a message is all that arrives while the request engine waits for the response,
  the request fails with \<open>-EIO\<close>; the engine neither waits nor writes again.\<close>

lemma rqst_unlocked_invalid_cmd_crc:
  assumes msg: "take 3 buf = [0xaa, 0x55, SG5_FRAME_TYPE_CMD]"
      "surfacegen5_ssh_is_valid_crc (drop SG5_FRAME_OFFS_CTRL buf) SG5_BYTELEN_CTRL"
      "length buf = SG5_MSG_LEN_CMD_BASE + unat (ctrl_len buf)"
      "cmd_type buf = SG5_FRAME_TYPE_CMD"
      "\<not> surfacegen5_ssh_is_valid_crc (drop SG5_FRAME_OFFS_CMD buf) (unat (ctrl_len buf))"
    and rqst: "unat (rqst_cdl rqst) \<le> MAX_RQST_PAYLOAD cfg" "rqst_snc rqst \<noteq> 0"
    and ack: "rqst_ack_phase cfg v rqst = (try, 0, packet, w3)" "try < SG5_NUM_RETRY"
    and arrives: "wait_script w3 = [buf] # rest"
    and idle: "signal (rcv w3) = 0" "eval_buf_ptr (rcv w3) = []"
    and fits: "length buf \<le> eval_buf_cap (rcv w3)"
  shows "\<exists>w1. surfacegen5_ec_rqst_unlocked cfg v rqst (Some res) = (- EIO, Some res, w1)
           \<and> trace w1 = trace w3 @ [Log Invalid_checksum_cmd_pld, Log Communication_timed_out]
           \<and> wait_script w1 = rest \<and> write_script w1 = write_script w3"
proof -
  define w4 where "w4 = w3\<lparr>ec := (ec w3)\<lparr>counter :=
       \<lparr>cnt_seq = cnt_seq (counter (ec w3)) + 1, cnt_rqid = cnt_rqid (counter (ec w3)) + 1\<rparr>\<rparr>\<rparr>"
  define w5 where "w5 = rcv_update (\<lambda>r. r\<lparr>eval_buf_ptr := []\<rparr>)
                 (log Invalid_checksum_cmd_pld
                    (rcv_update (\<lambda>r. r\<lparr>eval_buf_ptr := buf\<rparr>) (w4\<lparr>wait_script := rest\<rparr>)))"
  have "wait_for_completion_timeout cfg w4 = (0, w5)"
    unfolding w5_def
    using arrives idle fits by (intro wait_invalid_cmd_crc [OF msg]) (simp_all add: w4_def rcv_def)
  with rqst ack
  have run: "surfacegen5_ec_rqst_unlocked cfg v rqst (Some res) =
      (- EIO, Some res, surfacegen5_ssh_receiver_discard (log Communication_timed_out w5))"
    by (simp add: surfacegen5_ec_rqst_unlocked_def rqst_ack_phase_def Let_def w4_def)
  have "trace (surfacegen5_ssh_receiver_discard (log Communication_timed_out w5))
          = trace w3 @ [Log Invalid_checksum_cmd_pld, Log Communication_timed_out]"
    and "wait_script (surfacegen5_ssh_receiver_discard (log Communication_timed_out w5)) = rest"
    and "write_script (surfacegen5_ssh_receiver_discard (log Communication_timed_out w5))
          = write_script w3"
    by (simp_all add: w5_def w4_def surfacegen5_ssh_receiver_discard_def prims)
  with run show ?thesis by blast
qed

text \<open>If it is all that arrives while the request engine waits for the ACK, the try ends
  without a packet and the loop goes on to the next try.\<close>

lemma rqst_try_invalid_cmd_crc:
  assumes msg: "take 3 buf = [0xaa, 0x55, SG5_FRAME_TYPE_CMD]"
      "surfacegen5_ssh_is_valid_crc (drop SG5_FRAME_OFFS_CTRL buf) SG5_BYTELEN_CTRL"
      "length buf = SG5_MSG_LEN_CMD_BASE + unat (ctrl_len buf)"
      "cmd_type buf = SG5_FRAME_TYPE_CMD"
      "\<not> surfacegen5_ssh_is_valid_crc (drop SG5_FRAME_OFFS_CMD buf) (unat (ctrl_len buf))"
    and tries: "tr < SG5_NUM_RETRY"
    and flush: "surfacegen5_ssh_writer_flush u = (0, u1)"
    and arrives: "wait_script u1 = [buf] # rest"
    and idle: "signal (rcv u1) = 0" "eval_buf_ptr (rcv u1) = []"
    and fits: "length buf \<le> eval_buf_cap (rcv u1)"
  shows "\<exists>u2. rqst_try_loop cfg tr packet u = rqst_try_loop cfg (tr + 1) packet u2
           \<and> trace u2 = trace u1 @ [Log Invalid_checksum_cmd_pld]
           \<and> wait_script u2 = rest \<and> writer (ec u2) = writer (ec u1)"
proof -
  define u2 where "u2 = rcv_update (\<lambda>r. r\<lparr>eval_buf_ptr := []\<rparr>)
                 (log Invalid_checksum_cmd_pld
                    (rcv_update (\<lambda>r. r\<lparr>eval_buf_ptr := buf\<rparr>) (u1\<lparr>wait_script := rest\<rparr>)))"
  have "wait_for_completion_timeout cfg u1 = (0, u2)"
    unfolding u2_def by (rule wait_invalid_cmd_crc [OF msg arrives idle fits])
  with tries flush
  have "rqst_try_loop cfg tr packet u = rqst_try_loop cfg (tr + 1) packet u2"
    by (simp add: rqst_try_loop.simps [of cfg tr packet u])
  moreover have "trace u2 = trace u1 @ [Log Invalid_checksum_cmd_pld]"
    "wait_script u2 = rest" "writer (ec u2) = writer (ec u1)"
    by (simp_all add: u2_def prims)
  ultimately show ?thesis by blast
qed

text \<open>
  C6, amended. For a buffer that starts with a valid SYN and the control type CMD: with
  fewer than SYN + ctrl + crc (8) bytes the evaluator consumes nothing; with an invalid
  control CRC it consumes the whole buffer; with a valid control CRC and fewer than
  \<open>SG5_MSG_LEN_CMD_BASE + ctrl.len\<close> bytes it consumes nothing; with the whole message
  present and a command frame whose type byte is not CMD it consumes the whole buffer; with
  the type byte CMD and an invalid command CRC it consumes exactly
  \<open>SG5_MSG_LEN_CMD_BASE + ctrl.len\<close> bytes. In each case the state changes by the logged
  message at most, so nothing is put into the fifo and the completion is not raised. A
  request that has got its ACK and waits for the response, and to which nothing but a
  message with an invalid command CRC arrives, times out in this wait: the request engine
  returns \<open>-EIO\<close> and logs the two messages; it does not wait again and does not write
  to the serial device again, so the request is not sent once more. The loop of the tries
  is around the wait for the ACK only: if such a message is all that arrives in a try, after
  the command has been written, the try ends without a packet and the loop goes on with the
  next try and the same bytes in the writer buffer.
\<close>

theorem eval_buf_cmd_consumes:
  assumes "take 3 buf = [0xaa, 0x55, SG5_FRAME_TYPE_CMD]"
  shows
    "(length buf < SG5_BYTELEN_SYNC + SG5_BYTELEN_CTRL + SG5_BYTELEN_CRC \<longrightarrow>
        surfacegen5_ssh_eval_buf cfg w buf = Inr (0, w))
     \<and> (SG5_BYTELEN_SYNC + SG5_BYTELEN_CTRL + SG5_BYTELEN_CRC \<le> length buf
          \<and> \<not> surfacegen5_ssh_is_valid_crc (drop SG5_FRAME_OFFS_CTRL buf) SG5_BYTELEN_CTRL \<longrightarrow>
        surfacegen5_ssh_eval_buf cfg w buf = Inr (length buf, log Invalid_checksum_cmd_ctrl w))
     \<and> (SG5_BYTELEN_SYNC + SG5_BYTELEN_CTRL + SG5_BYTELEN_CRC \<le> length buf
          \<and> surfacegen5_ssh_is_valid_crc (drop SG5_FRAME_OFFS_CTRL buf) SG5_BYTELEN_CTRL
          \<and> length buf < SG5_MSG_LEN_CMD_BASE + unat (ctrl_len buf) \<longrightarrow>
        surfacegen5_ssh_eval_buf cfg w buf = Inr (0, w))
     \<and> (surfacegen5_ssh_is_valid_crc (drop SG5_FRAME_OFFS_CTRL buf) SG5_BYTELEN_CTRL
          \<and> SG5_MSG_LEN_CMD_BASE + unat (ctrl_len buf) \<le> length buf
          \<and> cmd_type buf \<noteq> SG5_FRAME_TYPE_CMD \<longrightarrow>
        surfacegen5_ssh_eval_buf cfg w buf =
          Inr (length buf, log (Expected_command_frame_type (cmd_type buf)) w))
     \<and> (surfacegen5_ssh_is_valid_crc (drop SG5_FRAME_OFFS_CTRL buf) SG5_BYTELEN_CTRL
          \<and> SG5_MSG_LEN_CMD_BASE + unat (ctrl_len buf) \<le> length buf
          \<and> cmd_type buf = SG5_FRAME_TYPE_CMD
          \<and> \<not> surfacegen5_ssh_is_valid_crc (drop SG5_FRAME_OFFS_CMD buf) (unat (ctrl_len buf)) \<longrightarrow>
        surfacegen5_ssh_eval_buf cfg w buf =
          Inr (SG5_MSG_LEN_CMD_BASE + unat (ctrl_len buf), log Invalid_checksum_cmd_pld w))
     \<and> (\<forall>v rqst res tr packet w3 rest.
          surfacegen5_ssh_is_valid_crc (drop SG5_FRAME_OFFS_CTRL buf) SG5_BYTELEN_CTRL
          \<and> length buf = SG5_MSG_LEN_CMD_BASE + unat (ctrl_len buf)
          \<and> cmd_type buf = SG5_FRAME_TYPE_CMD
          \<and> \<not> surfacegen5_ssh_is_valid_crc (drop SG5_FRAME_OFFS_CMD buf) (unat (ctrl_len buf))
          \<and> unat (rqst_cdl rqst) \<le> MAX_RQST_PAYLOAD cfg \<and> rqst_snc rqst \<noteq> 0
          \<and> rqst_ack_phase cfg v rqst = (tr, 0, packet, w3) \<and> tr < SG5_NUM_RETRY
          \<and> wait_script w3 = [buf] # rest
          \<and> signal (rcv w3) = 0 \<and> eval_buf_ptr (rcv w3) = []
          \<and> length buf \<le> eval_buf_cap (rcv w3) \<longrightarrow>
        (\<exists>w1. surfacegen5_ec_rqst_unlocked cfg v rqst (Some res) = (- EIO, Some res, w1)
           \<and> trace w1 = trace w3 @ [Log Invalid_checksum_cmd_pld, Log Communication_timed_out]
           \<and> wait_script w1 = rest \<and> write_script w1 = write_script w3))
     \<and> (\<forall>tr packet u u1 rest.
          surfacegen5_ssh_is_valid_crc (drop SG5_FRAME_OFFS_CTRL buf) SG5_BYTELEN_CTRL
          \<and> length buf = SG5_MSG_LEN_CMD_BASE + unat (ctrl_len buf)
          \<and> cmd_type buf = SG5_FRAME_TYPE_CMD
          \<and> \<not> surfacegen5_ssh_is_valid_crc (drop SG5_FRAME_OFFS_CMD buf) (unat (ctrl_len buf))
          \<and> tr < SG5_NUM_RETRY \<and> surfacegen5_ssh_writer_flush u = (0, u1)
          \<and> wait_script u1 = [buf] # rest
          \<and> signal (rcv u1) = 0 \<and> eval_buf_ptr (rcv u1) = []
          \<and> length buf \<le> eval_buf_cap (rcv u1) \<longrightarrow>
        (\<exists>u2. rqst_try_loop cfg tr packet u = rqst_try_loop cfg (tr + 1) packet u2
           \<and> trace u2 = trace u1 @ [Log Invalid_checksum_cmd_pld]
           \<and> wait_script u2 = rest \<and> writer (ec u2) = writer (ec u1)))"
proof -
  have first: "(length buf < SG5_BYTELEN_SYNC + SG5_BYTELEN_CTRL + SG5_BYTELEN_CRC \<longrightarrow>
        surfacegen5_ssh_eval_buf cfg w buf = Inr (0, w))
     \<and> (SG5_BYTELEN_SYNC + SG5_BYTELEN_CTRL + SG5_BYTELEN_CRC \<le> length buf
          \<and> \<not> surfacegen5_ssh_is_valid_crc (drop SG5_FRAME_OFFS_CTRL buf) SG5_BYTELEN_CTRL \<longrightarrow>
        surfacegen5_ssh_eval_buf cfg w buf = Inr (length buf, log Invalid_checksum_cmd_ctrl w))
     \<and> (SG5_BYTELEN_SYNC + SG5_BYTELEN_CTRL + SG5_BYTELEN_CRC \<le> length buf
          \<and> surfacegen5_ssh_is_valid_crc (drop SG5_FRAME_OFFS_CTRL buf) SG5_BYTELEN_CTRL
          \<and> length buf < SG5_MSG_LEN_CMD_BASE + unat (ctrl_len buf) \<longrightarrow>
        surfacegen5_ssh_eval_buf cfg w buf = Inr (0, w))
     \<and> (surfacegen5_ssh_is_valid_crc (drop SG5_FRAME_OFFS_CTRL buf) SG5_BYTELEN_CTRL
          \<and> SG5_MSG_LEN_CMD_BASE + unat (ctrl_len buf) \<le> length buf
          \<and> cmd_type buf \<noteq> SG5_FRAME_TYPE_CMD \<longrightarrow>
        surfacegen5_ssh_eval_buf cfg w buf =
          Inr (length buf, log (Expected_command_frame_type (cmd_type buf)) w))
     \<and> (surfacegen5_ssh_is_valid_crc (drop SG5_FRAME_OFFS_CTRL buf) SG5_BYTELEN_CTRL
          \<and> SG5_MSG_LEN_CMD_BASE + unat (ctrl_len buf) \<le> length buf
          \<and> cmd_type buf = SG5_FRAME_TYPE_CMD
          \<and> \<not> surfacegen5_ssh_is_valid_crc (drop SG5_FRAME_OFFS_CMD buf) (unat (ctrl_len buf)) \<longrightarrow>
        surfacegen5_ssh_eval_buf cfg w buf =
          Inr (SG5_MSG_LEN_CMD_BASE + unat (ctrl_len buf), log Invalid_checksum_cmd_pld w))"
    using starts_cmd [OF assms]
    by (simp add: surfacegen5_ssh_eval_buf_def surfacegen5_ssh_receive_msg_cmd_def Let_def
        sg5_sizes sg5_types)
  have engine: "\<exists>w1. surfacegen5_ec_rqst_unlocked cfg v rqst (Some res) = (- EIO, Some res, w1)
           \<and> trace w1 = trace w3 @ [Log Invalid_checksum_cmd_pld, Log Communication_timed_out]
           \<and> wait_script w1 = rest \<and> write_script w1 = write_script w3"
    if "surfacegen5_ssh_is_valid_crc (drop SG5_FRAME_OFFS_CTRL buf) SG5_BYTELEN_CTRL
          \<and> length buf = SG5_MSG_LEN_CMD_BASE + unat (ctrl_len buf)
          \<and> cmd_type buf = SG5_FRAME_TYPE_CMD
          \<and> \<not> surfacegen5_ssh_is_valid_crc (drop SG5_FRAME_OFFS_CMD buf) (unat (ctrl_len buf))
          \<and> unat (rqst_cdl rqst) \<le> MAX_RQST_PAYLOAD cfg \<and> rqst_snc rqst \<noteq> 0
          \<and> rqst_ack_phase cfg v rqst = (tr, 0, packet, w3) \<and> tr < SG5_NUM_RETRY
          \<and> wait_script w3 = [buf] # rest
          \<and> signal (rcv w3) = 0 \<and> eval_buf_ptr (rcv w3) = []
          \<and> length buf \<le> eval_buf_cap (rcv w3)"
    for v rqst res tr packet w3 rest
  proof -
    from that have msg: "surfacegen5_ssh_is_valid_crc (drop SG5_FRAME_OFFS_CTRL buf) SG5_BYTELEN_CTRL"
        "length buf = SG5_MSG_LEN_CMD_BASE + unat (ctrl_len buf)"
        "cmd_type buf = SG5_FRAME_TYPE_CMD"
        "\<not> surfacegen5_ssh_is_valid_crc (drop SG5_FRAME_OFFS_CMD buf) (unat (ctrl_len buf))"
      and rqst: "unat (rqst_cdl rqst) \<le> MAX_RQST_PAYLOAD cfg" "rqst_snc rqst \<noteq> 0"
      and ack: "rqst_ack_phase cfg v rqst = (tr, 0, packet, w3)" "tr < SG5_NUM_RETRY"
      and arrives: "wait_script w3 = [buf] # rest"
      and idle: "signal (rcv w3) = 0" "eval_buf_ptr (rcv w3) = []"
      and fits: "length buf \<le> eval_buf_cap (rcv w3)"
      by blast+
    show ?thesis
      by (rule rqst_unlocked_invalid_cmd_crc [OF assms msg rqst ack arrives idle fits])
  qed
  have loop: "\<exists>u2. rqst_try_loop cfg tr packet u = rqst_try_loop cfg (tr + 1) packet u2
           \<and> trace u2 = trace u1 @ [Log Invalid_checksum_cmd_pld]
           \<and> wait_script u2 = rest \<and> writer (ec u2) = writer (ec u1)"
    if "surfacegen5_ssh_is_valid_crc (drop SG5_FRAME_OFFS_CTRL buf) SG5_BYTELEN_CTRL
          \<and> length buf = SG5_MSG_LEN_CMD_BASE + unat (ctrl_len buf)
          \<and> cmd_type buf = SG5_FRAME_TYPE_CMD
          \<and> \<not> surfacegen5_ssh_is_valid_crc (drop SG5_FRAME_OFFS_CMD buf) (unat (ctrl_len buf))
          \<and> tr < SG5_NUM_RETRY \<and> surfacegen5_ssh_writer_flush u = (0, u1)
          \<and> wait_script u1 = [buf] # rest
          \<and> signal (rcv u1) = 0 \<and> eval_buf_ptr (rcv u1) = []
          \<and> length buf \<le> eval_buf_cap (rcv u1)"
    for tr packet u u1 rest
  proof -
    from that have msg: "surfacegen5_ssh_is_valid_crc (drop SG5_FRAME_OFFS_CTRL buf) SG5_BYTELEN_CTRL"
        "length buf = SG5_MSG_LEN_CMD_BASE + unat (ctrl_len buf)"
        "cmd_type buf = SG5_FRAME_TYPE_CMD"
        "\<not> surfacegen5_ssh_is_valid_crc (drop SG5_FRAME_OFFS_CMD buf) (unat (ctrl_len buf))"
      and tries: "tr < SG5_NUM_RETRY"
      and flush: "surfacegen5_ssh_writer_flush u = (0, u1)"
      and arrives: "wait_script u1 = [buf] # rest"
      and idle: "signal (rcv u1) = 0" "eval_buf_ptr (rcv u1) = []"
      and fits: "length buf \<le> eval_buf_cap (rcv u1)"
      by blast+
    show ?thesis
      by (rule rqst_try_invalid_cmd_crc [OF assms msg tries flush arrives idle fits])
  qed
  from first engine loop show ?thesis by blast
qed

lemma run_bad_ack:
  "\<exists>u1 p w3.
     surfacegen5_ssh_writer_flush
         (surfacegen5_ssh_receiver_restart sg5_config
            (w0\<lparr>wait_script := [[msg_resp_bad], [msg_ack0]],
                ec := surfacegen5_ssh_write_msg_cmd sg5_config ec0 rqst_resume\<rparr>) rqst_resume)
       = (0, u1)
     \<and> wait_script u1 = [[msg_resp_bad], [msg_ack0]]
     \<and> signal (rcv u1) = 0 \<and> eval_buf_ptr (rcv u1) = [] \<and> eval_buf_cap (rcv u1) = 112
     \<and> rqst_ack_phase sg5_config (w0\<lparr>wait_script := [[msg_resp_bad], [msg_ack0]]\<rparr>) rqst_resume
         = (1, 0, p, w3)
     \<and> trace w3 = [Serdev_write [0xaa, 0x55, 0x80, 0x08, 0x00, 0x00, 0x59, 0xF0,
                       0x80, 0x01, 0x01, 0x00, 0x00, 0x40, 0x00, 0x16, 0x24, 0x5E],
                    Log Invalid_checksum_cmd_pld,
                    Serdev_write [0xaa, 0x55, 0x80, 0x08, 0x00, 0x00, 0x59, 0xF0,
                       0x80, 0x01, 0x01, 0x00, 0x00, 0x40, 0x00, 0x16, 0x24, 0x5E]]"
  by (simp add: engine_defs eval_defs world_defs msg_ack0_def msg_resp_bad_def)

lemma run_ack_resp_bad:
  "\<exists>p w3. rqst_ack_phase sg5_config
             (w0\<lparr>wait_script := [[msg_ack0], [msg_resp_bad], [msg_resp]]\<rparr>) rqst_resume
           = (0, 0, p, w3)
     \<and> wait_script w3 = [[msg_resp_bad], [msg_resp]]
     \<and> signal (rcv w3) = 0 \<and> eval_buf_ptr (rcv w3) = [] \<and> eval_buf_cap (rcv w3) = 112
     \<and> trace w3 = [Serdev_write [0xaa, 0x55, 0x80, 0x08, 0x00, 0x00, 0x59, 0xF0,
                       0x80, 0x01, 0x01, 0x00, 0x00, 0x40, 0x00, 0x16, 0x24, 0x5E]]"
  by (simp add: engine_defs eval_defs world_defs msg_ack0_def)

theorem eval_buf_cmd_consumes_witness:
  "surfacegen5_ssh_eval_buf sg5_config w0 [0xaa, 0x55, 0x80] = Inr (0, w0)
   \<and> surfacegen5_ssh_eval_buf sg5_config w0 [0xaa, 0x55, 0x80, 0x08, 0x00, 0x00, 0x00, 0x00]
       = Inr (8, log Invalid_checksum_cmd_ctrl w0)
   \<and> surfacegen5_ssh_eval_buf sg5_config w0 [0xaa, 0x55, 0x80, 0x08, 0x00, 0x00, 0x59, 0xF0]
       = Inr (0, w0)
   \<and> surfacegen5_ssh_eval_buf sg5_config w0
         [0xaa, 0x55, 0x80, 0x08, 0x00, 0x00, 0x59, 0xF0,
          0x00, 0x00, 0x00, 0x00, 0x00, 0x00, 0x00, 0x00, 0x3E, 0x31, 0x00, 0x00]
       = Inr (20, log (Expected_command_frame_type 0x00) w0)
   \<and> surfacegen5_ssh_eval_buf sg5_config w0
         [0xaa, 0x55, 0x80, 0x08, 0x00, 0x00, 0x59, 0xF0,
          0x80, 0x01, 0x00, 0x01, 0x00, 0x40, 0x00, 0x16, 0x00, 0x00, 0x00, 0x00]
       = Inr (18, log Invalid_checksum_cmd_pld w0)
   \<and> length msg_resp_bad = SG5_MSG_LEN_CMD_BASE + unat (ctrl_len msg_resp_bad)
   \<and> \<not> surfacegen5_ssh_is_valid_crc (drop SG5_FRAME_OFFS_CMD msg_resp_bad)
          (unat (ctrl_len msg_resp_bad))
   \<and> (\<exists>w1. surfacegen5_ec_rqst_unlocked sg5_config
              (w0\<lparr>wait_script := [[msg_ack0], [msg_resp_bad], [msg_resp]]\<rparr>) rqst_resume
              (Some \<lparr>buf_cap = 1, buf_len = 0, buf_data = [0xEE]\<rparr>)
            = (- 5, Some \<lparr>buf_cap = 1, buf_len = 0, buf_data = [0xEE]\<rparr>, w1)
          \<and> trace w1 = [Serdev_write [0xaa, 0x55, 0x80, 0x08, 0x00, 0x00, 0x59, 0xF0,
                            0x80, 0x01, 0x01, 0x00, 0x00, 0x40, 0x00, 0x16, 0x24, 0x5E],
                         Log Invalid_checksum_cmd_pld, Log Communication_timed_out]
          \<and> wait_script w1 = [[msg_resp]])
   \<and> (\<exists>u2 p w3.
          rqst_ack_phase sg5_config (w0\<lparr>wait_script := [[msg_resp_bad], [msg_ack0]]\<rparr>) rqst_resume
            = rqst_try_loop sg5_config 1 \<lparr>pkt_type = 0, pkt_seq = 0, pkt_len = 0\<rparr> u2
          \<and> wait_script u2 = [[msg_ack0]]
          \<and> rqst_ack_phase sg5_config (w0\<lparr>wait_script := [[msg_resp_bad], [msg_ack0]]\<rparr>) rqst_resume
            = (1, 0, p, w3)
          \<and> trace w3 = [Serdev_write [0xaa, 0x55, 0x80, 0x08, 0x00, 0x00, 0x59, 0xF0,
                            0x80, 0x01, 0x01, 0x00, 0x00, 0x40, 0x00, 0x16, 0x24, 0x5E],
                         Log Invalid_checksum_cmd_pld,
                         Serdev_write [0xaa, 0x55, 0x80, 0x08, 0x00, 0x00, 0x59, 0xF0,
                            0x80, 0x01, 0x01, 0x00, 0x00, 0x40, 0x00, 0x16, 0x24, 0x5E]])"
proof -
  have evals: "surfacegen5_ssh_eval_buf sg5_config w0 [0xaa, 0x55, 0x80] = Inr (0, w0)
   \<and> surfacegen5_ssh_eval_buf sg5_config w0 [0xaa, 0x55, 0x80, 0x08, 0x00, 0x00, 0x00, 0x00]
       = Inr (8, log Invalid_checksum_cmd_ctrl w0)
   \<and> surfacegen5_ssh_eval_buf sg5_config w0 [0xaa, 0x55, 0x80, 0x08, 0x00, 0x00, 0x59, 0xF0]
       = Inr (0, w0)
   \<and> surfacegen5_ssh_eval_buf sg5_config w0
         [0xaa, 0x55, 0x80, 0x08, 0x00, 0x00, 0x59, 0xF0,
          0x00, 0x00, 0x00, 0x00, 0x00, 0x00, 0x00, 0x00, 0x3E, 0x31, 0x00, 0x00]
       = Inr (20, log (Expected_command_frame_type 0x00) w0)
   \<and> surfacegen5_ssh_eval_buf sg5_config w0
         [0xaa, 0x55, 0x80, 0x08, 0x00, 0x00, 0x59, 0xF0,
          0x80, 0x01, 0x00, 0x01, 0x00, 0x40, 0x00, 0x16, 0x00, 0x00, 0x00, 0x00]
       = Inr (18, log Invalid_checksum_cmd_pld w0)"
    using
      eval_buf_cmd_consumes [of "[0xaa, 0x55, 0x80]" sg5_config w0, THEN conjunct1]
      eval_buf_cmd_consumes [of "[0xaa, 0x55, 0x80, 0x08, 0x00, 0x00, 0x00, 0x00]" sg5_config w0,
        THEN conjunct2, THEN conjunct1]
      eval_buf_cmd_consumes [of "[0xaa, 0x55, 0x80, 0x08, 0x00, 0x00, 0x59, 0xF0]" sg5_config w0,
        THEN conjunct2, THEN conjunct2, THEN conjunct1]
      eval_buf_cmd_consumes [of "[0xaa, 0x55, 0x80, 0x08, 0x00, 0x00, 0x59, 0xF0,
          0x00, 0x00, 0x00, 0x00, 0x00, 0x00, 0x00, 0x00, 0x3E, 0x31, 0x00, 0x00]" sg5_config w0,
        THEN conjunct2, THEN conjunct2, THEN conjunct2, THEN conjunct1]
      eval_buf_cmd_consumes [of "[0xaa, 0x55, 0x80, 0x08, 0x00, 0x00, 0x59, 0xF0,
          0x80, 0x01, 0x00, 0x01, 0x00, 0x40, 0x00, 0x16, 0x00, 0x00, 0x00, 0x00]" sg5_config w0,
        THEN conjunct2, THEN conjunct2, THEN conjunct2, THEN conjunct2, THEN conjunct1]
    by (simp add: surfacegen5_ssh_is_valid_crc_def sg5_fields sg5_sizes sg5_types crc_eval)
  let ?v = "w0\<lparr>wait_script := [[msg_ack0], [msg_resp_bad], [msg_resp]]\<rparr>"
  let ?res = "\<lparr>buf_cap = 1, buf_len = 0, buf_data = [0xEE]\<rparr>"
  have tk: "take 3 msg_resp_bad = [0xaa, 0x55, SG5_FRAME_TYPE_CMD]"
    by (simp add: msg_resp_bad_def sg5_types)
  have msg: "surfacegen5_ssh_is_valid_crc (drop SG5_FRAME_OFFS_CTRL msg_resp_bad) SG5_BYTELEN_CTRL"
    "length msg_resp_bad = SG5_MSG_LEN_CMD_BASE + unat (ctrl_len msg_resp_bad)"
    "cmd_type msg_resp_bad = SG5_FRAME_TYPE_CMD"
    "\<not> surfacegen5_ssh_is_valid_crc (drop SG5_FRAME_OFFS_CMD msg_resp_bad)
          (unat (ctrl_len msg_resp_bad))"
    "length msg_resp_bad = 19"
    by (simp_all add: msg_resp_bad_def surfacegen5_ssh_is_valid_crc_def sg5_fields sg5_sizes
        sg5_types crc_eval)
  from run_ack_resp_bad obtain p w3 where
    ack: "rqst_ack_phase sg5_config ?v rqst_resume = (0, 0, p, w3)"
    and w3: "wait_script w3 = [msg_resp_bad] # [[msg_resp]]"
      "signal (rcv w3) = 0" "eval_buf_ptr (rcv w3) = []" "eval_buf_cap (rcv w3) = 112"
    and tr3: "trace w3 = [Serdev_write [0xaa, 0x55, 0x80, 0x08, 0x00, 0x00, 0x59, 0xF0,
                       0x80, 0x01, 0x01, 0x00, 0x00, 0x40, 0x00, 0x16, 0x24, 0x5E]]"
    by auto
  have rq: "unat (rqst_cdl rqst_resume) \<le> MAX_RQST_PAYLOAD sg5_config" "rqst_snc rqst_resume \<noteq> 0"
    "(0::nat) < SG5_NUM_RETRY" "- EIO = (- 5 :: int)"
    by (simp_all add: rqst_resume_def sg5_config_def SG5_NUM_RETRY_def EIO_def)
  note engine = eval_buf_cmd_consumes [OF tk, of sg5_config w0, THEN conjunct2, THEN conjunct2,
      THEN conjunct2, THEN conjunct2, THEN conjunct2, THEN conjunct1, rule_format,
      of rqst_resume ?v 0 p w3 "[[msg_resp]]" ?res]
  from engine msg rq ack w3
  have "\<exists>w1. surfacegen5_ec_rqst_unlocked sg5_config ?v rqst_resume (Some ?res)
            = (- 5, Some ?res, w1)
          \<and> trace w1 = trace w3 @ [Log Invalid_checksum_cmd_pld, Log Communication_timed_out]
          \<and> wait_script w1 = [[msg_resp]]"
    by auto
  with evals msg tr3
  have part1: "surfacegen5_ssh_eval_buf sg5_config w0 [0xaa, 0x55, 0x80] = Inr (0, w0)
   \<and> surfacegen5_ssh_eval_buf sg5_config w0 [0xaa, 0x55, 0x80, 0x08, 0x00, 0x00, 0x00, 0x00]
       = Inr (8, log Invalid_checksum_cmd_ctrl w0)
   \<and> surfacegen5_ssh_eval_buf sg5_config w0 [0xaa, 0x55, 0x80, 0x08, 0x00, 0x00, 0x59, 0xF0]
       = Inr (0, w0)
   \<and> surfacegen5_ssh_eval_buf sg5_config w0
         [0xaa, 0x55, 0x80, 0x08, 0x00, 0x00, 0x59, 0xF0,
          0x00, 0x00, 0x00, 0x00, 0x00, 0x00, 0x00, 0x00, 0x3E, 0x31, 0x00, 0x00]
       = Inr (20, log (Expected_command_frame_type 0x00) w0)
   \<and> surfacegen5_ssh_eval_buf sg5_config w0
         [0xaa, 0x55, 0x80, 0x08, 0x00, 0x00, 0x59, 0xF0,
          0x80, 0x01, 0x00, 0x01, 0x00, 0x40, 0x00, 0x16, 0x00, 0x00, 0x00, 0x00]
       = Inr (18, log Invalid_checksum_cmd_pld w0)
   \<and> length msg_resp_bad = SG5_MSG_LEN_CMD_BASE + unat (ctrl_len msg_resp_bad)
   \<and> \<not> surfacegen5_ssh_is_valid_crc (drop SG5_FRAME_OFFS_CMD msg_resp_bad)
          (unat (ctrl_len msg_resp_bad))
   \<and> (\<exists>w1. surfacegen5_ec_rqst_unlocked sg5_config ?v rqst_resume (Some ?res)
            = (- 5, Some ?res, w1)
          \<and> trace w1 = [Serdev_write [0xaa, 0x55, 0x80, 0x08, 0x00, 0x00, 0x59, 0xF0,
                            0x80, 0x01, 0x01, 0x00, 0x00, 0x40, 0x00, 0x16, 0x24, 0x5E],
                         Log Invalid_checksum_cmd_pld, Log Communication_timed_out]
          \<and> wait_script w1 = [[msg_resp]])"
    by auto
  let ?b = "w0\<lparr>wait_script := [[msg_resp_bad], [msg_ack0]]\<rparr>"
  let ?u = "surfacegen5_ssh_receiver_restart sg5_config
            (w0\<lparr>wait_script := [[msg_resp_bad], [msg_ack0]],
                ec := surfacegen5_ssh_write_msg_cmd sg5_config ec0 rqst_resume\<rparr>) rqst_resume"
  have u: "rqst_ack_phase sg5_config ?b rqst_resume
             = rqst_try_loop sg5_config 0 \<lparr>pkt_type = 0, pkt_seq = 0, pkt_len = 0\<rparr> ?u"
    by (simp add: rqst_ack_phase_def w0_def)
  from run_bad_ack obtain u1 q v3 where
    fl: "surfacegen5_ssh_writer_flush ?u = (0, u1)"
    and u1: "wait_script u1 = [msg_resp_bad] # [[msg_ack0]]"
      "signal (rcv u1) = 0" "eval_buf_ptr (rcv u1) = []" "eval_buf_cap (rcv u1) = 112"
    and whole: "rqst_ack_phase sg5_config ?b rqst_resume = (1, 0, q, v3)"
      "trace v3 = [Serdev_write [0xaa, 0x55, 0x80, 0x08, 0x00, 0x00, 0x59, 0xF0,
                       0x80, 0x01, 0x01, 0x00, 0x00, 0x40, 0x00, 0x16, 0x24, 0x5E],
                    Log Invalid_checksum_cmd_pld,
                    Serdev_write [0xaa, 0x55, 0x80, 0x08, 0x00, 0x00, 0x59, 0xF0,
                       0x80, 0x01, 0x01, 0x00, 0x00, 0x40, 0x00, 0x16, 0x24, 0x5E]]"
    by auto
  note again = eval_buf_cmd_consumes [OF tk, of sg5_config w0, THEN conjunct2, THEN conjunct2,
      THEN conjunct2, THEN conjunct2, THEN conjunct2, THEN conjunct2, rule_format,
      of 0 ?u u1 "[[msg_ack0]]" "\<lparr>pkt_type = 0, pkt_seq = 0, pkt_len = 0\<rparr>"]
  from again msg rq fl u1
  have "\<exists>u2. rqst_try_loop sg5_config 0 \<lparr>pkt_type = 0, pkt_seq = 0, pkt_len = 0\<rparr> ?u
             = rqst_try_loop sg5_config 1 \<lparr>pkt_type = 0, pkt_seq = 0, pkt_len = 0\<rparr> u2
          \<and> wait_script u2 = [[msg_ack0]]"
    by auto
  then obtain u2 where
    nxt: "rqst_try_loop sg5_config 0 \<lparr>pkt_type = 0, pkt_seq = 0, pkt_len = 0\<rparr> ?u
             = rqst_try_loop sg5_config 1 \<lparr>pkt_type = 0, pkt_seq = 0, pkt_len = 0\<rparr> u2"
    and ws: "wait_script u2 = [[msg_ack0]]"
    by blast
  from u nxt have "rqst_ack_phase sg5_config ?b rqst_resume
             = rqst_try_loop sg5_config 1 \<lparr>pkt_type = 0, pkt_seq = 0, pkt_len = 0\<rparr> u2"
    by (rule trans)
  with ws whole
  have part2: "\<exists>u2 p w3.
          rqst_ack_phase sg5_config ?b rqst_resume
            = rqst_try_loop sg5_config 1 \<lparr>pkt_type = 0, pkt_seq = 0, pkt_len = 0\<rparr> u2
          \<and> wait_script u2 = [[msg_ack0]]
          \<and> rqst_ack_phase sg5_config ?b rqst_resume = (1, 0, p, w3)
          \<and> trace w3 = [Serdev_write [0xaa, 0x55, 0x80, 0x08, 0x00, 0x00, 0x59, 0xF0,
                            0x80, 0x01, 0x01, 0x00, 0x00, 0x40, 0x00, 0x16, 0x24, 0x5E],
                         Log Invalid_checksum_cmd_pld,
                         Serdev_write [0xaa, 0x55, 0x80, 0x08, 0x00, 0x00, 0x59, 0xF0,
                            0x80, 0x01, 0x01, 0x00, 0x00, 0x40, 0x00, 0x16, 0x24, 0x5E]]"
    by blast
  from part1 part2 show ?thesis by blast
qed

text \<open>
  C6 as stated fails in two places. In the buffer below the control CRC is valid, the
  message of \<open>SG5_MSG_LEN_CMD_BASE + ctrl.len = 18\<close> bytes is present, and the command CRC is
  invalid, but the evaluator consumes all 20 bytes, because the type byte of the command
  frame is tested before the command CRC. And the request is not sent again: the response
  \<open>msg_resp_bad\<close> with an invalid command CRC arrives after the ACK; the evaluator consumes
  its 19 bytes, the request engine returns \<open>-EIO\<close> after this one wait, the command has
  been written once, and the valid response that a further wait would get stays where it
  is.
\<close>

theorem eval_buf_cmd_consumes_counterexample:
  "take 3 [0xaa, 0x55, 0x80, 0x08, 0x00, 0x00, 0x59, 0xF0,
           0x00, 0x00, 0x00, 0x00, 0x00, 0x00, 0x00, 0x00, 0x00, 0x00, 0xaa, 0x55]
     = [0xaa, 0x55, SG5_FRAME_TYPE_CMD]
   \<and> surfacegen5_ssh_is_valid_crc (drop SG5_FRAME_OFFS_CTRL
          [0xaa, 0x55, 0x80, 0x08, 0x00, 0x00, 0x59, 0xF0,
           0x00, 0x00, 0x00, 0x00, 0x00, 0x00, 0x00, 0x00, 0x00, 0x00, 0xaa, 0x55]) SG5_BYTELEN_CTRL
   \<and> SG5_MSG_LEN_CMD_BASE + unat (ctrl_len
          [0xaa, 0x55, 0x80, 0x08, 0x00, 0x00, 0x59, 0xF0,
           0x00, 0x00, 0x00, 0x00, 0x00, 0x00, 0x00, 0x00, 0x00, 0x00, 0xaa, 0x55]) = 18
   \<and> \<not> surfacegen5_ssh_is_valid_crc (drop SG5_FRAME_OFFS_CMD
          [0xaa, 0x55, 0x80, 0x08, 0x00, 0x00, 0x59, 0xF0,
           0x00, 0x00, 0x00, 0x00, 0x00, 0x00, 0x00, 0x00, 0x00, 0x00, 0xaa, 0x55])
          (unat (ctrl_len
          [0xaa, 0x55, 0x80, 0x08, 0x00, 0x00, 0x59, 0xF0,
           0x00, 0x00, 0x00, 0x00, 0x00, 0x00, 0x00, 0x00, 0x00, 0x00, 0xaa, 0x55]))
   \<and> surfacegen5_ssh_eval_buf sg5_config w0
          [0xaa, 0x55, 0x80, 0x08, 0x00, 0x00, 0x59, 0xF0,
           0x00, 0x00, 0x00, 0x00, 0x00, 0x00, 0x00, 0x00, 0x00, 0x00, 0xaa, 0x55]
       = Inr (20, log (Expected_command_frame_type 0x00) w0)
   \<and> take 3 msg_resp_bad = [0xaa, 0x55, SG5_FRAME_TYPE_CMD]
   \<and> \<not> surfacegen5_ssh_is_valid_crc (drop SG5_FRAME_OFFS_CMD msg_resp_bad)
          (unat (ctrl_len msg_resp_bad))
   \<and> surfacegen5_ssh_eval_buf sg5_config w_await_cmd msg_resp_bad
       = Inr (19, log Invalid_checksum_cmd_pld w_await_cmd)
   \<and> (case surfacegen5_ec_rqst_unlocked sg5_config
              (w0\<lparr>wait_script := [[msg_ack0], [msg_resp_bad], [msg_resp]]\<rparr>) rqst_resume
              (Some \<lparr>buf_cap = 1, buf_len = 0, buf_data = [0xEE]\<rparr>) of
         (status, result1, w1) \<Rightarrow>
           status = - EIO
           \<and> trace w1 = [Serdev_write [0xaa, 0x55, 0x80, 0x08, 0x00, 0x00, 0x59, 0xF0,
                             0x80, 0x01, 0x01, 0x00, 0x00, 0x40, 0x00, 0x16, 0x24, 0x5E],
                          Log Invalid_checksum_cmd_pld, Log Communication_timed_out]
           \<and> wait_script w1 = [[msg_resp]])"
  by (simp add: engine_defs eval_defs world_defs msg_ack0_def msg_resp_bad_def)

subsection \<open>The evaluator does not read the evaluation buffer through the state\<close>

lemma with_ptr_prims:
  "emit e (with_ptr p w) = with_ptr p (emit e w)"
  "log m (with_ptr p w) = with_ptr p (log m w)"
  "complete (with_ptr p w) = with_ptr p (complete w)"
  "kfifo_in bs (with_ptr p w) = with_ptr p (kfifo_in bs w)"
  "rcv_update (\<lambda>r. r\<lparr>rcv_state := s\<rparr>) (with_ptr p w)
     = with_ptr p (rcv_update (\<lambda>r. r\<lparr>rcv_state := s\<rparr>) w)"
  "rcv_update (\<lambda>r. r\<lparr>rcv_state := (if expect_pld r then s1 else s2)\<rparr>) (with_ptr p w)
     = with_ptr p (rcv_update (\<lambda>r. r\<lparr>rcv_state := (if expect_pld r then s1 else s2)\<rparr>) w)"
  by (simp_all add: with_ptr_def prims)

lemma with_ptr_reads:
  "rcv_state (rcv (with_ptr p w)) = rcv_state (rcv w)"
  "fifo (rcv (with_ptr p w)) = fifo (rcv w)"
  "signal (rcv (with_ptr p w)) = signal (rcv w)"
  "expect_pld (rcv (with_ptr p w)) = expect_pld (rcv w)"
  "expect_seq (rcv (with_ptr p w)) = expect_seq (rcv w)"
  "expect_rqid (rcv (with_ptr p w)) = expect_rqid (rcv w)"
  "eval_buf_cap (rcv (with_ptr p w)) = eval_buf_cap (rcv w)"
  "eval_buf_ptr (rcv (with_ptr p w)) = p"
  "handler (ec (with_ptr p w)) = handler (ec w)"
  "trace (with_ptr p w) = trace w"
  by (simp_all add: with_ptr_def prims)

lemma with_ptr_idem [simp]:
  "with_ptr p (with_ptr q w) = with_ptr p w"
  "with_ptr (eval_buf_ptr (rcv w)) w = w"
  by (simp_all add: with_ptr_def prims)

lemma with_ptr_kzalloc: "kzalloc (with_ptr p w) = apsnd (with_ptr p) (kzalloc w)"
  by (simp add: kzalloc_def with_ptr_def prims split: list.split)

lemma with_ptr_evt_handler:
  "surfacegen5_event_work_evt_handler (with_ptr p w) work
     = with_ptr p (surfacegen5_event_work_evt_handler w work)"
  by (simp add: surfacegen5_event_work_evt_handler_def Let_def with_ptr_prims with_ptr_reads
      split: option.split)

lemma with_ptr_handle_event:
  "surfacegen5_ssh_handle_event cfg (with_ptr p w) buf
     = map_sum id (with_ptr p) (surfacegen5_ssh_handle_event cfg w buf)"
proof -
  obtain ok w1 where k: "kzalloc w = (ok, w1)" by (cases "kzalloc w")
  then have k': "kzalloc (with_ptr p w) = (ok, with_ptr p w1)"
    by (simp add: with_ptr_kzalloc)
  show ?thesis
    unfolding surfacegen5_ssh_handle_event_def Let_def k k'
    by (cases ok)
       (simp_all add: with_ptr_prims with_ptr_reads with_ptr_evt_handler split: option.split)
qed

lemma with_ptr_msg_ctrl:
  "surfacegen5_ssh_receive_msg_ctrl (with_ptr p w) buf
     = apsnd (with_ptr p) (surfacegen5_ssh_receive_msg_ctrl w buf)"
  by (simp add: surfacegen5_ssh_receive_msg_ctrl_def Let_def with_ptr_prims with_ptr_reads)

lemma with_ptr_msg_cmd:
  "surfacegen5_ssh_receive_msg_cmd cfg (with_ptr p w) buf
     = map_sum id (apsnd (with_ptr p)) (surfacegen5_ssh_receive_msg_cmd cfg w buf)"
  by (simp add: surfacegen5_ssh_receive_msg_cmd_def Let_def with_ptr_prims with_ptr_reads
      with_ptr_handle_event split: sum.split)

lemma with_ptr_eval_buf:
  "surfacegen5_ssh_eval_buf cfg (with_ptr p w) buf
     = map_sum id (apsnd (with_ptr p)) (surfacegen5_ssh_eval_buf cfg w buf)"
  by (simp add: surfacegen5_ssh_eval_buf_def with_ptr_prims with_ptr_msg_ctrl with_ptr_msg_cmd)

lemma eval_buf_ptr_same:
  assumes "surfacegen5_ssh_eval_buf cfg w buf = Inr (n, w1)"
  shows "eval_buf_ptr (rcv w1) = eval_buf_ptr (rcv w)"
proof -
  from with_ptr_eval_buf [of cfg "eval_buf_ptr (rcv w)" w buf] assms
  have "w1 = with_ptr (eval_buf_ptr (rcv w)) w1" by simp
  then show ?thesis by (metis with_ptr_reads(8))
qed

subsection \<open>One evaluation step on a buffer and on a longer buffer\<close>

lemma eval_buf_le_size:
  assumes "surfacegen5_ssh_eval_buf cfg w buf = Inr (n, w1)"
  shows "n \<le> length buf"
proof -
  have c: "fst (surfacegen5_ssh_receive_msg_ctrl w buf) \<le> length buf"
    by (simp add: surfacegen5_ssh_receive_msg_ctrl_def Let_def sg5_sizes)
  have d: "surfacegen5_ssh_receive_msg_cmd cfg w buf = Inr (n, w1) \<Longrightarrow> n \<le> length buf"
    unfolding surfacegen5_ssh_receive_msg_cmd_def Let_def
    by (auto simp add: sg5_sizes split: if_splits sum.splits)
  from assms c d show ?thesis
    unfolding surfacegen5_ssh_eval_buf_def
    by (auto split: if_splits)
qed

lemma eval_buf_need_more:
  assumes "surfacegen5_ssh_eval_buf cfg w buf = Inr (0, w1)"
  shows "w1 = w"
proof -
  have c: "fst (surfacegen5_ssh_receive_msg_ctrl w buf) = 0 \<Longrightarrow>
           snd (surfacegen5_ssh_receive_msg_ctrl w buf) = w"
    by (simp add: surfacegen5_ssh_receive_msg_ctrl_def Let_def sg5_sizes split: if_splits)
  have d: "surfacegen5_ssh_receive_msg_cmd cfg w buf = Inr (0, w1) \<Longrightarrow> w1 = w"
    unfolding surfacegen5_ssh_receive_msg_cmd_def Let_def
    by (auto simp add: sg5_sizes split: if_splits sum.splits)
  from assms c d show ?thesis
    unfolding surfacegen5_ssh_eval_buf_def
    by (auto simp add: sg5_sizes split: if_splits)
qed

lemma emitted_log [simp]: "emitted w (log m w) = [Log m]"
  by (simp add: emitted_def prims)

lemma emitted_append:
  assumes "trace w1 = trace w @ t1" and "trace w2 = trace w1 @ t2"
  shows "emitted w w2 = emitted w w1 @ emitted w1 w2"
  using assms by (simp add: emitted_def)

lemma emitted_frame:
  assumes "receive_frame w w1" and "receive_frame w1 w2"
  shows "emitted w w2 = emitted w w1 @ emitted w1 w2"
  using assms unfolding receive_frame_def by (metis emitted_append)

text \<open>The fields and checks of a message read the same bytes in a longer buffer.\<close>

lemma view_nth: "i < length S \<Longrightarrow> (S @ ys) ! i = S ! i"
  by (simp add: nth_append)

lemma view_fields:
  "6 \<le> length S \<Longrightarrow> surfacegen5_ssh_is_valid_syn (S @ ys) = surfacegen5_ssh_is_valid_syn S"
  "6 \<le> length S \<Longrightarrow> ctrl_type (S @ ys) = ctrl_type S"
  "6 \<le> length S \<Longrightarrow> ctrl_len (S @ ys) = ctrl_len S"
  "6 \<le> length S \<Longrightarrow> ctrl_seq (S @ ys) = ctrl_seq S"
  "10 \<le> length S \<Longrightarrow> cmd_type (S @ ys) = cmd_type S"
  "15 \<le> length S \<Longrightarrow> cmd_rqid (S @ ys) = cmd_rqid S"
  "16 \<le> length S \<Longrightarrow> cmd_rqid_lo (S @ ys) = cmd_rqid_lo S"
  "16 \<le> length S \<Longrightarrow> cmd_rqid_hi (S @ ys) = cmd_rqid_hi S"
  "16 \<le> length S \<Longrightarrow> cmd_tc (S @ ys) = cmd_tc S"
  "16 \<le> length S \<Longrightarrow> cmd_iid (S @ ys) = cmd_iid S"
  "16 \<le> length S \<Longrightarrow> cmd_cid (S @ ys) = cmd_cid S"
  "6 \<le> length S \<Longrightarrow> event_pld_len (S @ ys) = event_pld_len S"
  by (auto simp add: surfacegen5_ssh_is_valid_syn_def cmd_rqid_def event_pld_len_def
      sg5_fields sg5_sizes nth_append)

lemma view_crc:
  assumes "k + n + 2 \<le> length S"
  shows "surfacegen5_ssh_is_valid_crc (drop k (S @ ys)) n
         = surfacegen5_ssh_is_valid_crc (drop k S) n"
  using assms by (simp add: surfacegen5_ssh_is_valid_crc_def view_nth)

lemma view_ter:
  assumes "k + 2 \<le> length S"
  shows "surfacegen5_ssh_is_valid_ter (drop k (S @ ys)) = surfacegen5_ssh_is_valid_ter (drop k S)"
  using assms by (simp add: surfacegen5_ssh_is_valid_ter_def view_nth)

lemma view_take_drop:
  assumes "k + n \<le> length S"
  shows "take n (drop k (S @ ys)) = take n (drop k S)"
  using assms by simp

lemma msg_ctrl_longer:
  assumes len: "SG5_MSG_LEN_CTRL \<le> length S"
    and ter: "surfacegen5_ssh_is_valid_ter (drop SG5_FRAME_OFFS_TERM S)"
  shows "surfacegen5_ssh_receive_msg_ctrl w (S @ ys) = surfacegen5_ssh_receive_msg_ctrl w S"
proof -
  from len have l: "10 \<le> length S" by (simp add: sg5_sizes)
  have v1: "surfacegen5_ssh_is_valid_ter (drop SG5_FRAME_OFFS_TERM (S @ ys))
            = surfacegen5_ssh_is_valid_ter (drop SG5_FRAME_OFFS_TERM S)"
    using l by (intro view_ter) (simp add: sg5_sizes)
  have v2: "surfacegen5_ssh_is_valid_crc (drop SG5_FRAME_OFFS_CTRL (S @ ys)) SG5_BYTELEN_CTRL
            = surfacegen5_ssh_is_valid_crc (drop SG5_FRAME_OFFS_CTRL S) SG5_BYTELEN_CTRL"
    using l by (intro view_crc) (simp add: sg5_sizes)
  have v3: "ctrl_type (S @ ys) = ctrl_type S" "ctrl_seq (S @ ys) = ctrl_seq S"
    using l by (simp_all add: view_fields)
  have v4: "\<not> length (S @ ys) < SG5_MSG_LEN_CTRL" "\<not> length S < SG5_MSG_LEN_CTRL"
    using len by simp_all
  show ?thesis
    unfolding surfacegen5_ssh_receive_msg_ctrl_def v1 v2 v3
    using v4 ter by (simp del: drop_append)
qed

lemma handle_event_longer:
  assumes "surfacegen5_ssh_handle_event cfg w S = Inr w1"
  shows "surfacegen5_ssh_handle_event cfg w (S @ ys) = Inr w1"
proof -
  obtain ok v where k: "kzalloc w = (ok, v)" by (cases "kzalloc w")
  show ?thesis
  proof (cases ok)
    case False
    with assms k show ?thesis
      by (simp add: surfacegen5_ssh_handle_event_def Let_def)
  next
    case True
    with assms k have l: "\<not> length S < SG5_FRAME_OFFS_CMD + SG5_BYTELEN_CMDFRAME"
      "\<not> length S < SG5_FRAME_OFFS_CMD_PLD + unat (event_pld_len S)"
      by (auto simp add: surfacegen5_ssh_handle_event_def Let_def split: if_splits)
    then have l16: "16 \<le> length S" by (simp add: sg5_sizes)
    then have v: "event_pld_len (S @ ys) = event_pld_len S"
      "cmd_rqid_lo (S @ ys) = cmd_rqid_lo S" "cmd_rqid_hi (S @ ys) = cmd_rqid_hi S"
      "cmd_tc (S @ ys) = cmd_tc S" "cmd_iid (S @ ys) = cmd_iid S" "cmd_cid (S @ ys) = cmd_cid S"
      "ctrl_seq (S @ ys) = ctrl_seq S"
      by (simp_all add: view_fields)
    have p: "take (unat (event_pld_len S)) (drop SG5_FRAME_OFFS_CMD_PLD (S @ ys))
             = take (unat (event_pld_len S)) (drop SG5_FRAME_OFFS_CMD_PLD S)"
      using l(2) by (intro view_take_drop) simp
    have g: "\<not> length (S @ ys) < SG5_FRAME_OFFS_CMD + SG5_BYTELEN_CMDFRAME"
      "\<not> length (S @ ys) < SG5_FRAME_OFFS_CMD_PLD + unat (event_pld_len S)"
      using l by simp_all
    have "surfacegen5_ssh_handle_event cfg w (S @ ys) = surfacegen5_ssh_handle_event cfg w S"
      unfolding surfacegen5_ssh_handle_event_def v p Let_def k
      using g l True by (simp del: drop_append)
    with assms show ?thesis by simp
  qed
qed

lemma msg_cmd_longer:
  assumes whole: "SG5_MSG_LEN_CMD_BASE + unat (ctrl_len S) \<le> length S"
    and crc: "surfacegen5_ssh_is_valid_crc (drop SG5_FRAME_OFFS_CTRL S) SG5_BYTELEN_CTRL"
    and cty: "cmd_type S = SG5_FRAME_TYPE_CMD"
    and short: "surfacegen5_ssh_receive_msg_cmd cfg w S = Inr (m, w1)"
  shows "surfacegen5_ssh_receive_msg_cmd cfg w (S @ ys) = Inr (m, w1)"
proof -
  from whole have l: "10 + unat (ctrl_len S) \<le> length S" "10 \<le> length S"
    by (simp_all add: sg5_sizes)
  have v1: "surfacegen5_ssh_is_valid_crc (drop SG5_FRAME_OFFS_CTRL (S @ ys)) SG5_BYTELEN_CTRL
            = surfacegen5_ssh_is_valid_crc (drop SG5_FRAME_OFFS_CTRL S) SG5_BYTELEN_CTRL"
    using l by (intro view_crc) (simp add: sg5_sizes)
  have v2: "ctrl_len (S @ ys) = ctrl_len S" "ctrl_type (S @ ys) = ctrl_type S"
    "ctrl_seq (S @ ys) = ctrl_seq S" "cmd_type (S @ ys) = cmd_type S"
    using l by (simp_all add: view_fields)
  have v3: "surfacegen5_ssh_is_valid_crc (drop SG5_FRAME_OFFS_CMD (S @ ys)) (unat (ctrl_len S))
            = surfacegen5_ssh_is_valid_crc (drop SG5_FRAME_OFFS_CMD S) (unat (ctrl_len S))"
    using l by (intro view_crc) (simp add: sg5_sizes)
  have g: "\<not> length S < SG5_BYTELEN_SYNC + SG5_BYTELEN_CTRL + SG5_BYTELEN_CRC"
    "\<not> length (S @ ys) < SG5_BYTELEN_SYNC + SG5_BYTELEN_CTRL + SG5_BYTELEN_CRC"
    "\<not> length S < SG5_MSG_LEN_CMD_BASE + unat (ctrl_len S)"
    "\<not> length (S @ ys) < SG5_MSG_LEN_CMD_BASE + unat (ctrl_len S)"
    using l by (simp_all add: sg5_sizes)
  show ?thesis
  proof (cases "surfacegen5_ssh_is_valid_crc (drop SG5_FRAME_OFFS_CMD S) (unat (ctrl_len S))")
    case False
    with short g crc cty show ?thesis
      unfolding surfacegen5_ssh_receive_msg_cmd_def v1 v2 v3 Let_def
      by (simp del: drop_append)
  next
    case crc2: True
    with short g crc cty have l15: "\<not> length S < SG5_FRAME_OFFS_CMD + 7"
      unfolding surfacegen5_ssh_receive_msg_cmd_def Let_def
      by (auto simp del: drop_append split: if_splits)
    then have l15': "15 \<le> length S" "\<not> length (S @ ys) < SG5_FRAME_OFFS_CMD + 7"
      by (simp_all add: sg5_sizes)
    then have v4: "cmd_rqid (S @ ys) = cmd_rqid S" by (simp add: view_fields)
    show ?thesis
    proof (cases "surfacegen5_rqid_is_event cfg (cmd_rqid S)")
      case True
      with short g crc cty crc2 l15 obtain v where
        h: "surfacegen5_ssh_handle_event cfg w S = Inr v"
        and r: "m = SG5_MSG_LEN_CMD_BASE + unat (ctrl_len S)" "w1 = v"
        unfolding surfacegen5_ssh_receive_msg_cmd_def Let_def
        by (auto simp del: drop_append split: if_splits sum.splits)
      from h have "surfacegen5_ssh_handle_event cfg w (S @ ys) = Inr v"
        by (rule handle_event_longer)
      with True g crc cty crc2 l15' r show ?thesis
        unfolding surfacegen5_ssh_receive_msg_cmd_def v1 v2 v3 v4 Let_def
        by (simp del: drop_append)
    next
      case ne: False
      let ?pl = "unat (ctrl_len S - word_of_nat SG5_BYTELEN_CMDFRAME)"
      show ?thesis
      proof (cases "rcv_state (rcv w) = SG5_RCV_COMMAND \<and> expect_rqid (rcv w) = cmd_rqid S
                    \<and> kfifo_avail (fifo (rcv w)) \<ge> 3 + ?pl")
        case False
        with short g crc cty crc2 l15 l15' ne show ?thesis
          unfolding surfacegen5_ssh_receive_msg_cmd_def v1 v2 v3 v4 Let_def
          by (auto simp del: drop_append split: if_splits)
      next
        case True
        with short g crc cty crc2 l15 ne
        have lp: "\<not> length S < SG5_FRAME_OFFS_CMD_PLD + ?pl"
          unfolding surfacegen5_ssh_receive_msg_cmd_def Let_def
          by (auto simp del: drop_append split: if_splits)
        then have lp': "\<not> length (S @ ys) < SG5_FRAME_OFFS_CMD_PLD + ?pl" by simp
        have p: "take ?pl (drop SG5_FRAME_OFFS_CMD_PLD (S @ ys))
                 = take ?pl (drop SG5_FRAME_OFFS_CMD_PLD S)"
          using lp by (intro view_take_drop) simp
        from True short g crc cty crc2 l15 l15' ne lp lp' show ?thesis
          unfolding surfacegen5_ssh_receive_msg_cmd_def v1 v2 v3 v4 p Let_def
          by (simp del: drop_append)
      qed
    qed
  qed
qed

text \<open>An evaluation step on a buffer that takes no branch which throws away everything
  gives, on each shorter buffer on which the step reads no byte past the end, either the
  answer "more bytes needed" or the same result.\<close>

lemma eval_buf_shorter:
  assumes long: "surfacegen5_ssh_eval_buf cfg w (S @ ys) = Inr (n, w1)"
    and clean: "\<forall>e \<in> set (emitted w w1). \<not> discards_everything e"
    and short: "surfacegen5_ssh_eval_buf cfg w S = Inr (m, w2)"
  shows "(m = 0 \<and> w2 = w) \<or> (m = n \<and> w2 = w1)"
proof (cases "length S < SG5_BYTELEN_SYNC + SG5_BYTELEN_CTRL")
  case True
  with short show ?thesis by (simp add: surfacegen5_ssh_eval_buf_def)
next
  case False
  then have l6: "6 \<le> length S" "\<not> length (S @ ys) < SG5_BYTELEN_SYNC + SG5_BYTELEN_CTRL"
    by (simp_all add: sg5_sizes)
  then have v: "surfacegen5_ssh_is_valid_syn (S @ ys) = surfacegen5_ssh_is_valid_syn S"
    "ctrl_type (S @ ys) = ctrl_type S" "ctrl_len (S @ ys) = ctrl_len S"
    by (simp_all add: view_fields)
  have syn: "surfacegen5_ssh_is_valid_syn S"
  proof (rule ccontr)
    assume "\<not> surfacegen5_ssh_is_valid_syn S"
    with long l6 v have "w1 = log Invalid_start_of_message w"
      by (simp add: surfacegen5_ssh_eval_buf_def)
    with clean show False by simp
  qed
  consider (ctrl) "ctrl_type S = SG5_FRAME_TYPE_ACK \<or> ctrl_type S = SG5_FRAME_TYPE_RETRY"
    | (cmd) "\<not> (ctrl_type S = SG5_FRAME_TYPE_ACK \<or> ctrl_type S = SG5_FRAME_TYPE_RETRY)"
        "ctrl_type S = SG5_FRAME_TYPE_CMD"
    | (other) "\<not> (ctrl_type S = SG5_FRAME_TYPE_ACK \<or> ctrl_type S = SG5_FRAME_TYPE_RETRY)"
        "ctrl_type S \<noteq> SG5_FRAME_TYPE_CMD"
    by blast
  then show ?thesis
  proof cases
    case ctrl
    with long short l6 False v syn
    have lg: "surfacegen5_ssh_receive_msg_ctrl w (S @ ys) = (n, w1)"
      and sh: "surfacegen5_ssh_receive_msg_ctrl w S = (m, w2)"
      by (simp_all add: surfacegen5_ssh_eval_buf_def)
    show ?thesis
    proof (cases "length S < SG5_MSG_LEN_CTRL")
      case True
      with sh show ?thesis by (simp add: surfacegen5_ssh_receive_msg_ctrl_def)
    next
      case False
      then have l10: "SG5_MSG_LEN_CTRL \<le> length S" by simp
      then have vt: "surfacegen5_ssh_is_valid_ter (drop SG5_FRAME_OFFS_TERM (S @ ys))
            = surfacegen5_ssh_is_valid_ter (drop SG5_FRAME_OFFS_TERM S)"
        by (intro view_ter) (simp add: sg5_sizes)
      have ter: "surfacegen5_ssh_is_valid_ter (drop SG5_FRAME_OFFS_TERM S)"
      proof (rule ccontr)
        assume "\<not> surfacegen5_ssh_is_valid_ter (drop SG5_FRAME_OFFS_TERM S)"
        with lg l10 vt have "w1 = log Invalid_end_of_message w"
          by (simp add: surfacegen5_ssh_receive_msg_ctrl_def del: drop_append)
        with clean show False by simp
      qed
      from msg_ctrl_longer [OF l10 ter, of w ys] lg sh show ?thesis by simp
    qed
  next
    case cmd
    with long short l6 False v syn
    have lg: "surfacegen5_ssh_receive_msg_cmd cfg w (S @ ys) = Inr (n, w1)"
      and sh: "surfacegen5_ssh_receive_msg_cmd cfg w S = Inr (m, w2)"
      by (simp_all add: surfacegen5_ssh_eval_buf_def)
    show ?thesis
    proof (cases "length S < SG5_BYTELEN_SYNC + SG5_BYTELEN_CTRL + SG5_BYTELEN_CRC")
      case True
      with sh show ?thesis by (simp add: surfacegen5_ssh_receive_msg_cmd_def)
    next
      case l8: False
      then have l8': "\<not> length (S @ ys) < SG5_BYTELEN_SYNC + SG5_BYTELEN_CTRL + SG5_BYTELEN_CRC"
        by simp
      from l8 have vc: "surfacegen5_ssh_is_valid_crc (drop SG5_FRAME_OFFS_CTRL (S @ ys)) SG5_BYTELEN_CTRL
            = surfacegen5_ssh_is_valid_crc (drop SG5_FRAME_OFFS_CTRL S) SG5_BYTELEN_CTRL"
        by (intro view_crc) (simp add: sg5_sizes)
      have crc: "surfacegen5_ssh_is_valid_crc (drop SG5_FRAME_OFFS_CTRL S) SG5_BYTELEN_CTRL"
      proof (rule ccontr)
        assume "\<not> surfacegen5_ssh_is_valid_crc (drop SG5_FRAME_OFFS_CTRL S) SG5_BYTELEN_CTRL"
        with lg l8' vc have "w1 = log Invalid_checksum_cmd_ctrl w"
          by (simp add: surfacegen5_ssh_receive_msg_cmd_def del: drop_append)
        with clean show False by simp
      qed
      show ?thesis
      proof (cases "length S < SG5_MSG_LEN_CMD_BASE + unat (ctrl_len S)")
        case True
        with sh l8 crc show ?thesis
          by (simp add: surfacegen5_ssh_receive_msg_cmd_def Let_def del: drop_append)
      next
        case False
        then have whole: "SG5_MSG_LEN_CMD_BASE + unat (ctrl_len S) \<le> length S" by simp
        then have whole': "\<not> length (S @ ys) < SG5_MSG_LEN_CMD_BASE + unat (ctrl_len S)"
          and l10: "10 \<le> length S"
          by (simp_all add: sg5_sizes)
        then have vy: "cmd_type (S @ ys) = cmd_type S" by (simp add: view_fields)
        have cty: "cmd_type S = SG5_FRAME_TYPE_CMD"
        proof (rule ccontr)
          assume "cmd_type S \<noteq> SG5_FRAME_TYPE_CMD"
          with lg l8' vc crc whole' vy v
          have "w1 = log (Expected_command_frame_type (cmd_type S)) w"
            by (simp add: surfacegen5_ssh_receive_msg_cmd_def Let_def del: drop_append)
          with clean show False by simp
        qed
        from msg_cmd_longer [OF whole crc cty sh, of ys] lg show ?thesis by simp
      qed
    qed
  next
    case other
    with long l6 v syn have "w1 = log (Unknown_frame_type (ctrl_type S)) w"
      by (simp add: surfacegen5_ssh_eval_buf_def)
    with clean show ?thesis by simp
  qed
qed

subsection \<open>The loop as a function of the bytes in the buffer\<close>

lemma eval_all_step:
  assumes "buf \<noteq> []"
  shows "eval_all cfg w buf =
     (case surfacegen5_ssh_eval_buf cfg w buf of
        Inl f \<Rightarrow> Inl f
      | Inr (n, w1) \<Rightarrow> if n \<le> 0 then Inr (buf, w1) else eval_all cfg w1 (drop n buf))"
  using assms by (subst eval_all.simps) simp

lemma eval_all_Nil [simp]: "eval_all cfg w [] = Inr ([], w)"
  by (subst eval_all.simps) simp

lemma eval_all_props:
  "eval_all cfg w buf = Inr (rest, w1) \<Longrightarrow>
     receive_frame w w1 \<and> (\<exists>k. k \<le> length buf \<and> rest = drop k buf)"
proof (induction cfg w buf rule: eval_all.induct)
  case (1 cfg w buf)
  show ?case
  proof (cases "buf = []")
    case True
    with "1.prems" show ?thesis by simp
  next
    case False
    with "1.prems" obtain n w2 where
      e: "surfacegen5_ssh_eval_buf cfg w buf = Inr (n, w2)"
      by (auto simp add: eval_all_step split: sum.splits)
    then have f: "receive_frame w w2" by (rule receive_frame_eval_buf)
    show ?thesis
    proof (cases "n \<le> 0")
      case True
      with False e "1.prems" have "rest = buf" "w1 = w2" by (simp_all add: eval_all_step)
      with f show ?thesis by (auto intro: exI [of _ 0])
    next
      case pos: False
      with False e "1.prems" have r: "eval_all cfg w2 (drop n buf) = Inr (rest, w1)"
        by (simp add: eval_all_step)
      from "1.IH" [OF False e refl pos r] obtain k where
        k: "receive_frame w2 w1" "k \<le> length (drop n buf)" "rest = drop k (drop n buf)"
        by blast
      from e have "n \<le> length buf" by (rule eval_buf_le_size)
      with k have "n + k \<le> length buf" "rest = drop (n + k) buf"
        by (simp_all add: add.commute)
      with f k(1) show ?thesis by (blast intro: receive_frame_trans)
    qed
  qed
qed

lemma with_ptr_eval_all:
  "eval_all cfg (with_ptr p w) buf = map_sum id (apsnd (with_ptr p)) (eval_all cfg w buf)"
proof (induction cfg w buf rule: eval_all.induct)
  case (1 cfg w buf)
  show ?case
  proof (cases "buf = []")
    case True
    then show ?thesis by simp
  next
    case False
    show ?thesis
    proof (cases "surfacegen5_ssh_eval_buf cfg w buf")
      case (Inl f)
      with False show ?thesis by (simp add: eval_all_step with_ptr_eval_buf)
    next
      case (Inr r)
      obtain n w2 where r: "r = (n, w2)" by (cases r)
      show ?thesis
      proof (cases "n \<le> 0")
        case True
        with False Inr r show ?thesis by (simp add: eval_all_step with_ptr_eval_buf)
      next
        case pos: False
        from "1.IH" [OF False Inr [unfolded r] refl pos] False Inr r pos
        show ?thesis by (simp add: eval_all_step with_ptr_eval_buf)
      qed
    qed
  qed
qed

lemma receive_buf_loop_eval_all:
  "offs \<le> length (eval_buf_ptr (rcv w)) \<Longrightarrow>
   receive_buf_loop cfg w offs =
     (case eval_all cfg w (drop offs (eval_buf_ptr (rcv w))) of
        Inl f \<Rightarrow> Inl f
      | Inr (rest, w1) \<Rightarrow> Inr (length (eval_buf_ptr (rcv w)) - length rest, w1))"
proof (induction cfg w offs rule: receive_buf_loop.induct)
  case (1 cfg w offs)
  let ?p = "eval_buf_ptr (rcv w)"
  show ?case
  proof (cases "offs < length ?p")
    case False
    with "1.prems" show ?thesis
      by (subst receive_buf_loop.simps) simp
  next
    case True
    then have ne: "drop offs ?p \<noteq> []" by simp
    show ?thesis
    proof (cases "surfacegen5_ssh_eval_buf cfg w (drop offs ?p)")
      case (Inl f)
      with True ne show ?thesis
        by (subst receive_buf_loop.simps) (simp add: eval_all_step)
    next
      case (Inr r)
      obtain n w2 where r: "r = (n, w2)" by (cases r)
      from Inr r have p2: "eval_buf_ptr (rcv w2) = ?p" by (intro eval_buf_ptr_same) simp
      from Inr r have le: "n \<le> length (drop offs ?p)" by (intro eval_buf_le_size) simp
      show ?thesis
      proof (cases "n \<le> 0")
        case True
        with \<open>offs < length ?p\<close> ne Inr r show ?thesis
          by (subst receive_buf_loop.simps) (simp add: eval_all_step)
      next
        case pos: False
        from le True have "offs + n \<le> length (eval_buf_ptr (rcv w2))" by (simp add: p2)
        from "1.IH" [OF True Inr [unfolded r] refl pos this] True ne Inr r pos p2
        show ?thesis
          by (subst receive_buf_loop.simps)
             (simp add: eval_all_step add.commute split: sum.split)
      qed
    qed
  qed
qed

lemma receive_buf_eval_all:
  "surfacegen5_ssh_receive_buf cfg w buf =
     (let used = min (length buf) (eval_buf_cap (rcv w) - length (eval_buf_ptr (rcv w)));
          B = eval_buf_ptr (rcv w) @ take used buf
      in case eval_all cfg w B of
           Inl f \<Rightarrow> Inl f
         | Inr (rest, w1) \<Rightarrow> Inr (used, with_ptr rest w1))"
proof -
  define used where "used = min (length buf) (eval_buf_cap (rcv w) - length (eval_buf_ptr (rcv w)))"
  define B where "B = eval_buf_ptr (rcv w) @ take used buf"
  have w0: "rcv_update (\<lambda>r. r\<lparr>eval_buf_ptr := eval_buf_ptr r @ take used buf\<rparr>) w = with_ptr B w"
    by (simp add: with_ptr_def B_def prims)
  have lp: "receive_buf_loop cfg (with_ptr B w) 0 =
     (case eval_all cfg w B of
        Inl f \<Rightarrow> Inl f
      | Inr (rest, w1) \<Rightarrow> Inr (length B - length rest, with_ptr B w1))"
    using receive_buf_loop_eval_all [of 0 "with_ptr B w" cfg]
    by (simp add: with_ptr_reads with_ptr_eval_all split: sum.split)
  have fin: "rcv_update (\<lambda>r. r\<lparr>eval_buf_ptr := drop (length B - length rest) (eval_buf_ptr r)\<rparr>)
               (with_ptr B w1) = with_ptr rest w1"
    if "eval_all cfg w B = Inr (rest, w1)" for rest w1
  proof -
    from eval_all_props [OF that] obtain k where "k \<le> length B" "rest = drop k B" by blast
    then have "drop (length B - length rest) B = rest" by simp
    then show ?thesis by (simp add: with_ptr_def prims)
  qed
  show ?thesis
    unfolding surfacegen5_ssh_receive_buf_def Let_def used_def [symmetric] B_def [symmetric] w0 lp
    by (auto simp add: fin split: sum.split)
qed

subsection \<open>Delivery in chunks\<close>

lemma clean_split:
  assumes "receive_frame w wa" and "receive_frame wa wb"
    and "\<forall>e \<in> set (emitted w wb). \<not> discards_everything e"
  shows "\<forall>e \<in> set (emitted w wa). \<not> discards_everything e"
    and "\<forall>e \<in> set (emitted wa wb). \<not> discards_everything e"
  using assms(3) emitted_frame [OF assms(1,2)] by auto

lemma eval_all_chunk:
  "eval_all cfg w (S @ ys) = Inr (r2, w2) \<Longrightarrow>
   \<forall>e \<in> set (emitted w w2). \<not> discards_everything e \<Longrightarrow>
   eval_all cfg w S = Inr (r1, w1) \<Longrightarrow>
   eval_all cfg w1 (r1 @ ys) = Inr (r2, w2)
   \<and> (\<forall>e \<in> set (emitted w1 w2). \<not> discards_everything e)"
proof (induction cfg w S rule: eval_all.induct)
  case (1 cfg w S)
  note long = "1.prems"(1) and clean = "1.prems"(2) and short = "1.prems"(3)
  show ?case
  proof (cases "S = []")
    case True
    with short long clean show ?thesis by simp
  next
    case ne: False
    with short obtain m wS where
      es: "surfacegen5_ssh_eval_buf cfg w S = Inr (m, wS)"
      by (auto simp add: eval_all_step split: sum.splits)
    from ne have ne': "S @ ys \<noteq> []" by simp
    with long obtain n wL where
      el: "surfacegen5_ssh_eval_buf cfg w (S @ ys) = Inr (n, wL)"
      by (auto simp add: eval_all_step split: sum.splits)
    show ?thesis
    proof (cases "m \<le> 0")
      case True
      then have "m = 0" by simp
      with es have "wS = w" by (intro eval_buf_need_more) simp
      with True ne es short have "r1 = S" "w1 = w" by (simp_all add: eval_all_step)
      with long clean show ?thesis by simp
    next
      case pos: False
      with ne es short have sr: "eval_all cfg wS (drop m S) = Inr (r1, w1)"
        by (simp add: eval_all_step)
      from el have f1: "receive_frame w wL" by (rule receive_frame_eval_buf)
      have f2: "receive_frame wL w2"
      proof (cases "n \<le> 0")
        case True
        with ne' el long have "w2 = wL" by (simp add: eval_all_step)
        then show ?thesis by simp
      next
        case False
        with ne' el long have "eval_all cfg wL (drop n (S @ ys)) = Inr (r2, w2)"
          by (simp add: eval_all_step)
        then show ?thesis using eval_all_props by blast
      qed
      note cl = clean_split [OF f1 f2 clean]
      from eval_buf_shorter [OF el cl(1) es] pos have same: "m = n" "wS = wL" by auto
      from es have "m \<le> length S" by (rule eval_buf_le_size)
      with same have d: "drop n (S @ ys) = drop m S @ ys" by simp
      from pos same ne' el long d have lr: "eval_all cfg wS (drop m S @ ys) = Inr (r2, w2)"
        by (simp add: eval_all_step)
      from cl(2) same have c2: "\<forall>e \<in> set (emitted wS w2). \<not> discards_everything e" by simp
      from "1.IH" [OF ne es refl pos lr c2 sr] show ?thesis .
    qed
  qed
qed

lemma emitted_with_ptr [simp]: "emitted (with_ptr p w) (with_ptr q w1) = emitted w w1"
  "emitted w (with_ptr q w1) = emitted w w1" "emitted (with_ptr p w) w1 = emitted w w1"
  by (simp_all add: emitted_def with_ptr_reads)

lemma receive_buf_two_chunks:
  assumes fits: "length (eval_buf_ptr (rcv w)) + length xs + length ys \<le> eval_buf_cap (rcv w)"
    and long: "surfacegen5_ssh_receive_buf cfg w (xs @ ys) = Inr (u, w2)"
    and clean: "\<forall>e \<in> set (emitted w w2). \<not> discards_everything e"
    and short: "surfacegen5_ssh_receive_buf cfg w xs = Inr (u1, w1)"
  shows "surfacegen5_ssh_receive_buf cfg w1 ys = Inr (length ys, w2)"
    and "\<forall>e \<in> set (emitted w1 w2). \<not> discards_everything e"
    and "length (eval_buf_ptr (rcv w1)) \<le> length (eval_buf_ptr (rcv w)) + length xs"
    and "eval_buf_cap (rcv w1) = eval_buf_cap (rcv w)"
proof -
  let ?P = "eval_buf_ptr (rcv w)"
  from fits have ul: "min (length (xs @ ys)) (eval_buf_cap (rcv w) - length ?P) = length (xs @ ys)"
    and us: "min (length xs) (eval_buf_cap (rcv w) - length ?P) = length xs"
    by simp_all
  from long obtain r2 wL where
    la: "eval_all cfg w ((?P @ xs) @ ys) = Inr (r2, wL)" and w2: "w2 = with_ptr r2 wL"
    unfolding receive_buf_eval_all Let_def ul by (auto split: sum.splits)
  from short obtain r1 wS where
    sa: "eval_all cfg w (?P @ xs) = Inr (r1, wS)" and w1: "w1 = with_ptr r1 wS"
    unfolding receive_buf_eval_all Let_def us by (auto split: sum.splits)
  from clean w2 have cl: "\<forall>e \<in> set (emitted w wL). \<not> discards_everything e" by simp
  from eval_all_chunk [OF la cl sa]
  have ra: "eval_all cfg wS (r1 @ ys) = Inr (r2, wL)"
    and c2: "\<forall>e \<in> set (emitted wS wL). \<not> discards_everything e"
    by simp_all
  from eval_all_props [OF sa] obtain k where
    fr: "receive_frame w wS" and k: "k \<le> length (?P @ xs)" "r1 = drop k (?P @ xs)"
    by blast
  from fr have cap: "eval_buf_cap (rcv wS) = eval_buf_cap (rcv w)"
    by (simp add: receive_frame_def)
  from k have lr: "length r1 \<le> length ?P + length xs" by simp
  show "length (eval_buf_ptr (rcv w1)) \<le> length ?P + length xs"
    using lr by (simp add: w1 with_ptr_reads)
  show "eval_buf_cap (rcv w1) = eval_buf_cap (rcv w)"
    using cap by (simp add: w1 with_ptr_reads)
  show "\<forall>e \<in> set (emitted w1 w2). \<not> discards_everything e"
    using c2 by (simp add: w1 w2)
  from lr fits cap
  have u2: "min (length ys) (eval_buf_cap (rcv w1) - length (eval_buf_ptr (rcv w1))) = length ys"
    by (simp add: w1 with_ptr_reads)
  have "eval_all cfg w1 (r1 @ ys) = Inr (r2, with_ptr r1 wL)"
    unfolding w1 with_ptr_eval_all ra by simp
  then show "surfacegen5_ssh_receive_buf cfg w1 ys = Inr (length ys, w2)"
    unfolding receive_buf_eval_all Let_def u2
    by (simp add: w1 w2 with_ptr_reads)
qed

text \<open>
  C2, amended. Let a byte stream be split into one or more chunks that together fit the
  free space of the evaluation buffer. If the delivery of the whole stream in one call
  returns and takes no branch of the evaluator that throws away the whole buffer (invalid
  SYN, invalid TERM, invalid control CRC of a command message, wrong type byte of the
  command frame, unknown frame type), and the delivery of the chunks one after the other
  returns too (no read past the bytes received so far), then both deliveries end in the
  same state: the same fifo content and completion count, the same receiver state, the
  same scheduled work and handler calls in the same order, the same log, and the same
  bytes left in the evaluation buffer.
\<close>

theorem receive_buf_chunking:
  assumes "chunks \<noteq> []"
    and "length (eval_buf_ptr (rcv w)) + length (concat chunks) \<le> eval_buf_cap (rcv w)"
    and "surfacegen5_ssh_receive_buf cfg w (concat chunks) = Inr (used, w1)"
    and "\<forall>e \<in> set (emitted w w1). \<not> discards_everything e"
    and "serdev_deliver cfg chunks w = Inr w2"
  shows "w2 = w1"
  using assms
proof (induction chunks arbitrary: w used rule: list_nonempty_induct)
  case (single chunk)
  then show ?case by (auto split: sum.splits)
next
  case (cons chunk chunks)
  from cons.prems(4) obtain u1 wc where
    first: "surfacegen5_ssh_receive_buf cfg w chunk = Inr (u1, wc)"
    and rest: "serdev_deliver cfg chunks wc = Inr w2"
    by (auto split: sum.splits)
  from cons.prems(1)
  have fits: "length (eval_buf_ptr (rcv w)) + length chunk + length (concat chunks)
              \<le> eval_buf_cap (rcv w)"
    by simp
  from cons.prems(2) have long: "surfacegen5_ssh_receive_buf cfg w (chunk @ concat chunks)
                                 = Inr (used, w1)"
    by simp
  note two = receive_buf_two_chunks [OF fits long cons.prems(3) first]
  from two(3,4) fits
  have fits': "length (eval_buf_ptr (rcv wc)) + length (concat chunks) \<le> eval_buf_cap (rcv wc)"
    by simp
  from cons.IH [OF fits' two(1) two(2) rest] show ?case .
qed

lemmas chunk_defs =
  surfacegen5_ssh_receive_buf_def receive_buf_loop.simps emitted_def

theorem receive_buf_chunking_witness:
  "[take 4 msg_ack0, drop 4 msg_ack0 @ take 10 msg_resp, drop 10 msg_resp] \<noteq> []
   \<and> concat [take 4 msg_ack0, drop 4 msg_ack0 @ take 10 msg_resp, drop 10 msg_resp]
       = msg_ack0 @ msg_resp
   \<and> length (eval_buf_ptr (rcv w_await_ctrl)) + length (msg_ack0 @ msg_resp)
       \<le> eval_buf_cap (rcv w_await_ctrl)
   \<and> (\<exists>w1. surfacegen5_ssh_receive_buf sg5_config w_await_ctrl (msg_ack0 @ msg_resp) = Inr (29, w1)
          \<and> emitted w_await_ctrl w1 = []
          \<and> serdev_deliver sg5_config
               [take 4 msg_ack0, drop 4 msg_ack0 @ take 10 msg_resp, drop 10 msg_resp] w_await_ctrl
             = Inr w1
          \<and> fifo (rcv w1) = [0x40, 0x00, 0x00, 0x80, 0x00, 0x01, 0x00]
          \<and> signal (rcv w1) = 2)"
proof -
  let ?chunks = "[take 4 msg_ack0, drop 4 msg_ack0 @ take 10 msg_resp, drop 10 msg_resp]"
  have ne: "?chunks \<noteq> []" by simp
  have cc: "concat ?chunks = msg_ack0 @ msg_resp"
    by (simp add: msg_ack0_def msg_resp_def)
  have fits: "length (eval_buf_ptr (rcv w_await_ctrl)) + length (concat ?chunks)
              \<le> eval_buf_cap (rcv w_await_ctrl)"
    by (simp add: world_defs prims msg_ack0_def msg_resp_def)
  have "\<exists>w1. surfacegen5_ssh_receive_buf sg5_config w_await_ctrl (concat ?chunks) = Inr (29, w1)
            \<and> emitted w_await_ctrl w1 = []
            \<and> fifo (rcv w1) = [0x40, 0x00, 0x00, 0x80, 0x00, 0x01, 0x00]
            \<and> signal (rcv w1) = 2"
    by (simp add: chunk_defs eval_defs world_defs msg_ack0_def msg_resp_def Let_def)
  then obtain w1 where
    one: "surfacegen5_ssh_receive_buf sg5_config w_await_ctrl (concat ?chunks) = Inr (29, w1)"
    and em: "emitted w_await_ctrl w1 = []"
    and ff: "fifo (rcv w1) = [0x40, 0x00, 0x00, 0x80, 0x00, 0x01, 0x00]" "signal (rcv w1) = 2"
    by blast
  have "\<exists>w2. serdev_deliver sg5_config ?chunks w_await_ctrl = Inr w2"
    by (simp add: chunk_defs eval_defs world_defs msg_ack0_def msg_resp_def Let_def)
  then obtain w2 where many: "serdev_deliver sg5_config ?chunks w_await_ctrl = Inr w2"
    by blast
  from em have clean: "\<forall>e \<in> set (emitted w_await_ctrl w1). \<not> discards_everything e"
    by simp
  from receive_buf_chunking [OF ne fits one clean many] have "w2 = w1" .
  with one em ff many ne cc fits show ?thesis
    by (auto simp only: cc)
qed

text \<open>
  C2 as stated fails. The stream below is six zero bytes followed by the ACK the receiver
  waits for. Delivered in one piece, the invalid SYN makes the evaluator throw away all 16
  bytes, and no packet reaches the fifo; delivered as the six bytes and then the ACK, the
  ACK is put into the fifo.
\<close>

theorem receive_buf_chunking_counterexample:
  "concat [[0, 0, 0, 0, 0, 0], msg_ack0] = [0, 0, 0, 0, 0, 0] @ msg_ack0
   \<and> length (eval_buf_ptr (rcv w_await_ctrl)) + length ([0, 0, 0, 0, 0, 0] @ msg_ack0)
       \<le> eval_buf_cap (rcv w_await_ctrl)
   \<and> (\<exists>w1. surfacegen5_ssh_receive_buf sg5_config w_await_ctrl ([0, 0, 0, 0, 0, 0] @ msg_ack0)
            = Inr (16, w1)
          \<and> fifo (rcv w1) = [] \<and> signal (rcv w1) = 0)
   \<and> (\<exists>w2. serdev_deliver sg5_config [[0, 0, 0, 0, 0, 0], msg_ack0] w_await_ctrl = Inr w2
          \<and> fifo (rcv w2) = [0x40, 0x00, 0x00] \<and> signal (rcv w2) = 1)"
  by (simp add: chunk_defs eval_defs world_defs msg_ack0_def Let_def)

end
